theory Spec2Isabelle
  imports Complex_Main
begin

section \<open>Protocol values\<close>

text \<open>
  The driver talks to the browser in JSON frames. A decoded frame is a Python dict; the
  code only looks keys up (\<open>'id' in data\<close>, \<open>response['id']\<close>,
  \<open>response.get('result', {})\<close>), compares values and tests their truth value.
  \<open>JNum\<close> is a Python int and \<open>JFloat\<close> a Python float, read as the real number it
  stands for (rounding is not modelled).
\<close>

datatype json = JNull | JBool bool | JNum int | JFloat real | JStr string
  | JArr "json list" | JObj "(string \<times> json) list"

type_synonym obj = "(string \<times> json) list"

definition has_key :: "string \<Rightarrow> obj \<Rightarrow> bool" where
  "has_key k d = (map_of d k \<noteq> None)"

definition get_or :: "obj \<Rightarrow> string \<Rightarrow> json \<Rightarrow> json" where
  "get_or d k dflt = (case map_of d k of Some v \<Rightarrow> v | None \<Rightarrow> dflt)"

text \<open>Python's \<open>==\<close> between a decoded value and an int (\<open>True == 1\<close> holds there).\<close>

fun py_eq_int :: "json \<Rightarrow> int \<Rightarrow> bool" where
  "py_eq_int (JNum n) i = (n = i)"
| "py_eq_int (JFloat x) i = (x = of_int i)"
| "py_eq_int (JBool b) i = ((if b then 1 else 0) = i)"
| "py_eq_int _ i = False"

text \<open>Python's truth value of a decoded value (\<open>if result:\<close>).\<close>

fun truthy :: "json \<Rightarrow> bool" where
  "truthy JNull = False"
| "truthy (JBool b) = b"
| "truthy (JNum n) = (n \<noteq> 0)"
| "truthy (JFloat x) = (x \<noteq> 0)"
| "truthy (JStr s) = (s \<noteq> [])"
| "truthy (JArr xs) = (xs \<noteq> [])"
| "truthy (JObj kvs) = (kvs \<noteq> [])"

section \<open>Exceptions and outcomes\<close>

text \<open>
  Every \<open>raise\<close> of the modelled functions is a constructor. A call either returns,
  raises, or never returns (a blocking \<open>Queue.get()\<close> on a queue that nothing more is
  put into).
\<close>

datatype exn =
    CommandError json
  | CommandTimedOut string
  | BrowserError json
  | NoVisibleElement string nat
  | NoVisibleToType string
  | TypedTextNotFound string json
  | CouldNotGetPosition
  | NoElementsFound string
  | WebSocketConnectionClosed
  | KeyError string
  | IndexError
  | TypeError
  | AttributeError
  | ValueError

datatype 'a outcome = Returns 'a | Raises exn | Hangs

section \<open>The session: controller fields, clock and the reader thread's queues\<close>

text \<open>
  \<open>command_id\<close> and \<open>current_url\<close> are the fields of \<open>BrowserController\<close>.
  Time is a clock in milliseconds that only waits advance. \<open>outbox\<close> lists the frames
  handed to \<open>ws.send\<close>, oldest first. \<open>response_queue\<close> and \<open>event_queue\<close> hold
  what the reader thread puts, each entry with the time it is put, in arrival order;
  \<open>load_fired\<close> lists the times at which the reader sets \<open>page_loaded\<close> (kk.py), and
  \<open>page_loaded_from\<close> is the earliest such time that still counts after the last
  \<open>page_loaded.clear()\<close>. From \<open>ws_closed_from\<close> on, \<open>ws.send\<close> raises.
\<close>

record world =
  command_id :: int
  current_url :: "string option"
  now :: nat
  outbox :: "json list"
  ws_closed_from :: "nat option"
  response_queue :: "(nat \<times> obj) list"
  event_queue :: "(nat \<times> obj) list"
  load_fired :: "nat list"
  page_loaded_from :: nat

datatype frame = Frame obj | RecvError

text \<open>
  kk.py \<open>_message_handler\<close>, as a function of the frames the socket delivers (each
  with its arrival time): the responses queued, the events queued and the times
  \<open>page_loaded\<close> is set. \<open>RecvError\<close> is \<open>ws.recv()\<close> or \<open>json.loads\<close> raising:
  the loop logs and breaks, and nothing later is read.
\<close>

fun kk_message_handler ::
  "(nat \<times> frame) list \<Rightarrow> (nat \<times> obj) list \<times> (nat \<times> obj) list \<times> nat list" where
  "kk_message_handler [] = ([], [], [])"
| "kk_message_handler ((t, RecvError) # fs) = ([], [], [])"
| "kk_message_handler ((t, Frame d) # fs) =
     (case kk_message_handler fs of (rs, es, ls) \<Rightarrow>
        (let ls' = (if map_of d ''method'' = Some (JStr ''Page.loadEventFired'')
                    then t # ls else ls)
         in if has_key ''id'' d then ((t, d) # rs, es, ls')
            else if has_key ''method'' d then (rs, (t, d) # es, ls')
            else (rs, es, ls')))"

text \<open>ooo.py and newww.py \<open>message_handler\<close>: the same loop without \<open>page_loaded\<close>
  (an empty message also breaks it: \<open>RecvError\<close>).\<close>

fun message_handler ::
  "(nat \<times> frame) list \<Rightarrow> (nat \<times> obj) list \<times> (nat \<times> obj) list" where
  "message_handler [] = ([], [])"
| "message_handler ((t, RecvError) # fs) = ([], [])"
| "message_handler ((t, Frame d) # fs) =
     (case message_handler fs of (rs, es) \<Rightarrow>
        if has_key ''id'' d then ((t, d) # rs, es)
        else if has_key ''method'' d then (rs, (t, d) # es)
        else (rs, es))"

text \<open>\<open>__init__\<close> followed by the start of the reader thread on a socket that will
  deliver \<open>inbound\<close>; \<open>closed_at\<close> is when writes start to fail, if ever.\<close>

definition kk_init :: "(nat \<times> frame) list \<Rightarrow> nat option \<Rightarrow> world" where
  "kk_init inbound closed_at =
     (case kk_message_handler inbound of (rs, es, ls) \<Rightarrow>
        \<lparr>command_id = 1, current_url = None, now = 0, outbox = [],
         ws_closed_from = closed_at, response_queue = rs, event_queue = es,
         load_fired = ls, page_loaded_from = 0\<rparr>)"

definition ooo_init :: "(nat \<times> frame) list \<Rightarrow> nat option \<Rightarrow> world" where
  "ooo_init inbound closed_at =
     (case message_handler inbound of (rs, es) \<Rightarrow>
        \<lparr>command_id = 1, current_url = None, now = 0, outbox = [],
         ws_closed_from = closed_at, response_queue = rs, event_queue = es,
         load_fired = [], page_loaded_from = 0\<rparr>)"

definition ws_closed :: "world \<Rightarrow> bool" where
  "ws_closed w = (case ws_closed_from w of None \<Rightarrow> False | Some c \<Rightarrow> c \<le> now w)"

definition command_frame :: "int \<Rightarrow> string \<Rightarrow> json \<Rightarrow> json" where
  "command_frame cmd_id cmd_name params =
     JObj [(''id'', JNum cmd_id), (''method'', JStr cmd_name), (''params'', params)]"

section \<open>kk.py: \<open>send_command\<close>\<close>

text \<open>
  The wait loop of kk.py \<open>send_command\<close> (lines 130-145). One iteration is one
  \<open>response_queue.get(timeout=1)\<close>: it takes the head of the queue if that is put
  before the second is over, else it raises \<open>queue.Empty\<close> a second later. A response
  of another id is dropped and the loop goes on.
\<close>

definition kk_deliver :: "obj \<Rightarrow> json outcome" where
  "kk_deliver response =
     (case map_of response ''error'' of
        Some e \<Rightarrow> Raises (CommandError e)
      | None \<Rightarrow> Returns (get_or response ''result'' (JObj [])))"

function kk_wait_response :: "int \<Rightarrow> string \<Rightarrow> nat \<Rightarrow> world \<Rightarrow> json outcome \<times> world" where
  "kk_wait_response cmd_id cmd_name start_time w =
     (if now w - start_time < 10000 then
        (case response_queue w of
           [] \<Rightarrow> kk_wait_response cmd_id cmd_name start_time (w\<lparr>now := now w + 1000\<rparr>)
         | (t, response) # rest \<Rightarrow>
             if t < now w + 1000 then
               (case map_of response ''id'' of
                  None \<Rightarrow> (Raises (KeyError ''id''),
                           w\<lparr>now := max (now w) t, response_queue := rest\<rparr>)
                | Some i \<Rightarrow>
                    if py_eq_int i cmd_id then
                      (kk_deliver response,
                       w\<lparr>now := max (now w) t, response_queue := rest\<rparr>)
                    else kk_wait_response cmd_id cmd_name start_time
                           (w\<lparr>now := max (now w) t, response_queue := rest\<rparr>))
             else kk_wait_response cmd_id cmd_name start_time (w\<lparr>now := now w + 1000\<rparr>))
      else (Raises (CommandTimedOut cmd_name), w))"
  by pat_completeness auto
termination
  by (relation "measures [\<lambda>(c, m, s, w). length (response_queue w),
                          \<lambda>(c, m, s, w). s + 10000 - now w]") auto

declare kk_wait_response.simps [simp del]

definition kk_send_command :: "string \<Rightarrow> json \<Rightarrow> world \<Rightarrow> json outcome \<times> world" where
  "kk_send_command cmd_name params w =
     (let cmd_id = command_id w;
          w' = w\<lparr>command_id := cmd_id + 1,
                 outbox := outbox w @ [command_frame cmd_id cmd_name params]\<rparr>
      in if ws_closed w' then (Raises WebSocketConnectionClosed, w')
         else kk_wait_response cmd_id cmd_name (now w') w')"

section \<open>ooo.py and newww.py: \<open>send_command\<close>\<close>

text \<open>
  The two files share this function (ooo.py 114-126, newww.py 188-200). The loop is
  \<open>while True: response = self.response_queue.get()\<close>: a get with no timeout, which
  never returns once the queue is empty and the reader puts nothing more.
  \<open>response['error'].get('message', str(response['error']))\<close> raises
  \<open>AttributeError\<close> when the error is not a dict; the error itself stands for its
  \<open>str\<close>.
\<close>

definition deliver :: "obj \<Rightarrow> json outcome" where
  "deliver response =
     (case map_of response ''error'' of
        Some (JObj e) \<Rightarrow> Raises (BrowserError (get_or e ''message'' (JObj e)))
      | Some _ \<Rightarrow> Raises AttributeError
      | None \<Rightarrow> Returns (get_or response ''result'' (JObj [])))"

function wait_response :: "int \<Rightarrow> world \<Rightarrow> json outcome \<times> world" where
  "wait_response cmd_id w =
     (case response_queue w of
        [] \<Rightarrow> (Hangs, w)
      | (t, response) # rest \<Rightarrow>
          (case map_of response ''id'' of
             None \<Rightarrow> (Raises (KeyError ''id''),
                      w\<lparr>now := max (now w) t, response_queue := rest\<rparr>)
           | Some i \<Rightarrow>
               if py_eq_int i cmd_id then
                 (deliver response, w\<lparr>now := max (now w) t, response_queue := rest\<rparr>)
               else wait_response cmd_id
                      (w\<lparr>now := max (now w) t, response_queue := rest\<rparr>)))"
  by pat_completeness auto
termination
  by (relation "measure (\<lambda>(c, w). length (response_queue w))") auto

declare wait_response.simps [simp del]

definition send_command :: "string \<Rightarrow> json \<Rightarrow> world \<Rightarrow> json outcome \<times> world" where
  "send_command cmd_name params w =
     (let cmd_id = command_id w;
          w' = w\<lparr>command_id := cmd_id + 1,
                 outbox := outbox w @ [command_frame cmd_id cmd_name params]\<rparr>
      in if ws_closed w' then (Raises WebSocketConnectionClosed, w')
         else wait_response cmd_id w')"

section \<open>Sequences of commands\<close>

text \<open>
  The id of a frame written to the socket, and the ids a session has issued so far.
  \<open>kk_send_all\<close> and \<open>send_all\<close> make one \<open>send_command\<close> call after the other,
  whatever each call returns or raises; a call that never returns ends the sequence.
\<close>

fun frame_id :: "json \<Rightarrow> int" where
  "frame_id (JObj d) = (case map_of d ''id'' of Some (JNum n) \<Rightarrow> n | _ \<Rightarrow> 0)"
| "frame_id _ = 0"

definition issued_ids :: "world \<Rightarrow> int list" where
  "issued_ids w = map frame_id (outbox w)"

fun kk_send_all :: "(string \<times> json) list \<Rightarrow> world \<Rightarrow> world" where
  "kk_send_all [] w = w"
| "kk_send_all ((m, p) # cs) w = kk_send_all cs (snd (kk_send_command m p w))"

fun send_all :: "(string \<times> json) list \<Rightarrow> world \<Rightarrow> world" where
  "send_all [] w = w"
| "send_all ((m, p) # cs) w =
     (case send_command m p w of
        (Hangs, w') \<Rightarrow> w'
      | (_, w') \<Rightarrow> send_all cs w')"

text \<open>A queued response that carries an id other than \<open>c\<close>: the one kind of
  response a wait for \<open>c\<close> drops.\<close>

definition other_id :: "int \<Rightarrow> obj \<Rightarrow> bool" where
  "other_id c r = (case map_of r ''id'' of Some i \<Rightarrow> \<not> py_eq_int i c | None \<Rightarrow> False)"

text \<open>What a wait of kk.py for \<open>c\<close> delivers if it is not cut short by its
  deadline: the reply of the first queued response that is not of another id.\<close>

definition kk_answer :: "int \<Rightarrow> string \<Rightarrow> (nat \<times> obj) list \<Rightarrow> json outcome" where
  "kk_answer c m q =
     (case find (\<lambda>(t, r). \<not> other_id c r) q of
        None \<Rightarrow> Raises (CommandTimedOut m)
      | Some (t, r) \<Rightarrow> if has_key ''id'' r then kk_deliver r else Raises (KeyError ''id''))"

text \<open>A frame that answers command \<open>c\<close>: a response, and not one of another id.\<close>

definition answers :: "int \<Rightarrow> frame \<Rightarrow> bool" where
  "answers c f = (case f of Frame d \<Rightarrow> has_key ''id'' d \<and> \<not> other_id c d | RecvError \<Rightarrow> False)"

section \<open>The scripts sent to the page\<close>

text \<open>
  Each script is the text that the source's string literal or f-string builds: the
  constant parts character for character, and the selector or text spliced in where the
  f-string has its placeholder. Nothing is escaped on the way.
\<close>

definition wait_for_selector_script :: "string \<Rightarrow> string" where
  \<open>wait_for_selector_script selector =
     [CHR 0x0A] @
     ''                try {'' @ [CHR 0x0A] @
     ''                    var elements = document.querySelectorAll("'' @ selector @ ''");'' @ [CHR 0x0A] @
     ''                    for (var i = 0; i < elements.length; i++) {'' @ [CHR 0x0A] @
     ''                        var style = window.getComputedStyle(elements[i]);'' @ [CHR 0x0A] @
     ''                        if (style.display !== "none" && style.visibility !== "hidden") {'' @ [CHR 0x0A] @
     ''                            return true;'' @ [CHR 0x0A] @
     ''                        }'' @ [CHR 0x0A] @
     ''                    }'' @ [CHR 0x0A] @
     ''                    return false;'' @ [CHR 0x0A] @
     ''                } catch (e) {'' @ [CHR 0x0A] @
     ''                    console.error("Error in wait_for_selector:", e);'' @ [CHR 0x0A] @
     ''                    return false;'' @ [CHR 0x0A] @
     ''                }'' @ [CHR 0x0A] @
     ''            ''\<close>












definition ooo_press_enter_focus_script :: "string \<Rightarrow> string" where
  \<open>ooo_press_enter_focus_script selector =
     [CHR 0x0A] @
     ''                try {'' @ [CHR 0x0A] @
     ''                    var element = document.querySelector("'' @ selector @ ''");'' @ [CHR 0x0A] @
     ''                    if (element) {'' @ [CHR 0x0A] @
     ''                        element.focus();'' @ [CHR 0x0A] @
     ''                        return true;'' @ [CHR 0x0A] @
     ''                    }'' @ [CHR 0x0A] @
     ''                    return false;'' @ [CHR 0x0A] @
     ''                } catch (e) {'' @ [CHR 0x0A] @
     ''                    console.error("Error focusing element:", e);'' @ [CHR 0x0A] @
     ''                    return false;'' @ [CHR 0x0A] @
     ''                }'' @ [CHR 0x0A] @
     ''            ''\<close>

definition ooo_press_enter_script :: "string \<Rightarrow> string" where
  \<open>ooo_press_enter_script selector =
     [CHR 0x0A] @
     ''                try {'' @ [CHR 0x0A] @
     ''                    var element = document.querySelector("'' @ selector @ ''");'' @ [CHR 0x0A] @
     ''                    if (element) {'' @ [CHR 0x0A] @
     ''                        // Method 1: KeyboardEvent'' @ [CHR 0x0A] @
     ''                        element.dispatchEvent(new KeyboardEvent("keydown", {'' @ [CHR 0x0A] @
     ''                            key: "Enter",'' @ [CHR 0x0A] @
     ''                            code: "Enter",'' @ [CHR 0x0A] @
     ''                            keyCode: 13,'' @ [CHR 0x0A] @
     ''                            which: 13,'' @ [CHR 0x0A] @
     ''                            bubbles: true'' @ [CHR 0x0A] @
     ''                        }));'' @ [CHR 0x0A] @
     ''                        '' @ [CHR 0x0A] @
     ''                        element.dispatchEvent(new KeyboardEvent("keypress", {'' @ [CHR 0x0A] @
     ''                            key: "Enter",'' @ [CHR 0x0A] @
     ''                            code: "Enter",'' @ [CHR 0x0A] @
     ''                            keyCode: 13,'' @ [CHR 0x0A] @
     ''                            which: 13,'' @ [CHR 0x0A] @
     ''                            bubbles: true'' @ [CHR 0x0A] @
     ''                        }));'' @ [CHR 0x0A] @
     ''                        '' @ [CHR 0x0A] @
     ''                        element.dispatchEvent(new KeyboardEvent("keyup", {'' @ [CHR 0x0A] @
     ''                            key: "Enter",'' @ [CHR 0x0A] @
     ''                            code: "Enter",'' @ [CHR 0x0A] @
     ''                            keyCode: 13,'' @ [CHR 0x0A] @
     ''                            which: 13,'' @ [CHR 0x0A] @
     ''                            bubbles: true'' @ [CHR 0x0A] @
     ''                        }));'' @ [CHR 0x0A] @
     ''                        '' @ [CHR 0x0A] @
     ''                        // Method 2: Form submission if element is in a form'' @ [CHR 0x0A] @
     ''                        if (element.form) {'' @ [CHR 0x0A] @
     ''                            element.form.submit();'' @ [CHR 0x0A] @
     ''                        }'' @ [CHR 0x0A] @
     ''                        '' @ [CHR 0x0A] @
     ''                        return true;'' @ [CHR 0x0A] @
     ''                    }'' @ [CHR 0x0A] @
     ''                    return false;'' @ [CHR 0x0A] @
     ''                } catch (e) {'' @ [CHR 0x0A] @
     ''                    console.error("Error pressing Enter:", e);'' @ [CHR 0x0A] @
     ''                    return false;'' @ [CHR 0x0A] @
     ''                }'' @ [CHR 0x0A] @
     ''            ''\<close>

definition ooo_youtube_enter_script :: "string" where
  \<open>ooo_youtube_enter_script =
     [CHR 0x0A] @
     ''                        var searchButton = document.querySelector("#search-icon-legacy") || '' @ [CHR 0x0A] @
     ''                                           document.querySelector("button[aria-label='Search']");'' @ [CHR 0x0A] @
     ''                        if (searchButton) {'' @ [CHR 0x0A] @
     ''                            searchButton.click();'' @ [CHR 0x0A] @
     ''                            return;'' @ [CHR 0x0A] @
     ''                        }'' @ [CHR 0x0A] @
     ''                        '' @ [CHR 0x0A] @
     ''                        // Try submitting the search form'' @ [CHR 0x0A] @
     ''                        var searchForm = document.querySelector("form#search-form");'' @ [CHR 0x0A] @
     ''                        if (searchForm) {'' @ [CHR 0x0A] @
     ''                            searchForm.submit();'' @ [CHR 0x0A] @
     ''                            return;'' @ [CHR 0x0A] @
     ''                        }'' @ [CHR 0x0A] @
     ''                        '' @ [CHR 0x0A] @
     ''                        // Last resort: try to press Enter on the search input again'' @ [CHR 0x0A] @
     ''                        var searchInput = document.querySelector("input#search") || '' @ [CHR 0x0A] @
     ''                                          document.querySelector("input[name='search_query']");'' @ [CHR 0x0A] @
     ''                        if (searchInput) {'' @ [CHR 0x0A] @
     ''                            searchInput.dispatchEvent(new KeyboardEvent("keydown", {'' @ [CHR 0x0A] @
     ''                                key: "Enter",'' @ [CHR 0x0A] @
     ''                                code: "Enter",'' @ [CHR 0x0A] @
     ''                                keyCode: 13,'' @ [CHR 0x0A] @
     ''                                which: 13,'' @ [CHR 0x0A] @
     ''                                bubbles: true'' @ [CHR 0x0A] @
     ''                            }));'' @ [CHR 0x0A] @
     ''                        }'' @ [CHR 0x0A] @
     ''                    ''\<close>

definition newww_type_script :: "string \<Rightarrow> string \<Rightarrow> string" where
  \<open>newww_type_script selector txt =
     [CHR 0x0A] @
     ''                try {'' @ [CHR 0x0A] @
     ''                    var elements = document.querySelectorAll("'' @ selector @ ''");'' @ [CHR 0x0A] @
     ''                    for (var i = 0; i < elements.length; i++) {'' @ [CHR 0x0A] @
     ''                        var style = window.getComputedStyle(elements[i]);'' @ [CHR 0x0A] @
     ''                        if (style.display !== "none" && style.visibility !== "hidden") {'' @ [CHR 0x0A] @
     ''                            elements[i].focus();'' @ [CHR 0x0A] @
     ''                            elements[i].value = "'' @ txt @ ''";'' @ [CHR 0x0A] @
     ''                            elements[i].dispatchEvent(new Event("input", { bubbles: true }));'' @ [CHR 0x0A] @
     ''                            elements[i].dispatchEvent(new Event("change", { bubbles: true }));'' @ [CHR 0x0A] @
     ''                            return true;'' @ [CHR 0x0A] @
     ''                        }'' @ [CHR 0x0A] @
     ''                    }'' @ [CHR 0x0A] @
     ''                    return false;'' @ [CHR 0x0A] @
     ''                } catch (e) {'' @ [CHR 0x0A] @
     ''                    console.error("Error in type:", e);'' @ [CHR 0x0A] @
     ''                    return false;'' @ [CHR 0x0A] @
     ''                }'' @ [CHR 0x0A] @
     ''            ''\<close>

definition newww_readback_script :: "string \<Rightarrow> string" where
  \<open>newww_readback_script selector =
     ''return document.querySelector("'' @ selector @ ''").value''\<close>

definition newww_youtube_type_script :: "string \<Rightarrow> string \<Rightarrow> string" where
  \<open>newww_youtube_type_script alt_selector txt =
     [CHR 0x0A] @
     ''                            var el = document.querySelector("'' @ alt_selector @ ''");'' @ [CHR 0x0A] @
     ''                            el.focus();'' @ [CHR 0x0A] @
     ''                            el.value = "'' @ txt @ ''";'' @ [CHR 0x0A] @
     ''                            el.dispatchEvent(new Event("input", { bubbles: true }));'' @ [CHR 0x0A] @
     ''                            el.dispatchEvent(new Event("change", { bubbles: true }));'' @ [CHR 0x0A] @
     ''                        ''\<close>

definition kk_type_fallback_script :: "string \<Rightarrow> string" where
  \<open>kk_type_fallback_script txt =
     [CHR 0x0A] @
     ''                // Try to find any input element that's visible'' @ [CHR 0x0A] @
     ''                const inputs = Array.from(document.querySelectorAll('input[type="text"], input:not([type]), textarea'));'' @ [CHR 0x0A] @
     ''                const visibleInput = inputs.find(el => {'' @ [CHR 0x0A] @
     ''                    const rect = el.getBoundingClientRect();'' @ [CHR 0x0A] @
     ''                    return rect.width > 0 && rect.height > 0 && '' @ [CHR 0x0A] @
     ''                           window.getComputedStyle(el).display !== 'none' &&'' @ [CHR 0x0A] @
     ''                           window.getComputedStyle(el).visibility !== 'hidden';'' @ [CHR 0x0A] @
     ''                });'' @ [CHR 0x0A] @
     ''                '' @ [CHR 0x0A] @
     ''                if (visibleInput) {'' @ [CHR 0x0A] @
     ''                    visibleInput.focus();'' @ [CHR 0x0A] @
     ''                    visibleInput.value = '' @ [CHR 0x27] @ txt @ [CHR 0x27] @ '';'' @ [CHR 0x0A] @
     ''                    visibleInput.dispatchEvent(new Event('input', { bubbles: true }));'' @ [CHR 0x0A] @
     ''                    visibleInput.dispatchEvent(new Event('change', { bubbles: true }));'' @ [CHR 0x0A] @
     ''                    return true;'' @ [CHR 0x0A] @
     ''                }'' @ [CHR 0x0A] @
     ''                return false;'' @ [CHR 0x0A] @
     ''            ''\<close>

definition kk_press_enter_focus_script :: "string \<Rightarrow> string" where
  \<open>kk_press_enter_focus_script selector =
     [CHR 0x0A] @
     ''                const el = document.querySelector('' @ [CHR 0x27] @ selector @ [CHR 0x27] @ '');'' @ [CHR 0x0A] @
     ''                if (el) {'' @ [CHR 0x0A] @
     ''                    el.focus();'' @ [CHR 0x0A] @
     ''                    return true;'' @ [CHR 0x0A] @
     ''                }'' @ [CHR 0x0A] @
     ''                return false;'' @ [CHR 0x0A] @
     ''            ''\<close>

definition kk_focus_active_script :: "string" where
  \<open>kk_focus_active_script =
     [CHR 0x0A] @
     ''                    // Try to find the active element and press enter on it'' @ [CHR 0x0A] @
     ''                    if (document.activeElement && '' @ [CHR 0x0A] @
     ''                        document.activeElement !== document.body) {'' @ [CHR 0x0A] @
     ''                        document.activeElement.focus();'' @ [CHR 0x0A] @
     ''                    }'' @ [CHR 0x0A] @
     ''                ''\<close>

definition kk_submit_form_script :: "string" where
  \<open>kk_submit_form_script =
     [CHR 0x0A] @
     ''            const form = document.querySelector('form');'' @ [CHR 0x0A] @
     ''            if (form) {'' @ [CHR 0x0A] @
     ''                form.submit();'' @ [CHR 0x0A] @
     ''            }'' @ [CHR 0x0A] @
     ''        ''\<close>

section \<open>Waiting and navigation\<close>

text \<open>\<open>time.sleep\<close>, in milliseconds.\<close>

definition sleep :: "nat \<Rightarrow> world \<Rightarrow> world" where
  "sleep ms w = w\<lparr>now := now w + ms\<rparr>"

text \<open>Python's \<open>needle in haystack\<close> on strings.\<close>

fun py_in :: "string \<Rightarrow> string \<Rightarrow> bool" where
  "py_in needle [] = (needle = [])"
| "py_in needle (c # cs) = (take (length needle) (c # cs) = needle \<or> py_in needle cs)"

text \<open>
  kk.py: \<open>page_loaded.clear()\<close> forgets every set up to now, and
  \<open>page_loaded.wait(timeout)\<close> returns \<open>True\<close> at once if the flag is set, \<open>True\<close> when the
  reader sets it before the timeout is over, and \<open>False\<close> after the timeout otherwise.
\<close>

definition page_loaded_clear :: "world \<Rightarrow> world" where
  "page_loaded_clear w = w\<lparr>page_loaded_from := now w + 1\<rparr>"

definition page_loaded_wait :: "nat \<Rightarrow> world \<Rightarrow> bool \<times> world" where
  "page_loaded_wait timeout w =
     (case find (\<lambda>t. page_loaded_from w \<le> t) (load_fired w) of
        Some t \<Rightarrow>
          if t < now w + timeout then (True, w\<lparr>now := max (now w) t\<rparr>)
          else (False, w\<lparr>now := now w + timeout\<rparr>)
      | None \<Rightarrow> (False, w\<lparr>now := now w + timeout\<rparr>))"

text \<open>kk.py \<open>navigate\<close> (lines 147-162). A load timeout is a logged warning.\<close>

definition kk_navigate :: "string \<Rightarrow> world \<Rightarrow> unit outcome \<times> world" where
  "kk_navigate url w =
     (case kk_send_command ''Page.navigate'' (JObj [(''url'', JStr url)]) (page_loaded_clear w) of
        (Returns _, w1) \<Rightarrow>
          (case page_loaded_wait 30000 (w1\<lparr>current_url := Some url\<rparr>) of
             (loaded, w2) \<Rightarrow> (Returns (), sleep 3000 w2))
      | (Raises e, w1) \<Rightarrow> (Raises e, w1)
      | (Hangs, w1) \<Rightarrow> (Hangs, w1))"

text \<open>
  newww.py \<open>navigate\<close> (lines 202-211). The wait for the load event is
  \<open>while True: event = self.event_queue.get()\<close>, a get with no timeout.
\<close>

function wait_load_event :: "world \<Rightarrow> unit outcome \<times> world" where
  "wait_load_event w =
     (case event_queue w of
        [] \<Rightarrow> (Hangs, w)
      | (t, event) # rest \<Rightarrow>
          (case map_of event ''method'' of
             None \<Rightarrow> (Raises (KeyError ''method''),
                      w\<lparr>now := max (now w) t, event_queue := rest\<rparr>)
           | Some m \<Rightarrow>
               if m = JStr ''Page.loadEventFired''
               then (Returns (), w\<lparr>now := max (now w) t, event_queue := rest\<rparr>)
               else wait_load_event (w\<lparr>now := max (now w) t, event_queue := rest\<rparr>)))"
  by pat_completeness auto
termination
  by (relation "measure (\<lambda>w. length (event_queue w))") auto

declare wait_load_event.simps [simp del]

definition newww_navigate :: "string \<Rightarrow> world \<Rightarrow> unit outcome \<times> world" where
  "newww_navigate url w =
     (case send_command ''Page.enable'' (JObj []) w of
        (Returns _, w1) \<Rightarrow>
          (case send_command ''Page.navigate'' (JObj [(''url'', JStr url)]) w1 of
             (Returns _, w2) \<Rightarrow>
               (case wait_load_event (w2\<lparr>current_url := Some url\<rparr>) of
                  (Returns _, w3) \<Rightarrow> (Returns (), sleep 2000 w3)
                | (Raises e, w3) \<Rightarrow> (Raises e, w3)
                | (Hangs, w3) \<Rightarrow> (Hangs, w3))
           | (Raises e, w2) \<Rightarrow> (Raises e, w2)
           | (Hangs, w2) \<Rightarrow> (Hangs, w2))
      | (Raises e, w1) \<Rightarrow> (Raises e, w1)
      | (Hangs, w1) \<Rightarrow> (Hangs, w1))"



section \<open>Sequencing, \<open>try\<close> and \<open>except\<close>\<close>

text \<open>
  \<open>and_then\<close> is one statement after another: the second runs only if the first
  returned. \<open>try_except\<close> is \<open>try: ... except Exception as e: ...\<close>: the handler runs
  on every exception; a call that never returns never reaches it.
\<close>

definition and_then ::
  "'a outcome \<times> world \<Rightarrow> ('a \<Rightarrow> world \<Rightarrow> 'b outcome \<times> world) \<Rightarrow> 'b outcome \<times> world" where
  "and_then r f =
     (case r of
        (Returns v, w) \<Rightarrow> f v w
      | (Raises e, w) \<Rightarrow> (Raises e, w)
      | (Hangs, w) \<Rightarrow> (Hangs, w))"

definition try_except ::
  "'a outcome \<times> world \<Rightarrow> (exn \<Rightarrow> world \<Rightarrow> 'a outcome \<times> world) \<Rightarrow> 'a outcome \<times> world" where
  "try_except r handler = (case r of (Raises e, w) \<Rightarrow> handler e w | _ \<Rightarrow> r)"

section \<open>ooo.py and newww.py: \<open>execute_script\<close> and \<open>wait_for_selector\<close>\<close>

text \<open>
  Python's \<open>key in value\<close> and \<open>value[key]\<close> for a string key: \<open>in\<close> looks among the
  keys of a dict, the items of a list and the substrings of a string, and raises
  \<open>TypeError\<close> on any other value; a string key subscripts a dict only.
\<close>

definition json_in :: "string \<Rightarrow> json \<Rightarrow> bool outcome" where
  "json_in k v =
     (case v of
        JObj d \<Rightarrow> Returns (has_key k d)
      | JArr xs \<Rightarrow> Returns (JStr k \<in> set xs)
      | JStr s \<Rightarrow> Returns (py_in k s)
      | _ \<Rightarrow> Raises TypeError)"

definition subscript :: "json \<Rightarrow> string \<Rightarrow> json outcome" where
  "subscript v k =
     (case v of
        JObj d \<Rightarrow> (case map_of d k of Some x \<Rightarrow> Returns x | None \<Rightarrow> Raises (KeyError k))
      | _ \<Rightarrow> Raises TypeError)"

text \<open>
  \<open>execute_script\<close> (ooo.py 167-179, newww.py 213-221). ooo.py asks for
  \<open>returnByValue\<close> and \<open>awaitPromise\<close> (\<open>by_value = True\<close>), newww.py sends the
  expression alone (\<open>by_value = False\<close>). \<open>decode_result\<close> is the part after
  \<open>send_command\<close>: the \<open>value\<close> of the inner \<open>result\<close>, else its \<open>description\<close>, else
  \<open>None\<close>.
\<close>

definition decode_result :: "json \<Rightarrow> json outcome" where
  "decode_result result =
     (case json_in ''result'' result of
        Returns has_result \<Rightarrow>
          if has_result then
            (case subscript result ''result'' of
               Returns inner \<Rightarrow>
                 (case json_in ''value'' inner of
                    Returns has_value \<Rightarrow>
                      if has_value then subscript inner ''value''
                      else
                        (case json_in ''description'' inner of
                           Returns has_description \<Rightarrow>
                             if has_description then subscript inner ''description''
                             else Returns JNull
                         | Raises e \<Rightarrow> Raises e
                         | Hangs \<Rightarrow> Hangs)
                  | Raises e \<Rightarrow> Raises e
                  | Hangs \<Rightarrow> Hangs)
             | Raises e \<Rightarrow> Raises e
             | Hangs \<Rightarrow> Hangs)
          else Returns JNull
      | Raises e \<Rightarrow> Raises e
      | Hangs \<Rightarrow> Hangs)"

definition evaluate_params :: "bool \<Rightarrow> string \<Rightarrow> json" where
  "evaluate_params by_value script =
     JObj ((''expression'', JStr script) #
           (if by_value then [(''returnByValue'', JBool True), (''awaitPromise'', JBool True)]
            else []))"

definition execute_script :: "bool \<Rightarrow> string \<Rightarrow> world \<Rightarrow> json outcome \<times> world" where
  "execute_script by_value script w =
     and_then (send_command ''Runtime.evaluate'' (evaluate_params by_value script) w)
       (\<lambda>result w'. (decode_result result, w'))"

lemma wait_response_clock: "now w \<le> now (snd (wait_response c w))"
proof (induction c w rule: wait_response.induct)
  case (1 c w)
  show ?case
    by (subst wait_response.simps)
       (use 1 in \<open>auto split: list.splits option.splits intro: order_trans[OF max.cobounded1]\<close>)
qed

lemma send_command_clock: "now w \<le> now (snd (send_command m p w))"
  using wait_response_clock[of "w\<lparr>command_id := command_id w + 1,
      outbox := outbox w @ [command_frame (command_id w) m p]\<rparr>" "command_id w"]
  by (simp add: send_command_def Let_def)

lemma execute_script_clock: "now w \<le> now (snd (execute_script b s w))"
  using send_command_clock[of w "''Runtime.evaluate''" "evaluate_params b s"]
  by (cases "send_command ''Runtime.evaluate'' (evaluate_params b s) w")
     (auto simp add: execute_script_def and_then_def split: outcome.splits)

text \<open>
  \<open>wait_for_selector\<close> (ooo.py 195-217, newww.py 236-258): the script is evaluated
  every half second until its value is true or \<open>timeout\<close> (milliseconds here) is over.
\<close>

function wait_for_selector :: "bool \<Rightarrow> string \<Rightarrow> nat \<Rightarrow> nat \<Rightarrow> world \<Rightarrow> bool outcome \<times> world" where
  "wait_for_selector by_value selector timeout start_time w =
     (if now w - start_time < timeout then
        (case execute_script by_value (wait_for_selector_script selector) w of
           (Returns result, w') \<Rightarrow>
             if truthy result then (Returns True, w')
             else wait_for_selector by_value selector timeout start_time (sleep 500 w')
         | (Raises e, w') \<Rightarrow> (Raises e, w')
         | (Hangs, w') \<Rightarrow> (Hangs, w'))
      else (Raises (NoVisibleElement selector timeout), w))"
  by pat_completeness auto
termination
proof (relation "measure (\<lambda>(b, sel, timeout, s, w). s + timeout - now w)", goal_cases)
  case 1
  show ?case by simp
next
  case (2 b sel timeout s w r w' result)
  have "now w \<le> now w'"
    using execute_script_clock[of w b "wait_for_selector_script sel"] 2(2)[symmetric] by simp
  with 2(1) show ?case by (simp add: sleep_def)
qed

declare wait_for_selector.simps [simp del]

section \<open>ooo.py: \<open>navigate\<close>\<close>




section \<open>ooo.py: \<open>click\<close>\<close>

text \<open>
  The click through the protocol, taken when the script's value is false (lines
  279-313). \<open>nodeIds\<close> and \<open>content\<close> are lists in the protocol; the model raises
  \<open>TypeError\<close> for any other value. \<open>/ 2\<close> gives a float: the model keeps the
  exact half of the exact sum, where Python rounds the sum and the quotient to doubles;
  the two agree on the coordinates that a double holds exactly, and no statement below
  rests on a coordinate beyond them.
\<close>

fun num :: "json \<Rightarrow> real option" where
  "num (JNum n) = Some (of_int n)"
| "num (JFloat x) = Some x"
| "num (JBool b) = Some (if b then 1 else 0)"
| "num _ = None"

definition half_sum :: "json \<Rightarrow> json \<Rightarrow> json outcome" where
  "half_sum a b =
     (case (num a, num b) of
        (Some x, Some y) \<Rightarrow> Returns (JFloat ((x + y) / 2))
      | _ \<Rightarrow> Raises TypeError)"

definition mouse_event :: "string \<Rightarrow> json \<Rightarrow> json \<Rightarrow> json" where
  "mouse_event kind x y =
     JObj [(''type'', JStr kind), (''x'', x), (''y'', y), (''button'', JStr ''left''),
           (''clickCount'', JNum 1)]"

definition half_sum_at :: "json list \<Rightarrow> nat \<Rightarrow> nat \<Rightarrow> json outcome" where
  "half_sum_at c i j =
     (if i < length c \<and> j < length c then half_sum (c ! i) (c ! j) else Raises IndexError)"










section \<open>ooo.py: \<open>type\<close> and \<open>press_enter\<close>\<close>





definition key_event :: "string \<Rightarrow> json" where
  "key_event kind =
     JObj [(''type'', JStr kind), (''key'', JStr ''Enter''), (''code'', JStr ''Enter''),
           (''windowsVirtualKeyCode'', JNum 13)]"

definition ooo_press_enter_try :: "string \<Rightarrow> world \<Rightarrow> unit outcome \<times> world" where
  "ooo_press_enter_try selector w =
     and_then (execute_script True (ooo_press_enter_focus_script selector) w) (\<lambda>_ w1.
     and_then (execute_script True (ooo_press_enter_script selector) (sleep 500 w1)) (\<lambda>result w2.
       if \<not> truthy result
       then and_then (send_command ''Input.dispatchKeyEvent'' (key_event ''keyDown'') w2) (\<lambda>_ w3.
            and_then (send_command ''Input.dispatchKeyEvent'' (key_event ''keyUp'') w3) (\<lambda>_ w4.
              (Returns (), sleep 2000 w4)))
       else (Returns (), sleep 2000 w2)))"

text \<open>\<open>press_enter\<close> (lines 541-660).\<close>

definition ooo_press_enter :: "string \<Rightarrow> world \<Rightarrow> unit outcome \<times> world" where
  "ooo_press_enter selector w =
     try_except (ooo_press_enter_try selector w)
       (\<lambda>e w'. case current_url w' of
                  None \<Rightarrow> (Raises TypeError, w')
                | Some url \<Rightarrow>
                    if py_in ''youtube.com'' url then
                      try_except
                        (and_then (execute_script True ooo_youtube_enter_script w') (\<lambda>_ w1.
                           (Returns (), sleep 2000 w1)))
                        (\<lambda>e2 w2. (Returns (), w2))
                    else (Returns (), w'))"

section \<open>newww.py: \<open>type\<close>\<close>

text \<open>
  The \<open>try\<close> block (lines 307-334): \<open>newww_type_set\<close> is its first half, up to
  the script that sets the value; then the field is read back with
  \<open>document.querySelector(selector).value\<close> and compared with the text.
\<close>

definition newww_type_set :: "string \<Rightarrow> string \<Rightarrow> world \<Rightarrow> unit outcome \<times> world" where
  "newww_type_set selector txt w =
     and_then (wait_for_selector False selector 20000 (now w) w) (\<lambda>_ w1.
     and_then (execute_script False (newww_type_script selector txt) w1) (\<lambda>result w2.
       if \<not> truthy result then (Raises (NoVisibleToType selector), w2)
       else (Returns (), w2)))"

definition newww_type_try :: "string \<Rightarrow> string \<Rightarrow> world \<Rightarrow> bool outcome \<times> world" where
  "newww_type_try selector txt w =
     and_then (newww_type_set selector txt w) (\<lambda>_ w2.
     and_then (execute_script False (newww_readback_script selector) w2) (\<lambda>entered_text w3.
       if entered_text \<noteq> JStr txt then (Raises (TypedTextNotFound txt entered_text), w3)
       else (Returns True, w3)))"

text \<open>The handler (lines 335-352): on YouTube the first alternative selector that
  appears gets the text and the function returns \<open>True\<close>; otherwise the exception is
  raised again.\<close>

fun newww_youtube_type :: "string list \<Rightarrow> string \<Rightarrow> exn \<Rightarrow> world \<Rightarrow> bool outcome \<times> world" where
  "newww_youtube_type [] txt e w = (Raises e, w)"
| "newww_youtube_type (alt_selector # selectors) txt e w =
     try_except
       (and_then (wait_for_selector False alt_selector 20000 (now w) w) (\<lambda>_ w1.
        and_then (execute_script False (newww_youtube_type_script alt_selector txt) w1) (\<lambda>_ w2.
          (Returns True, w2))))
       (\<lambda>e' w'. newww_youtube_type selectors txt e w')"

definition newww_type :: "string \<Rightarrow> string \<Rightarrow> world \<Rightarrow> bool outcome \<times> world" where
  \<open>newww_type selector txt w =
     try_except (newww_type_try selector txt w)
       (\<lambda>e w'. case current_url w' of
                  None \<Rightarrow> (Raises TypeError, w')
                | Some url \<Rightarrow>
                    if py_in ''youtube.com'' url then
                      newww_youtube_type
                        [''input#search'',
                         ''input[name='' @ [CHR 0x27] @ ''search_query'' @ [CHR 0x27] @ '']'']
                        txt e w'
                    else (Raises e, w'))\<close>

section \<open>kk.py: \<open>execute_js\<close> and \<open>press_enter\<close>\<close>

text \<open>\<open>execute_js\<close> (lines 187-195): \<open>result.get("result", {}).get("value")\<close>;
  \<open>get\<close> on a value that is not a dict raises \<open>AttributeError\<close>.\<close>

definition kk_execute_js :: "string \<Rightarrow> world \<Rightarrow> json outcome \<times> world" where
  "kk_execute_js script w =
     (case kk_send_command ''Runtime.evaluate'' (evaluate_params True script) w of
        (Returns (JObj d), w') \<Rightarrow>
          (case get_or d ''result'' (JObj []) of
             JObj r \<Rightarrow> (Returns (get_or r ''value'' JNull), w')
           | _ \<Rightarrow> (Raises AttributeError, w'))
      | (Returns _, w') \<Rightarrow> (Raises AttributeError, w')
      | (Raises e, w') \<Rightarrow> (Raises e, w')
      | (Hangs, w') \<Rightarrow> (Hangs, w'))"

text \<open>
  \<open>press_enter\<close> (lines 386-434): the selector is optional; the key goes through
  \<open>Input.dispatchKeyEvent\<close> as \<open>keyDown\<close> and \<open>keyUp\<close>, then a fixed script submits
  \<open>document.querySelector('form')\<close> if there is one.
\<close>

definition kk_focus :: "string option \<Rightarrow> world \<Rightarrow> unit outcome \<times> world" where
  "kk_focus selector w =
     (case selector of
        None \<Rightarrow> (Returns (), w)
      | Some s \<Rightarrow>
          if s = [] then (Returns (), w)
          else and_then (kk_execute_js (kk_press_enter_focus_script s) w) (\<lambda>focused w1.
                 if \<not> truthy focused
                 then and_then (kk_execute_js kk_focus_active_script w1) (\<lambda>_ w2. (Returns (), w2))
                 else (Returns (), w1)))"

definition kk_press_enter :: "string option \<Rightarrow> world \<Rightarrow> bool outcome \<times> world" where
  "kk_press_enter selector w =
     and_then (kk_focus selector w) (\<lambda>_ w1.
     and_then (kk_send_command ''Input.dispatchKeyEvent'' (key_event ''keyDown'') w1) (\<lambda>_ w2.
     and_then (kk_send_command ''Input.dispatchKeyEvent'' (key_event ''keyUp'') w2) (\<lambda>_ w3.
     and_then (kk_execute_js kk_submit_form_script w3) (\<lambda>_ w4.
       (Returns True, sleep 2000 w4)))))"


text \<open>
  Replies of the browser to \<open>Runtime.evaluate\<close>, and a session of newww.py: after
  \<open>navigate(url)\<close> has returned, the browser answers the next commands with
  \<open>true\<close>, \<open>true\<close>, the string \<open>entered\<close>, \<open>true\<close> and \<open>true\<close>.
\<close>

definition true_reply :: "int \<Rightarrow> frame" where
  "true_reply i =
     Frame [(''id'', JNum i),
            (''result'', JObj [(''result'', JObj [(''type'', JStr ''boolean''),
                                                  (''value'', JBool True)])])]"

definition string_reply :: "int \<Rightarrow> string \<Rightarrow> frame" where
  "string_reply i s =
     Frame [(''id'', JNum i),
            (''result'', JObj [(''result'', JObj [(''type'', JStr ''string''),
                                                  (''value'', JStr s)])])]"

definition typing_session :: "string \<Rightarrow> string \<Rightarrow> world" where
  "typing_session url entered =
     snd (newww_navigate url
       (ooo_init [(10, Frame [(''id'', JNum 1), (''result'', JObj [])]),
                  (20, Frame [(''id'', JNum 2), (''result'', JObj [(''frameId'', JStr ''F'')])]),
                  (25, Frame [(''method'', JStr ''Page.loadEventFired'')]),
                  (2100, true_reply 3), (2110, true_reply 4), (2120, string_reply 5 entered),
                  (2130, true_reply 6), (2140, true_reply 7)] None))"

section \<open>om.py: \<open>execute_browser_automation\<close>\<close>

text \<open>
  The Selenium driver is outside the repository. One run of
  \<open>execute_browser_automation\<close> (lines 248-435) sees of it: whether creating the driver
  (or \<open>implicitly_wait\<close>) raised, what the body of the inner \<open>try\<close> did for the step of
  each index, and the final screenshot. \<open>step_effect\<close> is what that body wrote into
  \<open>step_result\<close> before it ended, and \<open>str(e)\<close> of the exception that ended it, if one
  did. An exception value is its \<open>str\<close>.
\<close>

record step_effect =
  details :: "string option"
  image :: "string option"
  extracted_data :: "json option"
  raised :: "string option"

record selenium =
  driver_error :: "string option"
  run_action :: "nat \<Rightarrow> json \<Rightarrow> json \<Rightarrow> step_effect"
  final_screenshot :: "string + string"

text \<open>Python's names of the types of decoded values, and the messages of the
  \<open>AttributeError\<close> and \<open>TypeError\<close> that a value of the wrong type gives.\<close>

fun type_name :: "json \<Rightarrow> string" where
  "type_name JNull = ''NoneType''"
| "type_name (JBool b) = ''bool''"
| "type_name (JNum n) = ''int''"
| "type_name (JFloat x) = ''float''"
| "type_name (JStr s) = ''str''"
| "type_name (JArr xs) = ''list''"
| "type_name (JObj kvs) = ''dict''"

definition no_attribute :: "json \<Rightarrow> string \<Rightarrow> string" where
  "no_attribute v a =
     [CHR 0x27] @ type_name v @ [CHR 0x27] @ '' object has no attribute '' @
     [CHR 0x27] @ a @ [CHR 0x27]"

definition not_iterable :: "json \<Rightarrow> string" where
  "not_iterable v = [CHR 0x27] @ type_name v @ [CHR 0x27] @ '' object is not iterable''"

text \<open>\<open>str.lower\<close> on the letters A to Z: the letter 32 places on, which is the same
  character with its sixth bit set.\<close>

definition py_lower :: "string \<Rightarrow> string" where
  "py_lower s =
     map (\<lambda>c. if 65 \<le> (of_char c :: nat) \<and> (of_char c :: nat) \<le> 90
              then (case c of Char b0 b1 b2 b3 b4 b5 b6 b7 \<Rightarrow> Char b0 b1 b2 b3 b4 True b6 b7)
              else c) s"

text \<open>\<open>enumerate(instructions.get('steps', []))\<close>: a list gives its items, a string its
  characters, a dict its keys; \<open>get\<close> needs a dict.\<close>

definition steps_of :: "json \<Rightarrow> string + json list" where
  "steps_of instructions =
     (case instructions of
        JObj d \<Rightarrow>
          (case get_or d ''steps'' (JArr []) of
             JArr xs \<Rightarrow> Inr xs
           | JStr s \<Rightarrow> Inr (map (\<lambda>c. JStr [c]) s)
           | JObj kvs \<Rightarrow> Inr (map (\<lambda>kv. JStr (fst kv)) kvs)
           | v \<Rightarrow> Inl (not_iterable v))
      | v \<Rightarrow> Inl (no_attribute v ''get''))"

text \<open>\<open>step_result\<close> as it is appended to \<open>results["steps_results"]\<close> (lines 276,
  409-414).\<close>

definition step_result :: "json \<Rightarrow> step_effect \<Rightarrow> obj" where
  "step_result action eff =
     [(''action'', action),
      (''status'', JStr (if raised eff = None then ''success'' else ''error''))] @
     (case details eff of None \<Rightarrow> [] | Some d \<Rightarrow> [(''details'', JStr d)]) @
     (case image eff of None \<Rightarrow> [] | Some i \<Rightarrow> [(''image'', JStr i)]) @
     (case extracted_data eff of None \<Rightarrow> [] | Some x \<Rightarrow> [(''extracted_data'', x)]) @
     (case raised eff of None \<Rightarrow> [] | Some m \<Rightarrow> [(''error'', JStr m)])"

text \<open>
  One round of the loop over the steps (lines 273-415) for a step that is a dict:
  \<open>action = step.get('action')\<close>, \<open>params = step.get('params', {})\<close>, then the inner
  \<open>try\<close>. \<open>run_step\<close> is what the \<open>try\<close> did, \<open>step_result\<close> of it is what the round
  appends.
\<close>

definition run_step :: "selenium \<Rightarrow> nat \<Rightarrow> obj \<Rightarrow> step_effect" where
  "run_step sel step_index step =
     run_action sel step_index (get_or step ''action'' JNull) (get_or step ''params'' (JObj []))"

text \<open>The loop (lines 272-415). \<open>step.get\<close> is outside the inner \<open>try\<close>: a step that
  is not a dict ends the run.\<close>

fun run_steps :: "selenium \<Rightarrow> nat \<Rightarrow> json list \<Rightarrow> string + obj list" where
  "run_steps sel step_index [] = Inr []"
| "run_steps sel step_index (step # steps) =
     (case step of
        JObj s \<Rightarrow>
          (case run_steps sel (Suc step_index) steps of
             Inl m \<Rightarrow> Inl m
           | Inr rs \<Rightarrow>
               Inr (step_result (get_or s ''action'' JNull) (run_step sel step_index s) # rs))
      | v \<Rightarrow> Inl (no_attribute v ''get''))"

definition error_result :: "string \<Rightarrow> obj" where
  "error_result m = [(''status'', JStr ''error''), (''message'', JStr m)]"

definition any_error :: "obj list \<Rightarrow> bool" where
  "any_error steps_results = list_ex (\<lambda>step. map_of step ''status'' = Some (JStr ''error'')) steps_results"

definition execute_browser_automation :: "selenium \<Rightarrow> json \<Rightarrow> json \<Rightarrow> obj" where
  "execute_browser_automation sel instructions browser_type =
     (case browser_type of
        JStr b \<Rightarrow>
          if py_lower b = ''chrome'' then
            (case driver_error sel of
               Some m \<Rightarrow> error_result m
             | None \<Rightarrow>
                 (case steps_of instructions of
                    Inl m \<Rightarrow> error_result m
                  | Inr steps \<Rightarrow>
                      (case run_steps sel 0 steps of
                         Inl m \<Rightarrow> error_result m
                       | Inr steps_results \<Rightarrow>
                           (case final_screenshot sel of
                              Inl m \<Rightarrow> error_result m
                            | Inr screenshot_base64 \<Rightarrow>
                                [(''status'',
                                  JStr (if any_error steps_results then ''partial_success''
                                        else ''success'')),
                                 (''steps_results'', JArr (map JObj steps_results)),
                                 (''message'',
                                  JStr (if any_error steps_results
                                        then ''Some steps failed, browser remains open for inspection''
                                        else ''Browser remains open for inspection'')),
                                 (''final_screenshot'', JStr screenshot_base64)]))))
          else [(''status'', JStr ''error''), (''message'', JStr ''Unsupported browser type'')]
      | v \<Rightarrow> error_result (no_attribute v ''lower''))"

section \<open>kk.py: \<open>click_element\<close> and \<open>type_text\<close>\<close>

definition kk_click_exists_script :: "string \<Rightarrow> string" where
  \<open>kk_click_exists_script selector =
     [CHR 0x0A] @
     ''            !!document.querySelector('' @ [CHR 0x27] @ selector @ [CHR 0x27] @ '')'' @ [CHR 0x0A] @
     ''        ''\<close>

definition kk_click_scroll_script :: "string \<Rightarrow> string" where
  \<open>kk_click_scroll_script selector =
     [CHR 0x0A] @
     ''            document.querySelector('' @ [CHR 0x27] @ selector @ [CHR 0x27] @ '').scrollIntoView({'' @ [CHR 0x0A] @
     ''                behavior: 'smooth','' @ [CHR 0x0A] @
     ''                block: 'center'' @ [CHR 0x27] @ [CHR 0x0A] @
     ''            });'' @ [CHR 0x0A] @
     ''        ''\<close>

definition kk_better_selector_script :: "string \<Rightarrow> string" where
  \<open>kk_better_selector_script selector =
     ''return !!document.querySelector('' @ [CHR 0x27] @ selector @ [CHR 0x27] @ '')''\<close>

definition kk_log_inputs_script :: "string" where
  \<open>kk_log_inputs_script =
     [CHR 0x0A] @
     ''            console.log('Available input elements:');'' @ [CHR 0x0A] @
     ''            document.querySelectorAll('input').forEach((el, i) => {'' @ [CHR 0x0A] @
     ''                console.log(`Input ${i}:`, el.outerHTML);'' @ [CHR 0x0A] @
     ''            });'' @ [CHR 0x0A] @
     ''        ''\<close>

definition kk_type_google_script :: "string \<Rightarrow> string" where
  \<open>kk_type_google_script potential_selector =
     [CHR 0x0A] @
     ''                    const el = document.querySelector('' @ [CHR 0x27] @ potential_selector @ [CHR 0x27] @ '');'' @ [CHR 0x0A] @
     ''                    if (el) {'' @ [CHR 0x0A] @
     ''                        el.focus();'' @ [CHR 0x0A] @
     ''                        el.value = '' @ [CHR 0x27] @ [CHR 0x27] @ '';'' @ [CHR 0x0A] @
     ''                        return true;'' @ [CHR 0x0A] @
     ''                    }'' @ [CHR 0x0A] @
     ''                    return false;'' @ [CHR 0x0A] @
     ''                ''\<close>

definition kk_type_focus_script :: "string \<Rightarrow> string" where
  \<open>kk_type_focus_script selector =
     [CHR 0x0A] @
     ''                const el = document.querySelector('' @ [CHR 0x27] @ selector @ [CHR 0x27] @ '');'' @ [CHR 0x0A] @
     ''                if (el) {'' @ [CHR 0x0A] @
     ''                    el.focus();'' @ [CHR 0x0A] @
     ''                    el.value = '' @ [CHR 0x27] @ [CHR 0x27] @ '';'' @ [CHR 0x0A] @
     ''                    return true;'' @ [CHR 0x0A] @
     ''                }'' @ [CHR 0x0A] @
     ''                return false;'' @ [CHR 0x0A] @
     ''            ''\<close>

definition kk_type_final_script :: "string \<Rightarrow> string" where
  \<open>kk_type_final_script selector =
     [CHR 0x0A] @
     ''            const el = document.querySelector('' @ [CHR 0x27] @ selector @ [CHR 0x27] @ '');'' @ [CHR 0x0A] @
     ''            el.dispatchEvent(new Event('input', { bubbles: true }));'' @ [CHR 0x0A] @
     ''            el.dispatchEvent(new Event('change', { bubbles: true }));'' @ [CHR 0x0A] @
     ''        ''\<close>

text \<open>\<open>find_better_selector\<close> (lines 265-294).\<close>

definition kk_potential_selectors :: "string list" where
  \<open>kk_potential_selectors =
     [''input[name='q']'',
      ''input[type='text']'',
      ''input[title='Search']'',
      ''input.gLFyf'',
      ''input[aria-label='Search']'',
      ''.search-box'',
      ''#search-form input'',
      ''form input[type='text']'']\<close>

fun kk_try_selectors :: "string list \<Rightarrow> world \<Rightarrow> string option outcome \<times> world" where
  "kk_try_selectors [] w = (Returns None, w)"
| "kk_try_selectors (selector # selectors) w =
     and_then (kk_execute_js (kk_better_selector_script selector) w) (\<lambda>exists w1.
       if truthy exists then (Returns (Some selector), w1)
       else kk_try_selectors selectors w1)"

definition kk_find_better_selector :: "string \<Rightarrow> world \<Rightarrow> string option outcome \<times> world" where
  "kk_find_better_selector failed_selector w =
     and_then (if py_in ''q'' failed_selector then kk_try_selectors kk_potential_selectors w
               else (Returns None, w)) (\<lambda>found w1.
       case found of
         Some selector \<Rightarrow> (Returns (Some selector), w1)
       | None \<Rightarrow>
           and_then (kk_execute_js kk_log_inputs_script w1) (\<lambda>_ w2. (Returns None, w2)))"

text \<open>
  \<open>click_element\<close> (lines 197-263). \<open>content\<close> is a list in the protocol; the model
  raises \<open>TypeError\<close> for any other value.
\<close>

definition kk_click_at_content :: "string \<Rightarrow> json \<Rightarrow> world \<Rightarrow> bool outcome \<times> world" where
  "kk_click_at_content selector content w =
     (case content of
        JArr c \<Rightarrow>
          and_then (half_sum_at c 0 2, w) (\<lambda>x w.
          and_then (half_sum_at c 1 5, w) (\<lambda>y w.
          and_then (kk_execute_js (kk_click_scroll_script selector) w) (\<lambda>_ w1.
          and_then (kk_send_command ''Input.dispatchMouseEvent''
                      (mouse_event ''mousePressed'' x y) (sleep 1000 w1)) (\<lambda>_ w2.
          and_then (kk_send_command ''Input.dispatchMouseEvent''
                      (mouse_event ''mouseReleased'' x y) w2) (\<lambda>_ w3.
            (Returns True, sleep 2000 w3))))))
      | _ \<Rightarrow> (Raises TypeError, w))"

definition kk_click_element :: "string \<Rightarrow> world \<Rightarrow> bool outcome \<times> world" where
  "kk_click_element selector w =
     and_then (kk_execute_js (kk_click_exists_script selector) w) (\<lambda>element_exists w1.
       if \<not> truthy element_exists then
         and_then (kk_find_better_selector selector w1) (\<lambda>_ w2. (Returns False, w2))
       else
         and_then (kk_send_command ''DOM.querySelector''
                     (JObj [(''nodeId'', JNum 1), (''selector'', JStr selector)]) w1)
           (\<lambda>node_id_result w2.
         and_then (json_in ''nodeId'' node_id_result, w2) (\<lambda>has_node_id w2.
           if \<not> has_node_id then (Returns False, w2)
           else
             and_then (subscript node_id_result ''nodeId'', w2) (\<lambda>node_id w2.
               if py_eq_int node_id 0 then (Returns False, w2)
               else
                 and_then (kk_send_command ''DOM.getBoxModel'' (JObj [(''nodeId'', node_id)]) w2)
                   (\<lambda>box_model w3.
                 and_then (json_in ''model'' box_model, w3) (\<lambda>has_model w3.
                   if \<not> has_model then (Returns False, w3)
                   else
                     and_then (subscript box_model ''model'', w3) (\<lambda>model w3.
                     and_then (subscript model ''content'', w3) (\<lambda>content w3.
                       kk_click_at_content selector content w3))))))))"

text \<open>
  \<open>type_text\<close> (lines 296-384). For the Google search box the selectors of a fixed
  list are tried in turn; the text goes to the browser as \<open>Input.insertText\<close>, one
  character per command, and only the script of the fallback carries it.
\<close>

fun kk_type_google :: "string list \<Rightarrow> string \<Rightarrow> world \<Rightarrow> (bool \<times> string) outcome \<times> world" where
  "kk_type_google [] selector w = (Returns (False, selector), w)"
| "kk_type_google (potential_selector # potential_selectors) selector w =
     and_then (kk_execute_js (kk_type_google_script potential_selector) w) (\<lambda>element_exists w1.
       if truthy element_exists then (Returns (True, potential_selector), w1)
       else kk_type_google potential_selectors selector w1)"

fun kk_insert_text :: "string \<Rightarrow> world \<Rightarrow> unit outcome \<times> world" where
  "kk_insert_text [] w = (Returns (), w)"
| "kk_insert_text (c # cs) w =
     and_then (kk_send_command ''Input.insertText'' (JObj [(''text'', JStr [c])]) w) (\<lambda>_ w1.
       kk_insert_text cs (sleep 50 w1))"

definition kk_type_text :: "string \<Rightarrow> string \<Rightarrow> world \<Rightarrow> bool outcome \<times> world" where
  \<open>kk_type_text selector txt w =
     and_then
       (if selector = ''textarea[name='q']'' then
          kk_type_google
            [''textarea[name='q']'',
             ''input[name='q']'',
             ''input[title='Search']'',
             ''input.gLFyf'',
             ''input[aria-label='Search']''] selector w
        else
          and_then (kk_execute_js (kk_type_focus_script selector) w) (\<lambda>element_exists w1.
            (Returns (truthy element_exists, selector), w1)))
       (\<lambda>found w1.
          if \<not> fst found then
            and_then (kk_execute_js (kk_type_fallback_script txt) w1) (\<lambda>success w2.
              (Returns (truthy success), w2))
          else
            and_then (kk_insert_text txt w1) (\<lambda>_ w2.
            and_then (kk_execute_js (kk_type_final_script (snd found)) w2) (\<lambda>_ w3.
              (Returns True, w3))))\<close>

section \<open>kk.py: \<open>execute_command\<close> and \<open>handle_command\<close>\<close>

text \<open>
  What \<open>execute_command\<close> calls outside the protocol: starting the browser process,
  \<open>connect\<close> (HTTP and the socket), BeautifulSoup (\<open>soup\<close> is the cleaned page for the
  value that \<open>outerHTML\<close> gave), the planner \<open>parse_command\<close> (the Gemini API) and
  Python's \<open>str\<close> in an f-string.
\<close>

record services =
  start_browser :: "world \<Rightarrow> unit outcome \<times> world"
  connect :: "world \<Rightarrow> bool outcome \<times> world"
  soup :: "json \<Rightarrow> string outcome"
  parse_command :: "json \<Rightarrow> json \<Rightarrow> json list \<Rightarrow> world \<Rightarrow> json outcome \<times> world"
  str_of :: "json \<Rightarrow> string"

text \<open>\<open>get_clean_html\<close> (lines 164-185): the cleaned page, or \<open>None\<close> when the
  reply has no \<open>result\<close> with a \<open>value\<close>.\<close>

definition kk_get_clean_html :: "services \<Rightarrow> world \<Rightarrow> json outcome \<times> world" where
  "kk_get_clean_html sv w =
     and_then (kk_send_command ''Runtime.evaluate''
                 (JObj [(''expression'', JStr ''document.documentElement.outerHTML''),
                        (''returnByValue'', JBool True)]) w) (\<lambda>result w1.
     and_then (json_in ''result'' result, w1) (\<lambda>has_result w1.
       if \<not> has_result then (Returns JNull, w1)
       else
         and_then (subscript result ''result'', w1) (\<lambda>inner w1.
         and_then (json_in ''value'' inner, w1) (\<lambda>has_value w1.
           if \<not> has_value then (Returns JNull, w1)
           else
             and_then (subscript inner ''value'', w1) (\<lambda>html w1.
               case soup sv html of
                 Returns s \<Rightarrow> (Returns (JStr s), w1)
               | Raises e \<Rightarrow> (Raises e, w1)
               | Hangs \<Rightarrow> (Hangs, w1))))))"

text \<open>
  \<open>int(step['value'])\<close> for the \<open>wait\<close> action: a number is truncated, a string is
  read as an optional sign and decimal digits between blanks, with single underscores
  between digits. The blanks are the characters that \<open>str.isspace\<close> accepts: the space,
  9 to 13, 28 to 31, 133 and 160.
\<close>

definition is_digit :: "char \<Rightarrow> bool" where
  "is_digit c = (48 \<le> (of_char c :: nat) \<and> (of_char c :: nat) \<le> 57)"

definition is_space :: "char \<Rightarrow> bool" where
  "is_space c =
     (let n = of_char c :: nat
      in n = 32 \<or> (9 \<le> n \<and> n \<le> 13) \<or> (28 \<le> n \<and> n \<le> 31) \<or> n = 133 \<or> n = 160)"

fun digits_int :: "int \<Rightarrow> bool \<Rightarrow> string \<Rightarrow> int option" where
  "digits_int acc after_digit [] = (if after_digit then Some acc else None)"
| "digits_int acc after_digit (c # cs) =
     (if is_digit c then digits_int (10 * acc + (int (of_char c) - 48)) True cs
      else if c = CHR ''_'' \<and> after_digit \<and> cs \<noteq> [] \<and> is_digit (hd cs) then digits_int acc False cs
      else None)"

definition py_int :: "json \<Rightarrow> int outcome" where
  "py_int v =
     (case v of
        JNum n \<Rightarrow> Returns n
      | JBool b \<Rightarrow> Returns (if b then 1 else 0)
      | JFloat x \<Rightarrow> Returns (if 0 \<le> x then \<lfloor>x\<rfloor> else \<lceil>x\<rceil>)
      | JStr s \<Rightarrow>
          (let t = rev (dropWhile is_space (rev (dropWhile is_space s))) in
           case t of
             [] \<Rightarrow> Raises ValueError
           | c # cs \<Rightarrow>
               if c = CHR ''-'' then
                 (case digits_int 0 False cs of Some n \<Rightarrow> Returns (- n) | None \<Rightarrow> Raises ValueError)
               else if c = CHR ''+'' then
                 (case digits_int 0 False cs of Some n \<Rightarrow> Returns n | None \<Rightarrow> Raises ValueError)
               else
                 (case digits_int 0 False t of Some n \<Rightarrow> Returns n | None \<Rightarrow> Raises ValueError))
      | _ \<Rightarrow> Raises TypeError)"

text \<open>
  The body of the \<open>try\<close> in the retry loop (lines 546-557), with the value it leaves in
  \<open>success\<close>. The controller's methods are modelled on strings: a \<open>target\<close> or
  \<open>value\<close> of another type is a \<open>TypeError\<close> here.
\<close>

definition string_arg :: "obj \<Rightarrow> string \<Rightarrow> string outcome" where
  "string_arg step k =
     (case map_of step k of
        None \<Rightarrow> Raises (KeyError k)
      | Some (JStr s) \<Rightarrow> Returns s
      | Some _ \<Rightarrow> Raises TypeError)"

definition attempt :: "obj \<Rightarrow> world \<Rightarrow> bool outcome \<times> world" where
  "attempt step w =
     (case map_of step ''action'' of
        None \<Rightarrow> (Raises (KeyError ''action''), w)
      | Some action \<Rightarrow>
          if action = JStr ''navigate'' then
            and_then (string_arg step ''target'', w) (\<lambda>url w.
            and_then (kk_navigate url w) (\<lambda>_ w1. (Returns True, w1)))
          else if action = JStr ''click'' then
            and_then (string_arg step ''target'', w) (\<lambda>target w. kk_click_element target w)
          else if action = JStr ''type'' then
            and_then (string_arg step ''target'', w) (\<lambda>target w.
            and_then (string_arg step ''value'', w) (\<lambda>v w. kk_type_text target v w))
          else if action = JStr ''press_enter'' then
            (case get_or step ''target'' JNull of
               JNull \<Rightarrow> kk_press_enter None w
             | JStr s \<Rightarrow> kk_press_enter (Some s) w
             | _ \<Rightarrow> (Raises TypeError, w))
          else if action = JStr ''wait'' then
            and_then (subscript (JObj step) ''value'', w) (\<lambda>v w.
            and_then (py_int v, w) (\<lambda>n w.
              if n < 0 then (Raises ValueError, w)
              else (Returns True, sleep (nat n * 1000) w)))
          else (Returns False, w))"

text \<open>
  \<open>for attempt in range(max_attempts)\<close> (lines 544-567): a second of sleep after an
  attempt that failed or raised; the result is \<open>success\<close> after the loop.
\<close>

fun attempts :: "nat \<Rightarrow> obj \<Rightarrow> world \<Rightarrow> bool outcome \<times> world" where
  "attempts 0 step w = (Returns False, w)"
| "attempts (Suc n) step w =
     (case attempt step w of
        (Returns success, w1) \<Rightarrow>
          if success then (Returns True, w1) else attempts n step (sleep 1000 w1)
      | (Raises e, w1) \<Rightarrow> attempts n step (sleep 1000 w1)
      | (Hangs, w1) \<Rightarrow> (Hangs, w1))"

text \<open>
  The \<open>while not completion_status\<close> loop (lines 525-579). It ends at the
  \<open>break\<close> of a step whose \<open>completed\<close> is true, or with an exception; a step that
  failed only logs a warning, which reads \<open>step['action']\<close> and
  \<open>step['description']\<close>. \<open>fuel\<close> bounds the number of iterations: \<open>None\<close> is a
  planner that has not said \<open>completed\<close> within them.
\<close>

fun execute_loop ::
  "services \<Rightarrow> nat \<Rightarrow> json \<Rightarrow> json list \<Rightarrow> world \<Rightarrow> (unit outcome \<times> world) option" where
  "execute_loop sv 0 current_command previous_steps w = None"
| "execute_loop sv (Suc fuel) current_command previous_steps w =
     (case and_then (kk_get_clean_html sv w) (\<lambda>html w1.
             parse_command sv (if truthy html then html else JStr []) current_command
               previous_steps w1) of
        (Returns step, w2) \<Rightarrow>
          (case step of
             JObj s \<Rightarrow>
               (case map_of s ''completed'' of
                  None \<Rightarrow> Some (Raises (KeyError ''completed''), w2)
                | Some completed \<Rightarrow>
                    if truthy completed then Some (Returns (), w2)
                    else
                      (case attempts 3 s w2 of
                         (Returns success, w3) \<Rightarrow>
                           if \<not> success \<and> \<not> has_key ''action'' s then
                             Some (Raises (KeyError ''action''), w3)
                           else if \<not> success \<and> \<not> has_key ''description'' s then
                             Some (Raises (KeyError ''description''), w3)
                           else
                             (case map_of s ''remaining_command'' of
                                None \<Rightarrow> Some (Raises (KeyError ''remaining_command''), w3)
                              | Some remaining \<Rightarrow>
                                  execute_loop sv fuel remaining (previous_steps @ [step])
                                    (sleep 2000 w3))
                       | (Raises e, w3) \<Rightarrow> Some (Raises e, w3)
                       | (Hangs, w3) \<Rightarrow> Some (Hangs, w3)))
           | _ \<Rightarrow> Some (Raises TypeError, w2))
      | (Raises e, w2) \<Rightarrow> Some (Raises e, w2)
      | (Hangs, w2) \<Rightarrow> Some (Hangs, w2))"

text \<open>\<open>execute_command\<close> (lines 511-590): \<open>True\<close> after the loop, \<open>False\<close> when the
  connection fails or anything raises.\<close>

definition execute_command ::
  "services \<Rightarrow> nat \<Rightarrow> json \<Rightarrow> world \<Rightarrow> (bool outcome \<times> world) option" where
  "execute_command sv fuel command w =
     (case start_browser sv w of
        (Returns _, w1) \<Rightarrow>
          (case connect sv w1 of
             (Returns ok, w2) \<Rightarrow>
               if \<not> ok then Some (Returns False, w2)
               else
                 (case execute_loop sv fuel command [] w2 of
                    None \<Rightarrow> None
                  | Some (Returns _, w3) \<Rightarrow> Some (Returns True, w3)
                  | Some (Raises e, w3) \<Rightarrow> Some (Returns False, w3)
                  | Some (Hangs, w3) \<Rightarrow> Some (Hangs, w3))
           | (Raises e, w2) \<Rightarrow> Some (Returns False, w2)
           | (Hangs, w2) \<Rightarrow> Some (Hangs, w2))
      | (Raises e, w1) \<Rightarrow> Some (Returns False, w1)
      | (Hangs, w1) \<Rightarrow> Some (Hangs, w1))"

text \<open>\<open>handle_command\<close> (lines 593-606): the body of the reply and its HTTP status.\<close>

definition handle_command ::
  "services \<Rightarrow> nat \<Rightarrow> json \<Rightarrow> world \<Rightarrow> ((obj \<times> nat) outcome \<times> world) option" where
  "handle_command sv fuel data w =
     (if \<not> truthy data then Some (Returns ([(''error'', JStr ''No command provided'')], 400), w)
      else
        (case json_in ''command'' data of
           Returns present \<Rightarrow>
             if \<not> present then
               Some (Returns ([(''error'', JStr ''No command provided'')], 400), w)
             else
               (case subscript data ''command'' of
                  Returns command \<Rightarrow>
                    (case execute_command sv fuel command w of
                       None \<Rightarrow> None
                     | Some (Returns success, w') \<Rightarrow>
                         Some (Returns
                                 ([(''status'', JStr (if success then ''success'' else ''error'')),
                                   (''message'',
                                    JStr (''Command '' @
                                          (if success then ''completed'' else ''failed'') @
                                          '': '' @ str_of sv command))], 200), w')
                     | Some (Raises e, w') \<Rightarrow> Some (Raises e, w')
                     | Some (Hangs, w') \<Rightarrow> Some (Hangs, w'))
                | Raises e \<Rightarrow> Some (Raises e, w)
                | Hangs \<Rightarrow> Some (Hangs, w))
         | Raises e \<Rightarrow> Some (Raises e, w)
         | Hangs \<Rightarrow> Some (Hangs, w)))"

text \<open>
  A run of om.py with two steps, the second of which fails; and a session of kk.py in
  which the planner asks for a click and then says that the command is completed,
  while the browser answers \<open>connect\<close> and the two requests for the page and nothing
  else.
\<close>

definition example_selenium :: selenium where
  "example_selenium =
     \<lparr>driver_error = None,
      run_action = (\<lambda>step_index action params.
        if step_index = 1
        then \<lparr>details = None, image = None, extracted_data = None,
              raised = Some ''No clickable element found''\<rparr>
        else \<lparr>details = Some ''Navigated to https://example.test'', image = None,
              extracted_data = None, raised = None\<rparr>),
      final_screenshot = Inr ''iVBORw0KGgo=''\<rparr>"

definition example_instructions :: json where
  "example_instructions =
     JObj [(''steps'',
            JArr [JObj [(''action'', JStr ''navigate''),
                        (''params'', JObj [(''url'', JStr ''https://example.test'')])],
                  JObj [(''action'', JStr ''click''),
                        (''params'', JObj [(''selector'', JStr ''#go'')])]])]"

definition click_step :: obj where
  "click_step =
     [(''action'', JStr ''click''), (''description'', JStr ''Press the button''),
      (''target'', JStr ''#go''), (''value'', JNull),
      (''remaining_command'', JStr ''''), (''completed'', JBool False)]"

definition complete_step :: obj where
  "complete_step =
     [(''action'', JStr ''complete''), (''description'', JStr ''Done''),
      (''target'', JNull), (''value'', JNull),
      (''remaining_command'', JStr ''''), (''completed'', JBool True)]"

definition example_services :: services where
  "example_services =
     \<lparr>start_browser = (\<lambda>w. (Returns (), sleep 3000 w)),
      connect = (\<lambda>w.
        and_then (kk_send_command ''Page.enable'' (JObj []) w) (\<lambda>_ w1.
        and_then (kk_send_command ''DOM.enable'' (JObj []) w1) (\<lambda>_ w2.
        and_then (kk_send_command ''Runtime.enable'' (JObj []) w2) (\<lambda>_ w3.
          (Returns True, w3))))),
      soup = (\<lambda>html. case html of JStr s \<Rightarrow> Returns s | _ \<Rightarrow> Raises TypeError),
      parse_command = (\<lambda>current_html remaining_command previous_actions w.
        (Returns (JObj (if previous_actions = [] then click_step else complete_step)), w)),
      str_of = (\<lambda>v. case v of JStr s \<Rightarrow> s | _ \<Rightarrow> [])\<rparr>"

definition html_reply :: "int \<Rightarrow> frame" where
  "html_reply i =
     Frame [(''id'', JNum i),
            (''result'', JObj [(''result'', JObj [(''type'', JStr ''string''),
                                                  (''value'', JStr ''<html></html>'')])])]"

definition example_kk_session :: world where
  "example_kk_session =
     kk_init [(3010, Frame [(''id'', JNum 1), (''result'', JObj [])]),
              (3020, Frame [(''id'', JNum 2), (''result'', JObj [])]),
              (3030, Frame [(''id'', JNum 3), (''result'', JObj [])]),
              (3040, html_reply 4), (38050, html_reply 8)] None"

section \<open>String literals as the page reads them\<close>









definition plain_for :: "char \<Rightarrow> string \<Rightarrow> bool" where
  "plain_for q s = (\<forall>c \<in> set s. c \<noteq> q \<and> c \<noteq> CHR 0x5C \<and> c \<noteq> CHR 0x0A \<and> c \<noteq> CHR 0x0D)"

section \<open>The browser: scripts with a \<open>return\<close> outside a function\<close>

text \<open>
  The scripts are programs of the repository too, and \<open>Runtime.evaluate\<close> parses its
  expression as an ECMAScript \<open>Script\<close>. There a \<open>return\<close> statement is allowed only
  inside a function body (ECMA-262, \<open>ReturnStatement\<close>: the statements of a \<open>Script\<close>
  carry no \<open>Return\<close> parameter); a script with a \<open>return\<close> anywhere else is rejected
  as a whole, before any statement of it runs.

  The reader below splits a script into words, punctuation and string literals, leaving
  out blanks and comments. It gives up (\<open>None\<close>) on what it does not read: a template
  literal, a \<open>/\<close> that opens no comment (a division or a regular expression), a
  backslash in the code, a character beyond ASCII in the code, and a string or a block
  comment that does not end.
\<close>

datatype js_token = Word string | Punct char | Literal

datatype js_mode =
  Code | In_word string | In_string char | In_escape char
  | Slash | Line_comment | Block_comment | Block_star

definition js_word_char :: "char \<Rightarrow> bool" where
  "js_word_char c =
     (let n = of_char c :: nat
      in (97 \<le> n \<and> n \<le> 122) \<or> (65 \<le> n \<and> n \<le> 90) \<or> (48 \<le> n \<and> n \<le> 57) \<or>
         n = 95 \<or> n = 36)"

definition js_blank :: "char \<Rightarrow> bool" where
  "js_blank c = (c = CHR 0x20 \<or> c = CHR 0x0A \<or> c = CHR 0x09 \<or> c = CHR 0x0D \<or>
                 c = CHR 0x0B \<or> c = CHR 0x0C)"

definition js_line_end :: "char \<Rightarrow> bool" where
  "js_line_end c = (c = CHR 0x0A \<or> c = CHR 0x0D)"

definition js_code_step :: "js_token list \<Rightarrow> char \<Rightarrow> (js_mode \<times> js_token list) option" where
  "js_code_step acc c =
     (if js_blank c then Some (Code, acc)
      else if js_word_char c then Some (In_word [c], acc)
      else if c = CHR 0x22 \<or> c = CHR 0x27 then Some (In_string c, acc)
      else if c = CHR 0x2F then Some (Slash, acc)
      else if c = CHR 0x60 \<or> c = CHR 0x5C \<or> 128 \<le> (of_char c :: nat) then None
      else Some (Code, Punct c # acc))"

fun js_step :: "js_mode \<Rightarrow> js_token list \<Rightarrow> char \<Rightarrow> (js_mode \<times> js_token list) option" where
  "js_step Code acc c = js_code_step acc c"
| "js_step (In_word wd) acc c =
     (if js_word_char c then Some (In_word (wd @ [c]), acc)
      else js_code_step (Word wd # acc) c)"
| "js_step (In_string q) acc c =
     (if c = q then Some (Code, Literal # acc)
      else if c = CHR 0x5C then Some (In_escape q, acc)
      else if js_line_end c then None
      else Some (In_string q, acc))"
| "js_step (In_escape q) acc c = Some (In_string q, acc)"
| "js_step Slash acc c =
     (if c = CHR 0x2F then Some (Line_comment, acc)
      else if c = CHR 0x2A then Some (Block_comment, acc)
      else None)"
| "js_step Line_comment acc c =
     (if js_line_end c then Some (Code, acc) else Some (Line_comment, acc))"
| "js_step Block_comment acc c =
     (if c = CHR 0x2A then Some (Block_star, acc) else Some (Block_comment, acc))"
| "js_step Block_star acc c =
     (if c = CHR 0x2F then Some (Code, acc)
      else if c = CHR 0x2A then Some (Block_star, acc)
      else Some (Block_comment, acc))"

fun js_run :: "js_mode \<Rightarrow> js_token list \<Rightarrow> string \<Rightarrow> (js_mode \<times> js_token list) option" where
  "js_run mode acc [] = Some (mode, acc)"
| "js_run mode acc (c # cs) =
     (case js_step mode acc c of
        None \<Rightarrow> None
      | Some (mode', acc') \<Rightarrow> js_run mode' acc' cs)"

definition js_tokens :: "string \<Rightarrow> js_token list option" where
  "js_tokens script =
     (case js_run Code [] script of
        None \<Rightarrow> None
      | Some (mode, acc) \<Rightarrow>
          (case mode of
             Code \<Rightarrow> Some (rev acc)
           | In_word wd \<Rightarrow> Some (rev (Word wd # acc))
           | Line_comment \<Rightarrow> Some (rev acc)
           | _ \<Rightarrow> None))"

text \<open>
  A \<open>return\<close> in the code that is no property name (not after a dot, not before a
  colon) is the reserved word.
\<close>

fun js_return_word :: "js_token option \<Rightarrow> js_token list \<Rightarrow> bool" where
  "js_return_word prev [] = False"
| "js_return_word prev (t # ts) =
     ((t = Word ''return'' \<and> prev \<noteq> Some (Punct (CHR ''.'')) \<and>
       (case ts of Punct c # _ \<Rightarrow> c \<noteq> CHR '':'' | _ \<Rightarrow> True)) \<or>
      js_return_word (Some t) ts)"

text \<open>
  No function body anywhere in the code: no \<open>function\<close>, no \<open>class\<close>, no arrow \<open>=>\<close>,
  and no method, that is, every \<open>)\<close> that a \<open>{\<close> follows closes the head of an \<open>if\<close>,
  \<open>for\<close>, \<open>while\<close>, \<open>catch\<close>, \<open>switch\<close> or \<open>with\<close>. The stack holds, for each open
  parenthesis, whether such a word stands before it. Two adjacent \<open>-\<close> are refused too:
  they may belong to an HTML-like comment, which browsers skip.
\<close>

definition js_head_words :: "string list" where
  "js_head_words = [''if'', ''for'', ''while'', ''catch'', ''switch'', ''with'']"

fun js_no_function_body :: "bool list \<Rightarrow> js_token option \<Rightarrow> js_token list \<Rightarrow> bool" where
  "js_no_function_body stack prev [] = (stack = [])"
| "js_no_function_body stack prev (t # ts) =
     (case t of
        Word wd \<Rightarrow>
          wd \<noteq> ''function'' \<and> wd \<noteq> ''class'' \<and> js_no_function_body stack (Some t) ts
      | Literal \<Rightarrow> js_no_function_body stack (Some t) ts
      | Punct c \<Rightarrow>
          if c = CHR ''('' then
            js_no_function_body
              ((case prev of Some (Word wd) \<Rightarrow> wd \<in> set js_head_words | _ \<Rightarrow> False) # stack)
              (Some t) ts
          else if c = CHR '')'' then
            (case stack of
               [] \<Rightarrow> False
             | head # stack' \<Rightarrow>
                 (head \<or> (case ts of Punct d # _ \<Rightarrow> d \<noteq> CHR ''{'' | _ \<Rightarrow> True)) \<and>
                 js_no_function_body stack' (Some t) ts)
          else if c = CHR ''>'' then
            prev \<noteq> Some (Punct (CHR ''='')) \<and> js_no_function_body stack (Some t) ts
          else if c = CHR ''-'' then
            prev \<noteq> Some (Punct (CHR ''-'')) \<and> js_no_function_body stack (Some t) ts
          else js_no_function_body stack (Some t) ts)"

text \<open>
  \<open>illegal_return script\<close> holds only of scripts that no browser runs: the reserved word
  \<open>return\<close> stands in the code and the code has no function body. It is \<open>False\<close>
  whenever the reader gave up.
\<close>

definition illegal_return :: "string \<Rightarrow> bool" where
  "illegal_return script =
     (case js_tokens script of
        None \<Rightarrow> False
      | Some tokens \<Rightarrow> js_return_word None tokens \<and> js_no_function_body [] None tokens)"

text \<open>
  The reply of the browser to \<open>Runtime.evaluate\<close> on such a script: \<open>result\<close> describes
  the exception, an object without \<open>value\<close>, and \<open>exceptionDetails\<close> is present. And
  the reply to a script whose last statement leaves no value.
\<close>

definition syntax_error_reply :: "int \<Rightarrow> frame" where
  "syntax_error_reply i =
     Frame [(''id'', JNum i),
            (''result'',
             JObj [(''result'',
                    JObj [(''type'', JStr ''object''), (''subtype'', JStr ''error''),
                          (''className'', JStr ''SyntaxError''),
                          (''description'', JStr ''SyntaxError: Illegal return statement''),
                          (''objectId'', JStr ''1.1.1'')]),
                   (''exceptionDetails'',
                    JObj [(''exceptionId'', JNum 1), (''text'', JStr ''Uncaught'')])])]"

definition undefined_reply :: "int \<Rightarrow> frame" where
  "undefined_reply i =
     Frame [(''id'', JNum i),
            (''result'', JObj [(''result'', JObj [(''type'', JStr ''undefined'')])])]"

text \<open>
  Sessions in which the browser answers \<open>press_enter('#q')\<close> as it answers these
  scripts. ooo.py: both scripts are refused. kk.py: the focus script is refused, the script
  on \<open>document.activeElement\<close> and the one that submits the form leave no value, the two
  key events are acknowledged.
\<close>

definition ooo_enter_session :: world where
  "ooo_enter_session = ooo_init [(10, syntax_error_reply 1), (520, syntax_error_reply 2)] None"

definition kk_enter_session :: world where
  "kk_enter_session =
     kk_init [(10, syntax_error_reply 1), (20, undefined_reply 2),
              (30, Frame [(''id'', JNum 3), (''result'', JObj [])]),
              (40, Frame [(''id'', JNum 4), (''result'', JObj [])]),
              (50, undefined_reply 5)] None"

section \<open>Properties\<close>

subsection \<open>The wait loops, case by case\<close>

lemma kk_wait_done:
  "\<not> now w - s < 10000 \<Longrightarrow> kk_wait_response c m s w = (Raises (CommandTimedOut m), w)"
  by (subst kk_wait_response.simps) simp

lemma kk_wait_empty:
  "now w - s < 10000 \<Longrightarrow> response_queue w = [] \<Longrightarrow>
   kk_wait_response c m s w = kk_wait_response c m s (w\<lparr>now := now w + 1000\<rparr>)"
  by (subst kk_wait_response.simps) simp

lemma kk_wait_late:
  "now w - s < 10000 \<Longrightarrow> response_queue w = (t, r) # rest \<Longrightarrow> \<not> t < now w + 1000 \<Longrightarrow>
   kk_wait_response c m s w = kk_wait_response c m s (w\<lparr>now := now w + 1000\<rparr>)"
  by (subst kk_wait_response.simps) simp

lemma kk_wait_noid:
  "now w - s < 10000 \<Longrightarrow> response_queue w = (t, r) # rest \<Longrightarrow> t < now w + 1000 \<Longrightarrow>
   map_of r ''id'' = None \<Longrightarrow>
   kk_wait_response c m s w =
     (Raises (KeyError ''id''), w\<lparr>now := max (now w) t, response_queue := rest\<rparr>)"
  by (subst kk_wait_response.simps) simp

lemma kk_wait_match:
  "now w - s < 10000 \<Longrightarrow> response_queue w = (t, r) # rest \<Longrightarrow> t < now w + 1000 \<Longrightarrow>
   map_of r ''id'' = Some i \<Longrightarrow> py_eq_int i c \<Longrightarrow>
   kk_wait_response c m s w =
     (kk_deliver r, w\<lparr>now := max (now w) t, response_queue := rest\<rparr>)"
  by (subst kk_wait_response.simps) simp

lemma kk_wait_other:
  "now w - s < 10000 \<Longrightarrow> response_queue w = (t, r) # rest \<Longrightarrow> t < now w + 1000 \<Longrightarrow>
   map_of r ''id'' = Some i \<Longrightarrow> \<not> py_eq_int i c \<Longrightarrow>
   kk_wait_response c m s w =
     kk_wait_response c m s (w\<lparr>now := max (now w) t, response_queue := rest\<rparr>)"
  by (subst kk_wait_response.simps) simp

lemma kk_wait_induct [case_names timed_out empty late noid match other]:
  fixes P :: "int \<Rightarrow> string \<Rightarrow> nat \<Rightarrow> world \<Rightarrow> bool"
  assumes "\<And>c m s w. \<not> now w - s < 10000 \<Longrightarrow> P c m s w"
    and "\<And>c m s w. now w - s < 10000 \<Longrightarrow> response_queue w = [] \<Longrightarrow>
           P c m s (w\<lparr>now := now w + 1000\<rparr>) \<Longrightarrow> P c m s w"
    and "\<And>c m s w t r rest. now w - s < 10000 \<Longrightarrow> response_queue w = (t, r) # rest \<Longrightarrow>
           \<not> t < now w + 1000 \<Longrightarrow> P c m s (w\<lparr>now := now w + 1000\<rparr>) \<Longrightarrow> P c m s w"
    and "\<And>c m s w t r rest. now w - s < 10000 \<Longrightarrow> response_queue w = (t, r) # rest \<Longrightarrow>
           t < now w + 1000 \<Longrightarrow> map_of r ''id'' = None \<Longrightarrow> P c m s w"
    and "\<And>c m s w t r rest i. now w - s < 10000 \<Longrightarrow> response_queue w = (t, r) # rest \<Longrightarrow>
           t < now w + 1000 \<Longrightarrow> map_of r ''id'' = Some i \<Longrightarrow> py_eq_int i c \<Longrightarrow> P c m s w"
    and "\<And>c m s w t r rest i. now w - s < 10000 \<Longrightarrow> response_queue w = (t, r) # rest \<Longrightarrow>
           t < now w + 1000 \<Longrightarrow> map_of r ''id'' = Some i \<Longrightarrow> \<not> py_eq_int i c \<Longrightarrow>
           P c m s (w\<lparr>now := max (now w) t, response_queue := rest\<rparr>) \<Longrightarrow> P c m s w"
  shows "P c m s w"
proof (induction c m s w rule: kk_wait_response.induct)
  case (1 c m s w)
  show ?case
  proof (cases "now w - s < 10000")
    case False
    then show ?thesis by (rule assms(1))
  next
    case live: True
    show ?thesis
    proof (cases "response_queue w")
      case Nil
      show ?thesis by (rule assms(2)[OF live Nil "1.IH"(1)[OF live Nil]])
    next
      case (Cons a rest)
      obtain t r where a: "a = (t, r)" by (cases a)
      have q: "response_queue w = (t, r) # rest" using Cons a by simp
      show ?thesis
      proof (cases "t < now w + 1000")
        case False
        show ?thesis
          by (rule assms(3)[OF live q False "1.IH"(3)[OF live Cons a[symmetric] False]])
      next
        case True
        show ?thesis
        proof (cases "map_of r ''id''")
          case None
          show ?thesis by (rule assms(4)[OF live q True None])
        next
          case (Some i)
          show ?thesis
          proof (cases "py_eq_int i c")
            case eq: True
            show ?thesis by (rule assms(5)[OF live q True Some eq])
          next
            case False
            show ?thesis
              by (rule assms(6)[OF live q True Some False
                    "1.IH"(2)[OF live Cons a[symmetric] True Some False]])
          qed
        qed
      qed
    qed
  qed
qed

lemma kk_wait_response_returns: "fst (kk_wait_response c m s w) \<noteq> Hangs"
proof (induction c m s w rule: kk_wait_induct)
  case (match w t r rest i)
  then show ?case by (simp add: kk_wait_match kk_deliver_def split: option.splits)
qed (simp_all add: kk_wait_done kk_wait_empty kk_wait_late kk_wait_noid kk_wait_other)

lemma kk_wait_response_clock:
  "now w \<le> now (snd (kk_wait_response c m s w)) \<and>
   now (snd (kk_wait_response c m s w)) < max (now w + 1) (s + 11000)"
proof (induction c m s w rule: kk_wait_induct)
  case (other w t r rest i)
  then show ?case by (simp add: kk_wait_other) linarith
qed (auto simp add: kk_wait_done kk_wait_empty kk_wait_late kk_wait_noid kk_wait_match)

lemma kk_wait_response_timeout_clock:
  "fst (kk_wait_response c m s w) = Raises (CommandTimedOut m') \<Longrightarrow>
   m' = m \<and> s + 10000 \<le> now (snd (kk_wait_response c m s w))"
proof (induction c m s w rule: kk_wait_induct)
  case (match w t r rest i)
  then show ?case by (simp add: kk_wait_match kk_deliver_def split: option.splits)
qed (auto simp add: kk_wait_done kk_wait_empty kk_wait_late kk_wait_noid kk_wait_other)

lemma kk_wait_response_delivers:
  "fst (kk_wait_response c m s w) = Raises (CommandTimedOut m) \<or>
   fst (kk_wait_response c m s w) = kk_answer c m (response_queue w)"
proof (induction c m s w rule: kk_wait_induct)
  case (other w t r rest i)
  then show ?case by (simp add: kk_wait_other kk_answer_def other_id_def)
qed (simp_all add: kk_wait_done kk_wait_empty kk_wait_late kk_wait_noid kk_wait_match
       kk_answer_def other_id_def has_key_def)

lemma kk_wait_response_only_others:
  "list_all (\<lambda>(t, r). other_id c r) (response_queue w) \<Longrightarrow>
   fst (kk_wait_response c m s w) = Raises (CommandTimedOut m)"
proof (induction c m s w rule: kk_wait_induct)
  case (other w t r rest i)
  then show ?case by (simp add: kk_wait_other)
qed (simp_all add: kk_wait_done kk_wait_empty kk_wait_late other_id_def)

lemma wait_response_delivers:
  "fst (wait_response c w) =
     (case find (\<lambda>(t, r). \<not> other_id c r) (response_queue w) of
        None \<Rightarrow> Hangs
      | Some (t, r) \<Rightarrow> if has_key ''id'' r then deliver r else Raises (KeyError ''id''))"
proof (induction c w rule: wait_response.induct)
  case (1 c w)
  show ?case
    apply (subst wait_response.simps)
    using "1.IH"
    by (auto simp: other_id_def has_key_def split: list.splits option.splits)
qed

lemma find_filter_same: "find P (filter P xs) = find P xs"
  by (induction xs) auto

lemma wait_response_ignores_others:
  "fst (wait_response c (w\<lparr>response_queue := filter (\<lambda>(t, r). \<not> other_id c r) q\<rparr>)) =
   fst (wait_response c (w\<lparr>response_queue := q\<rparr>))"
  by (simp add: wait_response_delivers find_filter_same)

subsection \<open>Request ids\<close>

lemma kk_wait_response_frame:
  "outbox (snd (kk_wait_response c m s w)) = outbox w \<and>
   command_id (snd (kk_wait_response c m s w)) = command_id w \<and>
   current_url (snd (kk_wait_response c m s w)) = current_url w"
proof (induction c m s w rule: kk_wait_response.induct)
  case (1 c m s w)
  show ?case
    by (subst (1 2 3) kk_wait_response.simps)
       (use 1 in \<open>auto split: list.splits option.splits\<close>)
qed

lemma wait_response_frame:
  "outbox (snd (wait_response c w)) = outbox w \<and>
   command_id (snd (wait_response c w)) = command_id w \<and>
   current_url (snd (wait_response c w)) = current_url w"
proof (induction c w rule: wait_response.induct)
  case (1 c w)
  show ?case
    by (subst (1 2 3) wait_response.simps)
       (use 1 in \<open>auto split: list.splits option.splits\<close>)
qed

lemma frame_id_command_frame [simp]: "frame_id (command_frame i m p) = i"
  by (simp add: command_frame_def)

lemma kk_send_command_ids:
  "issued_ids (snd (kk_send_command m p w)) = issued_ids w @ [command_id w] \<and>
   command_id (snd (kk_send_command m p w)) = command_id w + 1"
  by (simp add: kk_send_command_def issued_ids_def Let_def kk_wait_response_frame)

lemma send_command_ids:
  "issued_ids (snd (send_command m p w)) = issued_ids w @ [command_id w] \<and>
   command_id (snd (send_command m p w)) = command_id w + 1"
  by (simp add: send_command_def issued_ids_def Let_def wait_response_frame)

lemma kk_send_all_ids:
  "issued_ids (kk_send_all cs w) =
     issued_ids w @ [command_id w .. command_id w + int (length cs) - 1]"
proof (induction cs arbitrary: w)
  case Nil
  then show ?case by simp
next
  case (Cons c cs)
  obtain m p where c: "c = (m, p)" by (cases c)
  show ?case
    using Cons[of "snd (kk_send_command m p w)"]
    by (simp add: c kk_send_command_ids upto_rec1[of "command_id w"] add.commute)
qed

lemma send_all_ids:
  "\<exists>k\<le>length cs. issued_ids (send_all cs w) =
     issued_ids w @ [command_id w .. command_id w + int k - 1]"
proof (induction cs arbitrary: w)
  case Nil
  then show ?case by simp
next
  case (Cons c cs)
  obtain m p where c: "c = (m, p)" by (cases c)
  obtain r w' where sc: "send_command m p w = (r, w')" by (cases "send_command m p w")
  have ids: "issued_ids w' = issued_ids w @ [command_id w]" "command_id w' = command_id w + 1"
    using send_command_ids[of m p w] sc by simp_all
  show ?case
  proof (cases "r = Hangs")
    case True
    then have "issued_ids (send_all (c # cs) w) = issued_ids w @ [command_id w .. command_id w + int 1 - 1]"
      using sc ids by (simp add: c)
    then show ?thesis by (intro exI[of _ 1]) simp
  next
    case False
    then have eq: "send_all (c # cs) w = send_all cs w'"
      using sc by (cases r) (simp_all add: c)
    from Cons[of w'] obtain k where k: "k \<le> length cs"
      "issued_ids (send_all cs w') = issued_ids w' @ [command_id w' .. command_id w' + int k - 1]"
      by blast
    have "issued_ids (send_all (c # cs) w) =
            issued_ids w @ [command_id w .. command_id w + int (Suc k) - 1]"
      using k ids eq by (simp add: upto_rec1[of "command_id w"] add.commute)
    then show ?thesis using k(1) by (intro exI[of _ "Suc k"]) simp
  qed
qed

lemma init_ids [simp]:
  "issued_ids (kk_init inbound closed_at) = []" "command_id (kk_init inbound closed_at) = 1"
  "issued_ids (ooo_init inbound closed_at) = []" "command_id (ooo_init inbound closed_at) = 1"
  by (simp_all add: kk_init_def ooo_init_def issued_ids_def split: prod.splits)

text \<open>
  C1. In every session, whatever the socket delivers and whether or not writes fail, the
  request ids that a sequence of \<open>send_command\<close> calls issues are 1, 2, 3, ... in this
  order: positive, strictly increasing, none used twice. In kk.py every call of the
  sequence gets its id; in ooo.py and newww.py a call that never returns ends the
  sequence, and the ids issued up to there are 1, ..., k.
\<close>

theorem request_ids_count_up_from_one:
  "issued_ids (kk_send_all cs (kk_init inbound closed_at)) = [1..int (length cs)] \<and>
   (\<exists>k\<le>length cs. issued_ids (send_all cs (ooo_init inbound closed_at)) = [1..int k]) \<and>
   distinct (issued_ids (kk_send_all cs (kk_init inbound closed_at))) \<and>
   sorted_wrt (<) (issued_ids (kk_send_all cs (kk_init inbound closed_at))) \<and>
   distinct (issued_ids (send_all cs (ooo_init inbound closed_at))) \<and>
   sorted_wrt (<) (issued_ids (send_all cs (ooo_init inbound closed_at)))"
proof -
  have kk: "issued_ids (kk_send_all cs (kk_init inbound closed_at)) = [1..int (length cs)]"
    by (simp add: kk_send_all_ids)
  obtain k where k: "k \<le> length cs"
    "issued_ids (send_all cs (ooo_init inbound closed_at)) = [1..int k]"
    using send_all_ids[of cs "ooo_init inbound closed_at"] by auto
  show ?thesis
    using k by (auto simp add: kk sorted_wrt_upto)
qed

lemma filter_all_others:
  "list_all (\<lambda>(t, r). other_id c r) (filter (\<lambda>(t, r). other_id c r) q)"
  by (induction q) auto

lemma find_only_others:
  "find (\<lambda>(t, r). \<not> other_id c r) (filter (\<lambda>(t, r). other_id c r) q) = None"
  by (induction q) auto

subsection \<open>Routing of responses\<close>

lemma kk_wait_response_in_time:
  "now w - s < 10000 \<Longrightarrow>
   find (\<lambda>(t, r). \<not> other_id c r) (response_queue w) = Some (t, r) \<Longrightarrow>
   list_all (\<lambda>(t', r'). t' < s + 10000) (takeWhile (\<lambda>(t, r). other_id c r) (response_queue w)) \<Longrightarrow>
   t < s + 10000 \<Longrightarrow>
   fst (kk_wait_response c m s w) = kk_answer c m (response_queue w)"
proof (induction c m s w rule: kk_wait_induct)
  case (timed_out c m s w)
  then show ?case by simp
next
  case (empty c m s w)
  then show ?case by simp
next
  case (late c m s w t' r' rest)
  have "t' < s + 10000"
    using late.prems(2,3,4) late.hyps(2) by (cases "other_id c r'") auto
  with late.hyps(3) have live: "now (w\<lparr>now := now w + 1000\<rparr>) - s < 10000" by simp
  have "fst (kk_wait_response c m s (w\<lparr>now := now w + 1000\<rparr>)) =
      kk_answer c m (response_queue (w\<lparr>now := now w + 1000\<rparr>))"
    by (rule late.IH[OF live]) (use late.prems in simp_all)
  then show ?case
    using late.hyps by (simp add: kk_wait_late)
next
  case (noid c m s w t' r' rest)
  then show ?case
    by (simp add: kk_wait_noid kk_answer_def other_id_def has_key_def)
next
  case (match c m s w t' r' rest i)
  then show ?case
    by (simp add: kk_wait_match kk_answer_def other_id_def has_key_def)
next
  case (other c m s w t' r' rest i)
  have o: "other_id c r'" using other.hyps by (simp add: other_id_def)
  with other.prems(3) other.hyps(2) have t': "t' < s + 10000" by simp
  with other.prems(1) have live:
    "now (w\<lparr>now := max (now w) t', response_queue := rest\<rparr>) - s < 10000" by auto
  have "fst (kk_wait_response c m s (w\<lparr>now := max (now w) t', response_queue := rest\<rparr>)) =
      kk_answer c m (response_queue (w\<lparr>now := max (now w) t', response_queue := rest\<rparr>))"
    by (rule other.IH[OF live]) (use other.prems other.hyps(2) o in simp_all)
  then show ?case
    using other.hyps o by (simp add: kk_wait_other kk_answer_def)
qed

lemma kk_wait_response_in_time_ignores_others:
  fixes w :: world
  assumes "now w - s < 10000"
    and "find (\<lambda>(t, r). \<not> other_id c r) (response_queue w) = Some (t, r)"
    and "list_all (\<lambda>(t', r'). t' < s + 10000) (takeWhile (\<lambda>(t, r). other_id c r) (response_queue w))"
    and "t < s + 10000"
  shows "fst (kk_wait_response c m s
           (w\<lparr>response_queue := filter (\<lambda>(t, r). \<not> other_id c r) (response_queue w)\<rparr>)) =
         fst (kk_wait_response c m s w)"
proof -
  let ?w = "w\<lparr>response_queue := filter (\<lambda>(t, r). \<not> other_id c r) (response_queue w)\<rparr>"
  have f: "find (\<lambda>(t, r). \<not> other_id c r) (response_queue ?w) = Some (t, r)"
    using assms(2) by (simp add: find_filter_same)
  have e: "takeWhile (\<lambda>(t, r). other_id c r) (filter (\<lambda>(t, r). \<not> other_id c r) q) = []" for q
    by (induction q) auto
  have l: "list_all (\<lambda>(t', r'). t' < s + 10000)
      (takeWhile (\<lambda>(t, r). other_id c r) (response_queue ?w))"
    using e[of "response_queue w"] by (simp del: takeWhile_eq_Nil_iff)
  have n: "now ?w - s < 10000" using assms(1) by simp
  have "fst (kk_wait_response c m s ?w) = kk_answer c m (response_queue ?w)"
    by (rule kk_wait_response_in_time[OF n f l assms(4)])
  also have "\<dots> = kk_answer c m (response_queue w)"
    by (simp add: kk_answer_def find_filter_same)
  also have "\<dots> = fst (kk_wait_response c m s w)"
    by (rule kk_wait_response_in_time[OF assms, symmetric])
  finally show ?thesis .
qed

text \<open>
  C2, as the code has it. A wait for command \<open>c\<close> hands out nothing but the reply of the
  first queued response that is not of another id; responses of other ids are dropped.
  In ooo.py and newww.py the outcome is exactly that reply, and it is the same with the
  responses of other ids removed from the queue. In kk.py the outcome is that reply or
  the command's own timeout; a queue that holds only responses of other ids gives the
  timeout; and when the answer and every response queued before it arrive within 10
  seconds of the start of the wait, the wait delivers the answer, with or without the
  responses of other ids.
\<close>

theorem responses_routed_by_id:
  fixes w :: world
  shows
  "fst (wait_response c w) =
     (case find (\<lambda>(t, r). \<not> other_id c r) (response_queue w) of
        None \<Rightarrow> Hangs
      | Some (t, r) \<Rightarrow> if has_key ''id'' r then deliver r else Raises (KeyError ''id'')) \<and>
   fst (wait_response c (w\<lparr>response_queue := filter (\<lambda>(t, r). \<not> other_id c r) q\<rparr>)) =
     fst (wait_response c (w\<lparr>response_queue := q\<rparr>)) \<and>
   (fst (kk_wait_response c m s w) = Raises (CommandTimedOut m) \<or>
    fst (kk_wait_response c m s w) = kk_answer c m (response_queue w)) \<and>
   fst (kk_wait_response c m s (w\<lparr>response_queue := filter (\<lambda>(t, r). other_id c r) q\<rparr>)) =
     Raises (CommandTimedOut m) \<and>
   (now w - s < 10000 \<and>
    find (\<lambda>(t, r). \<not> other_id c r) (response_queue w) = Some (t, r) \<and>
    list_all (\<lambda>(t', r'). t' < s + 10000)
      (takeWhile (\<lambda>(t, r). other_id c r) (response_queue w)) \<and>
    t < s + 10000 \<longrightarrow>
      fst (kk_wait_response c m s w) =
        (if has_key ''id'' r then kk_deliver r else Raises (KeyError ''id'')) \<and>
      fst (kk_wait_response c m s
             (w\<lparr>response_queue := filter (\<lambda>(t, r). \<not> other_id c r) (response_queue w)\<rparr>)) =
        fst (kk_wait_response c m s w))"
proof (intro conjI impI)
  show "fst (wait_response c w) =
     (case find (\<lambda>(t, r). \<not> other_id c r) (response_queue w) of
        None \<Rightarrow> Hangs
      | Some (t, r) \<Rightarrow> if has_key ''id'' r then deliver r else Raises (KeyError ''id''))"
    by (rule wait_response_delivers)
  show "fst (wait_response c (w\<lparr>response_queue := filter (\<lambda>(t, r). \<not> other_id c r) q\<rparr>)) =
     fst (wait_response c (w\<lparr>response_queue := q\<rparr>))"
    by (rule wait_response_ignores_others)
  show "fst (kk_wait_response c m s w) = Raises (CommandTimedOut m) \<or>
    fst (kk_wait_response c m s w) = kk_answer c m (response_queue w)"
    by (rule kk_wait_response_delivers)
  show "fst (kk_wait_response c m s (w\<lparr>response_queue := filter (\<lambda>(t, r). other_id c r) q\<rparr>)) =
     Raises (CommandTimedOut m)"
    by (rule kk_wait_response_only_others) (simp add: filter_all_others)
next
  assume a: "now w - s < 10000 \<and>
    find (\<lambda>(t, r). \<not> other_id c r) (response_queue w) = Some (t, r) \<and>
    list_all (\<lambda>(t', r'). t' < s + 10000)
      (takeWhile (\<lambda>(t, r). other_id c r) (response_queue w)) \<and>
    t < s + 10000"
  then have a1: "now w - s < 10000"
    and a2: "find (\<lambda>(t, r). \<not> other_id c r) (response_queue w) = Some (t, r)"
    and a3: "list_all (\<lambda>(t', r'). t' < s + 10000)
      (takeWhile (\<lambda>(t, r). other_id c r) (response_queue w))"
    and a4: "t < s + 10000"
    by blast+
  have "fst (kk_wait_response c m s w) = kk_answer c m (response_queue w)"
    by (rule kk_wait_response_in_time[OF a1 a2 a3 a4])
  with a2 show "fst (kk_wait_response c m s w) =
        (if has_key ''id'' r then kk_deliver r else Raises (KeyError ''id''))"
    by (simp add: kk_answer_def)
  show "fst (kk_wait_response c m s
             (w\<lparr>response_queue := filter (\<lambda>(t, r). \<not> other_id c r) (response_queue w)\<rparr>)) =
        fst (kk_wait_response c m s w)"
    by (rule kk_wait_response_in_time_ignores_others[OF a1 a2 a3 a4])
qed

text \<open>kk.py: a response with id 7 after 5 seconds and the answer to command 1 after 6
  seconds. The wait for command 1 returns the answer, as it does without the other
  response.\<close>

theorem responses_routed_by_id_witness:
  "fst (kk_wait_response 1 ''Page.enable'' 0
     (kk_init [(5000, Frame [(''id'', JNum 7), (''result'', JObj [])]),
               (6000, Frame [(''id'', JNum 1), (''result'', JObj [(''ok'', JBool True)])])] None)) =
   Returns (JObj [(''ok'', JBool True)]) \<and>
   fst (kk_wait_response 1 ''Page.enable'' 0
     (kk_init [(6000, Frame [(''id'', JNum 1), (''result'', JObj [(''ok'', JBool True)])])] None)) =
   Returns (JObj [(''ok'', JBool True)])"
proof -
  let ?w = "kk_init [(5000, Frame [(''id'', JNum 7), (''result'', JObj [])]),
               (6000, Frame [(''id'', JNum 1), (''result'', JObj [(''ok'', JBool True)])])] None"
  have q: "response_queue ?w =
      [(5000, [(''id'', JNum 7), (''result'', JObj [])]),
       (6000, [(''id'', JNum 1), (''result'', JObj [(''ok'', JBool True)])])]"
    by (simp add: kk_init_def has_key_def)
  have h: "now ?w - 0 < 10000 \<and>
    find (\<lambda>(t, r). \<not> other_id 1 r) (response_queue ?w) =
      Some (6000, [(''id'', JNum 1), (''result'', JObj [(''ok'', JBool True)])]) \<and>
    list_all (\<lambda>(t', r'). t' < 0 + 10000)
      (takeWhile (\<lambda>(t, r). other_id 1 r) (response_queue ?w)) \<and>
    (6000::nat) < 0 + 10000"
    by (simp add: q other_id_def) (simp add: kk_init_def has_key_def)
  note t = responses_routed_by_id[where w = ?w and c = 1 and s = 0 and m = "''Page.enable''"
      and t = 6000 and r = "[(''id'', JNum 1), (''result'', JObj [(''ok'', JBool True)])]",
      THEN conjunct2, THEN conjunct2, THEN conjunct2, THEN conjunct2, rule_format, OF h]
  have f: "?w\<lparr>response_queue := filter (\<lambda>(t, r). \<not> other_id 1 r) (response_queue ?w)\<rparr> =
      kk_init [(6000, Frame [(''id'', JNum 1), (''result'', JObj [(''ok'', JBool True)])])] None"
    by (simp add: kk_init_def has_key_def other_id_def)
  from t f show ?thesis
    by (simp add: has_key_def kk_deliver_def get_or_def)
qed

text \<open>
  kk.py: the answer to command 1 arrives 10.4 seconds after the call. Alone it comes too
  late: at 9 seconds the poll waits a full second and the deadline is over. With a
  response of id 7 at 9.5 seconds before it, that poll ends at 9.5 seconds, the loop
  goes round once more and the next poll takes the answer: a response of another id has
  changed the outcome of the command.
\<close>

theorem kk_other_response_moves_deadline_counterexample:
  "fst (kk_send_command ''Page.enable'' (JObj [])
     (kk_init [(10400, Frame [(''id'', JNum 1), (''result'', JObj [])])] None)) =
   Raises (CommandTimedOut ''Page.enable'') \<and>
   fst (kk_send_command ''Page.enable'' (JObj [])
     (kk_init [(9500, Frame [(''id'', JNum 7), (''result'', JObj [])]),
               (10400, Frame [(''id'', JNum 1), (''result'', JObj [])])] None)) =
   Returns (JObj [])"
  by (simp add: kk_send_command_def Let_def ws_closed_def kk_init_def has_key_def
        kk_wait_response.simps kk_deliver_def get_or_def)

subsection \<open>Deadlines of \<open>send_command\<close>\<close>

text \<open>
  ooo.py and newww.py: when no response with the command's id is ever queued,
  \<open>send_command\<close> never returns, whatever else arrives.
\<close>

lemma send_command_only_others_hangs:
  "fst (send_command m p
     (w\<lparr>ws_closed_from := None,
        response_queue := filter (\<lambda>(t, r). other_id (command_id w) r) q\<rparr>)) = Hangs"
  by (simp add: send_command_def Let_def ws_closed_def wait_response_delivers find_only_others)

text \<open>
  C3, at a concrete session of ooo.py or newww.py: the browser sends an event and a
  response with id 7, and never answers command 1. \<open>send_command\<close> does not time out;
  it waits for ever.
\<close>

theorem send_command_waits_forever:
  "fst (send_command ''Page.enable'' (JObj [])
     (ooo_init [(10, Frame [(''method'', JStr ''Page.frameNavigated'')]),
                (20, Frame [(''id'', JNum 7), (''result'', JObj [])])] None)) = Hangs"
  by (simp add: send_command_def Let_def ws_closed_def ooo_init_def has_key_def
        wait_response_delivers other_id_def)

text \<open>
  kk.py: \<open>send_command\<close> always comes back, less than 11 seconds after the call (the
  deadline of 10 seconds is tested between polls of one second), and a timeout names
  the command and comes no earlier than 10 seconds after the call.
\<close>

lemma kk_send_command_bounded:
  "fst (kk_send_command m p w) \<noteq> Hangs \<and>
   now (snd (kk_send_command m p w)) < now w + 11000 \<and>
   (fst (kk_send_command m p w) = Raises (CommandTimedOut m') \<longrightarrow>
      m' = m \<and> now w + 10000 \<le> now (snd (kk_send_command m p w)))"
proof -
  define w' where
    "w' = w\<lparr>command_id := command_id w + 1,
             outbox := outbox w @ [command_frame (command_id w) m p]\<rparr>"
  have n: "now w' = now w" by (simp add: w'_def)
  show ?thesis
  proof (cases "ws_closed w'")
    case True
    then show ?thesis by (simp add: kk_send_command_def Let_def w'_def[symmetric] n)
  next
    case False
    then have eq: "kk_send_command m p w = kk_wait_response (command_id w) m (now w) w'"
      by (simp add: kk_send_command_def Let_def w'_def[symmetric] n)
    show ?thesis
      using kk_wait_response_returns[of "command_id w" m "now w" w']
        kk_wait_response_clock[where w = w' and c = "command_id w" and m = m and s = "now w"]
        kk_wait_response_timeout_clock[where w = w' and c = "command_id w" and m = m
          and s = "now w" and m' = m']
      by (auto simp add: eq n)
  qed
qed



subsection \<open>A session that closes while a command is pending\<close>

lemma kk_message_handler_stops:
  "kk_message_handler (pre @ (t, RecvError) # post) = kk_message_handler pre"
proof (induction pre)
  case Nil
  then show ?case by simp
next
  case (Cons a pre)
  obtain t' f where a: "a = (t', f)" by (cases a)
  show ?case using Cons by (cases f) (simp_all add: a)
qed

lemma message_handler_stops:
  "message_handler (pre @ (t, RecvError) # post) = message_handler pre"
proof (induction pre)
  case Nil
  then show ?case by simp
next
  case (Cons a pre)
  obtain t' f where a: "a = (t', f)" by (cases a)
  show ?case using Cons by (cases f) (simp_all add: a)
qed

lemma kk_message_handler_others:
  "list_all (\<lambda>(t, f). \<not> answers c f) pre \<Longrightarrow>
   list_all (\<lambda>(t, r). other_id c r) (fst (kk_message_handler pre))"
proof (induction pre)
  case Nil
  then show ?case by simp
next
  case (Cons a pre)
  obtain t' f where a: "a = (t', f)" by (cases a)
  show ?case using Cons
    by (cases f) (auto simp add: a answers_def Let_def split: prod.splits)
qed

text \<open>
  C5, as the code has it. When the reader loop of kk.py ends (\<open>ws.recv\<close> or
  \<open>json.loads\<close> raises) it only logs and stops: nothing that arrives later reaches a
  queue, and nothing is delivered to a pending command. A command written before the
  socket closed, and not answered before the reader stopped, fails with its own timeout
  error, between 10 and 11 seconds after the call.
\<close>

theorem closed_session_command_times_out:
  assumes "list_all (\<lambda>(t, f). \<not> answers 1 f) pre" and "closed_at \<noteq> Some 0"
  shows "fst (kk_send_command m p (kk_init (pre @ (t, RecvError) # post) closed_at)) =
           Raises (CommandTimedOut m) \<and>
         10000 \<le> now (snd (kk_send_command m p (kk_init (pre @ (t, RecvError) # post) closed_at))) \<and>
         now (snd (kk_send_command m p (kk_init (pre @ (t, RecvError) # post) closed_at))) < 11000"
proof -
  define w where "w = kk_init (pre @ (t, RecvError) # post) closed_at"
  have q: "response_queue w = fst (kk_message_handler pre)" and n: "now w = 0"
    and c: "command_id w = 1" and o: "ws_closed_from w = closed_at"
    by (simp_all add: w_def kk_init_def kk_message_handler_stops split: prod.splits)
  define w' where "w' = w\<lparr>command_id := 2, outbox := outbox w @ [command_frame 1 m p]\<rparr>"
  have w': "now w' = 0" "ws_closed_from w' = closed_at" "response_queue w' = fst (kk_message_handler pre)"
    by (simp_all add: w'_def q n o)
  have open_ws: "\<not> ws_closed w'"
    using assms(2) by (cases closed_at) (simp_all add: ws_closed_def w')
  have eq: "kk_send_command m p w = kk_wait_response 1 m 0 w'"
    using open_ws by (simp add: kk_send_command_def Let_def c n w'_def[symmetric] w'(1))
  have t: "fst (kk_wait_response 1 m 0 w') = Raises (CommandTimedOut m)"
    by (rule kk_wait_response_only_others)
       (simp add: w' kk_message_handler_others[OF assms(1)])
  show ?thesis
    using t kk_wait_response_timeout_clock[OF t]
      kk_wait_response_clock[where w = w' and c = 1 and m = m and s = 0]
    by (simp add: eq w' w_def[symmetric])
qed

theorem closed_session_command_times_out_witness:
  "list_all (\<lambda>(t, f). \<not> answers 1 f)
     [(50, Frame [(''method'', JStr ''Page.frameNavigated'')])] \<and>
   Some (100::nat) \<noteq> Some 0 \<and>
   fst (kk_send_command ''DOM.enable'' (JObj [])
     (kk_init ([(50, Frame [(''method'', JStr ''Page.frameNavigated'')])] @ (100, RecvError) #
               [(200, Frame [(''id'', JNum 1), (''result'', JObj [])])]) (Some 100))) =
     Raises (CommandTimedOut ''DOM.enable'')"
  using closed_session_command_times_out[of
      "[(50, Frame [(''method'', JStr ''Page.frameNavigated'')])]" "Some 100" "''DOM.enable''"
      "JObj []" 100 "[(200, Frame [(''id'', JNum 1), (''result'', JObj [])])]"]
  by (simp add: answers_def has_key_def)

text \<open>
  The reader stops 100 ms after \<open>Page.enable\<close> was sent. The command does not fail
  within a polling interval (one second) with a connection error: it fails after 10
  seconds, with the timeout error.
\<close>

theorem pending_command_after_close_counterexample:
  "fst (kk_send_command ''Page.enable'' (JObj [])
     (kk_init [(100, RecvError), (200, Frame [(''id'', JNum 1), (''result'', JObj [])])]
        (Some 100))) = Raises (CommandTimedOut ''Page.enable'') \<and>
   now (snd (kk_send_command ''Page.enable'' (JObj [])
     (kk_init [(100, RecvError), (200, Frame [(''id'', JNum 1), (''result'', JObj [])])]
        (Some 100)))) = 10000"
  by (simp add: kk_send_command_def Let_def kk_init_def ws_closed_def kk_wait_empty kk_wait_done)

subsection \<open>Deadlines of \<open>navigate\<close>\<close>

lemma page_loaded_wait_clock:
  "now w \<le> now (snd (page_loaded_wait timeout w)) \<and>
   now (snd (page_loaded_wait timeout w)) \<le> now w + timeout"
  by (auto simp add: page_loaded_wait_def split: option.splits)


text \<open>
  kk.py: \<open>navigate\<close> always comes back, less than 44 seconds after the call (at most
  11 for the command, 30 for the load event, 3 to settle). It returns exactly when the
  \<open>Page.navigate\<close> command returned: a load timeout is not an error.
\<close>

lemma kk_navigate_bounded:
  "fst (kk_navigate url w) \<noteq> Hangs \<and>
   now (snd (kk_navigate url w)) < now w + 44000 \<and>
   (fst (kk_navigate url w) = Returns ()) =
     (\<exists>v. fst (kk_send_command ''Page.navigate'' (JObj [(''url'', JStr url)])
               (page_loaded_clear w)) = Returns v)"
proof -
  define r where
    "r = kk_send_command ''Page.navigate'' (JObj [(''url'', JStr url)]) (page_loaded_clear w)"
  have b: "fst r \<noteq> Hangs" "now (snd r) < now w + 11000"
    using kk_send_command_bounded[of "''Page.navigate''" "JObj [(''url'', JStr url)]"
        "page_loaded_clear w"]
    by (simp_all add: r_def page_loaded_clear_def)
  obtain o1 w1 where r: "r = (o1, w1)" by (cases r)
  show ?thesis
  proof (cases o1)
    case (Returns v)
    have "now (snd (page_loaded_wait 30000 (w1\<lparr>current_url := Some url\<rparr>))) \<le> now w1 + 30000"
      using page_loaded_wait_clock[of "w1\<lparr>current_url := Some url\<rparr>" 30000] by simp
    then show ?thesis
      using b r Returns
      by (auto simp add: kk_navigate_def r_def[symmetric] sleep_def split: prod.splits)
  next
    case (Raises e)
    then show ?thesis using b r by (simp add: kk_navigate_def r_def[symmetric])
  next
    case Hangs
    then show ?thesis using b r by simp
  qed
qed

text \<open>
  C4, at a concrete session of newww.py: the browser answers \<open>Page.enable\<close> and
  \<open>Page.navigate\<close> and reports a frame navigation, but the page never fires its load
  event. \<open>navigate\<close> does not come back after 30 seconds; it waits for ever.
\<close>

theorem newww_navigate_waits_forever:
  "fst (newww_navigate ''https://example.test''
     (ooo_init [(10, Frame [(''id'', JNum 1), (''result'', JObj [])]),
                (20, Frame [(''id'', JNum 2), (''result'', JObj [(''frameId'', JStr ''F'')])]),
                (30, Frame [(''method'', JStr ''Page.frameNavigated'')])] None)) = Hangs"
  by (simp add: newww_navigate_def send_command_def Let_def ws_closed_def ooo_init_def
        has_key_def wait_response.simps wait_load_event.simps deliver_def get_or_def)

subsection \<open>Who writes \<open>current_url\<close>\<close>

lemma and_then_url:
  assumes "current_url (snd r) = u"
    and "\<And>v w'. current_url w' = u \<Longrightarrow> current_url (snd (f v w')) = u"
  shows "current_url (snd (and_then r f)) = u"
  using assms by (cases r) (auto simp add: and_then_def split: outcome.splits)

lemma try_except_url:
  assumes "current_url (snd r) = u"
    and "\<And>e w'. current_url w' = u \<Longrightarrow> current_url (snd (h e w')) = u"
  shows "current_url (snd (try_except r h)) = u"
  using assms by (cases r) (auto simp add: try_except_def split: outcome.splits)

lemma send_command_url: "current_url (snd (send_command m p w)) = current_url w"
  by (simp add: send_command_def Let_def wait_response_frame)


lemma execute_script_url: "current_url (snd (execute_script b s w)) = current_url w"
  unfolding execute_script_def
  by (rule and_then_url) (simp_all add: send_command_url)

lemma sleep_url [simp]: "current_url (sleep n w) = current_url w"
  by (simp add: sleep_def)

lemma wait_for_selector_url:
  "current_url (snd (wait_for_selector b sel timeout s w)) = current_url w"
proof (induction b sel timeout s w rule: wait_for_selector.induct)
  case (1 b sel timeout s w)
  obtain r w' where e: "execute_script b (wait_for_selector_script sel) w = (r, w')"
    by (cases "execute_script b (wait_for_selector_script sel) w")
  have u: "current_url w' = current_url w"
    using execute_script_url[of b "wait_for_selector_script sel" w] e by simp
  show ?case
  proof (cases "now w - s < timeout")
    case False
    then show ?thesis by (subst wait_for_selector.simps) simp
  next
    case True
    show ?thesis
    proof (cases r)
      case (Returns result)
      show ?thesis
        using True e u Returns "1.IH"[OF True e[symmetric] Returns]
        by (subst wait_for_selector.simps) simp
    next
      case (Raises x)
      then show ?thesis using True e u by (subst wait_for_selector.simps) simp
    next
      case Hangs
      then show ?thesis using True e u by (subst wait_for_selector.simps) simp
    qed
  qed
qed



lemmas url_steps = and_then_url try_except_url send_command_url execute_script_url
  wait_for_selector_url















text \<open>The \<open>try\<close> blocks leave \<open>current_url\<close> alone, so each handler reads the
  value the field had when the function was called.\<close>

lemma try_except_handler_cong:
  assumes "\<And>e w'. current_url w' = current_url (snd r) \<Longrightarrow> h e w' = h' e w'"
  shows "try_except r h = try_except r h'"
  using assms by (cases r) (auto simp add: try_except_def split: outcome.splits)










subsection \<open>\<open>type\<close> and its read-back\<close>

lemma newww_type_set_url: "current_url (snd (newww_type_set sel txt w)) = current_url w"
  unfolding newww_type_set_def
  by (rule and_then_url | simp add: url_steps)+

lemma newww_type_try_url: "current_url (snd (newww_type_try sel txt w)) = current_url w"
  unfolding newww_type_try_def
  by (rule and_then_url | simp add: url_steps newww_type_set_url)+

lemma newww_type_raises_off_youtube:
  assumes "case current_url w of None \<Rightarrow> True | Some url \<Rightarrow> \<not> py_in ''youtube.com'' url"
  shows "newww_type sel txt w =
     try_except (newww_type_try sel txt w)
       (\<lambda>e w'. (Raises (case current_url w of None \<Rightarrow> TypeError | Some url \<Rightarrow> e), w'))"
  unfolding newww_type_def
  by (rule try_except_handler_cong)
     (use assms in \<open>auto simp add: newww_type_try_url split: option.splits\<close>)

text \<open>
  newww.py, the path that is not the YouTube fallback (\<open>current_url\<close> is \<open>None\<close> or does
  not contain \<open>"youtube.com"\<close>): if \<open>type\<close> returns, it returns \<open>True\<close> and the value read
  back after the typing script equals the text; and if the typing script worked but the
  value read back differs, \<open>type\<close> raises: the error that names the text and the value
  found, or the \<open>TypeError\<close> of \<open>"youtube.com" in None\<close>.
\<close>

lemma newww_type_verifies_off_youtube:
  assumes "case current_url w of None \<Rightarrow> True | Some url \<Rightarrow> \<not> py_in ''youtube.com'' url"
  shows "(fst (newww_type sel txt w) = Returns b \<longrightarrow>
        b \<and> fst (execute_script False (newww_readback_script sel)
                   (snd (newww_type_set sel txt w))) = Returns (JStr txt)) \<and>
     (fst (newww_type_set sel txt w) = Returns () \<longrightarrow>
      fst (execute_script False (newww_readback_script sel)
             (snd (newww_type_set sel txt w))) = Returns entered \<longrightarrow>
      entered \<noteq> JStr txt \<longrightarrow>
        fst (newww_type sel txt w) =
          Raises (case current_url w of None \<Rightarrow> TypeError
                  | Some url \<Rightarrow> TypedTextNotFound txt entered))"
proof -
  note eq = newww_type_raises_off_youtube[OF assms, of sel "txt"]
  obtain r1 w1 where s: "newww_type_set sel txt w = (r1, w1)"
    by (cases "newww_type_set sel txt w")
  obtain r2 w2 where e: "execute_script False (newww_readback_script sel) w1 = (r2, w2)"
    by (cases "execute_script False (newww_readback_script sel) w1")
  show ?thesis
    unfolding eq
    using s e
    by (cases r1; cases r2)
       (auto simp add: newww_type_try_def and_then_def try_except_def split: option.splits)
qed

lemmas run_simps = send_command_def Let_def ws_closed_def ooo_init_def has_key_def
  wait_response.simps wait_load_event.simps deliver_def get_or_def and_then_def try_except_def
  execute_script_def decode_result_def json_in_def subscript_def evaluate_params_def
  wait_for_selector.simps sleep_def true_reply_def string_reply_def

lemma typing_session_eq:
  "typing_session url entered =
     \<lparr>command_id = 3, current_url = Some url, now = 2025,
      outbox = [command_frame 1 ''Page.enable'' (JObj []),
                command_frame 2 ''Page.navigate'' (JObj [(''url'', JStr url)])],
      ws_closed_from = None,
      response_queue = [(2100, [(''id'', JNum 3),
            (''result'', JObj [(''result'', JObj [(''type'', JStr ''boolean''),
                                                  (''value'', JBool True)])])]),
         (2110, [(''id'', JNum 4),
            (''result'', JObj [(''result'', JObj [(''type'', JStr ''boolean''),
                                                  (''value'', JBool True)])])]),
         (2120, [(''id'', JNum 5),
            (''result'', JObj [(''result'', JObj [(''type'', JStr ''string''),
                                                  (''value'', JStr entered)])])]),
         (2130, [(''id'', JNum 6),
            (''result'', JObj [(''result'', JObj [(''type'', JStr ''boolean''),
                                                  (''value'', JBool True)])])]),
         (2140, [(''id'', JNum 7),
            (''result'', JObj [(''result'', JObj [(''type'', JStr ''boolean''),
                                                  (''value'', JBool True)])])])],
      event_queue = [], load_fired = [], page_loaded_from = 0\<rparr>"
  by (simp add: typing_session_def newww_navigate_def run_simps)

lemma typing_session_url [simp]: "current_url (typing_session url entered) = Some url"
  by (simp add: typing_session_eq)

lemma typing_ok:
  "fst (newww_type ''#q'' ''hello world'' (typing_session ''https://example.test'' ''hello world''))
     = Returns True"
  by (simp add: typing_session_eq newww_type_def newww_type_try_def newww_type_set_def
        run_simps)

text \<open>
  C6, at a concrete session of newww.py on YouTube. The typing script is answered with
  \<open>true\<close> and the read-back finds \<open>hello\<close> where \<open>hello world\<close> was typed: the \<open>try\<close>
  block raises the verification error, but the handler then writes the text into
  \<open>input#search\<close>, reads nothing back, and \<open>type\<close> returns \<open>True\<close>.
\<close>

theorem newww_type_returns_unverified_on_youtube:
  "fst (newww_type_try ''#q'' ''hello world''
          (typing_session ''https://www.youtube.com/'' ''hello'')) =
     Raises (TypedTextNotFound ''hello world'' (JStr ''hello'')) \<and>
   fst (newww_type ''#q'' ''hello world''
          (typing_session ''https://www.youtube.com/'' ''hello'')) = Returns True"
  by (simp add: typing_session_eq newww_type_def newww_type_try_def newww_type_set_def
        run_simps)

subsection \<open>The status that a run reports\<close>

lemma step_result_status:
  "map_of (step_result action eff) ''status'' =
     Some (JStr (if raised eff = None then ''success'' else ''error''))"
  by (simp add: step_result_def)

lemma step_result_action: "map_of (step_result action eff) ''action'' = Some action"
  by (simp add: step_result_def)

lemma run_steps_dicts:
  "run_steps sel i (map JObj dicts) =
     Inr (map (\<lambda>(k, s). step_result (get_or s ''action'' JNull) (run_step sel k s))
            (enumerate i dicts))"
  by (induction dicts arbitrary: i) simp_all

lemma run_steps_not_dict:
  "step \<in> set steps \<Longrightarrow> \<forall>s. step \<noteq> JObj s \<Longrightarrow> \<exists>m. run_steps sel i steps = Inl m"
proof (induction steps arbitrary: i)
  case Nil
  then show ?case by simp
next
  case (Cons a steps)
  show ?case
  proof (cases "a = step")
    case True
    with Cons.prems(2) show ?thesis by (cases a) auto
  next
    case False
    with Cons.prems have "step \<in> set steps" by simp
    from Cons.IH[OF this Cons.prems(2), of "Suc i"] obtain m where
      "run_steps sel (Suc i) steps = Inl m" by blast
    then show ?thesis by (cases a) auto
  qed
qed

lemma all_dicts: "\<forall>step \<in> set steps. \<exists>s. step = JObj s \<Longrightarrow> \<exists>dicts. steps = map JObj dicts"
proof (induction steps)
  case Nil
  then show ?case by simp
next
  case (Cons a steps)
  then obtain s dicts where "a = JObj s" and "steps = map JObj dicts" by auto
  then have "a # steps = map JObj (s # dicts)" by simp
  then show ?case by (rule exI)
qed

lemma any_error_results:
  "any_error (map (\<lambda>(k, s). step_result (get_or s ''action'' JNull) (run_step sel k s)) ks) \<longleftrightarrow>
     (\<exists>(k, s) \<in> set ks. raised (run_step sel k s) \<noteq> None)"
  by (induction ks) (auto simp add: any_error_def step_result_status)

lemma execute_browser_automation_runs:
  assumes "browser_type = JStr b" and "py_lower b = ''chrome''" and "driver_error sel = None"
    and "steps_of instructions = Inr (map JObj dicts)" and "final_screenshot sel = Inr shot"
  shows "execute_browser_automation sel instructions browser_type =
     [(''status'',
       JStr (if \<exists>(k, s) \<in> set (enumerate 0 dicts). raised (run_step sel k s) \<noteq> None
             then ''partial_success'' else ''success'')),
      (''steps_results'',
       JArr (map JObj (map (\<lambda>(k, s). step_result (get_or s ''action'' JNull) (run_step sel k s))
                         (enumerate 0 dicts)))),
      (''message'',
       JStr (if \<exists>(k, s) \<in> set (enumerate 0 dicts). raised (run_step sel k s) \<noteq> None
             then ''Some steps failed, browser remains open for inspection''
             else ''Browser remains open for inspection'')),
      (''final_screenshot'', JStr shot)]"
  using assms
  by (simp add: execute_browser_automation_def run_steps_dicts any_error_results
           del: enumerate_eq_zip)

lemma execute_browser_automation_aborts:
  assumes "\<not> (\<exists>b dicts shot. browser_type = JStr b \<and> py_lower b = ''chrome'' \<and>
      driver_error sel = None \<and> steps_of instructions = Inr (map JObj dicts) \<and>
      final_screenshot sel = Inr shot)"
  shows "map_of (execute_browser_automation sel instructions browser_type) ''status'' =
       Some (JStr ''error'') \<and>
     map fst (execute_browser_automation sel instructions browser_type) = [''status'', ''message'']"
proof (cases "\<exists>b steps. browser_type = JStr b \<and> py_lower b = ''chrome'' \<and>
    driver_error sel = None \<and> steps_of instructions = Inr steps \<and>
    (\<exists>shot. final_screenshot sel = Inr shot)")
  case False
  then show ?thesis
    by (auto simp add: execute_browser_automation_def error_result_def
             split: json.splits option.splits sum.splits)
next
  case True
  then obtain b steps shot where f: "browser_type = JStr b" "py_lower b = ''chrome''"
    "driver_error sel = None" "steps_of instructions = Inr steps" "final_screenshot sel = Inr shot"
    by blast
  with assms have "\<not> (\<exists>dicts. steps = map JObj dicts)" by blast
  with all_dicts[of steps] obtain step where "step \<in> set steps" and "\<forall>s. step \<noteq> JObj s"
    by blast
  from run_steps_not_dict[OF this, of sel 0] obtain m where "run_steps sel 0 steps = Inl m"
    by blast
  with f show ?thesis
    by (simp add: execute_browser_automation_def error_result_def)
qed

lemma and_then_returns:
  "and_then r f = (Returns v, w') \<Longrightarrow> \<exists>x w1. r = (Returns x, w1) \<and> f x w1 = (Returns v, w')"
  by (cases r) (auto simp add: and_then_def split: outcome.splits)

lemma execute_loop_completed:
  "execute_loop sv fuel cmd prev w = Some (Returns (), w') \<Longrightarrow>
     \<exists>html cmd' prev' w0 s c.
       parse_command sv html cmd' prev' w0 = (Returns (JObj s), w') \<and>
       map_of s ''completed'' = Some c \<and> truthy c"
proof (induction fuel arbitrary: cmd prev w)
  case 0
  then show ?case by simp
next
  case (Suc fuel)
  let ?r = "and_then (kk_get_clean_html sv w) (\<lambda>html w1.
             parse_command sv (if truthy html then html else JStr []) cmd prev w1)"
  obtain r w2 where r: "?r = (r, w2)" by (cases ?r)
  from Suc.prems r obtain s where step: "r = Returns (JObj s)"
    by (auto split: outcome.splits json.splits)
  from and_then_returns[OF r[unfolded step]] obtain html w1 where
    p: "parse_command sv (if truthy html then html else JStr []) cmd prev w1 = (Returns (JObj s), w2)"
    by blast
  from Suc.prems r step obtain c where c: "map_of s ''completed'' = Some c"
    by (auto split: option.splits)
  show ?case
  proof (cases "truthy c")
    case True
    with Suc.prems r step c have "w' = w2" by simp
    with p c True show ?thesis by blast
  next
    case False
    with Suc.prems r step c obtain rc w3 where
      "execute_loop sv fuel rc (prev @ [JObj s]) (sleep 2000 w3) = Some (Returns (), w')"
      by (auto split: prod.splits outcome.splits if_splits option.splits)
    from Suc.IH[OF this] show ?thesis .
  qed
qed

lemma execute_loop_done:
  assumes "kk_get_clean_html sv w = (Returns html, w1)"
    and "parse_command sv (if truthy html then html else JStr []) cmd prev w1 =
           (Returns (JObj s), w2)"
    and "map_of s ''completed'' = Some c" and "truthy c"
  shows "execute_loop sv (Suc fuel) cmd prev w = Some (Returns (), w2)"
  using assms by (simp add: and_then_def)

lemma execute_loop_step:
  assumes "kk_get_clean_html sv w = (Returns html, w1)"
    and "parse_command sv (if truthy html then html else JStr []) cmd prev w1 =
           (Returns (JObj s), w2)"
    and "map_of s ''completed'' = Some c" and "\<not> truthy c"
    and "attempts 3 s w2 = (Returns success, w3)"
    and "has_key ''action'' s" and "has_key ''description'' s"
    and "map_of s ''remaining_command'' = Some remaining"
  shows "execute_loop sv (Suc fuel) cmd prev w =
     execute_loop sv fuel remaining (prev @ [JObj s]) (sleep 2000 w3)"
  using assms by (simp add: and_then_def)

lemma execute_loop_raises:
  assumes "kk_get_clean_html sv w = (Returns html, w1)"
    and "parse_command sv (if truthy html then html else JStr []) cmd prev w1 = (Raises e, w2)"
  shows "execute_loop sv (Suc fuel) cmd prev w = Some (Raises e, w2)"
  using assms by (simp add: and_then_def)

lemma handle_command_on_command:
  "handle_command sv fuel (JObj [(''command'', command)]) w =
     (case execute_command sv fuel command w of
        None \<Rightarrow> None
      | Some (Returns success, w') \<Rightarrow>
          Some (Returns ([(''status'', JStr (if success then ''success'' else ''error'')),
                          (''message'',
                           JStr (''Command '' @ (if success then ''completed'' else ''failed'') @
                                 '': '' @ str_of sv command))], 200), w')
      | Some (Raises e, w') \<Rightarrow> Some (Raises e, w')
      | Some (Hangs, w') \<Rightarrow> Some (Hangs, w'))"
  by (simp add: handle_command_def json_in_def subscript_def has_key_def)

text \<open>kk.py: a step that fails in all its attempts, followed by the planner's completion
  signal, ends in \<open>success\<close>.\<close>

lemma failed_step_then_completed:
  assumes "start_browser sv w = (Returns (), w1)" and "connect sv w1 = (Returns True, w2)"
    and "kk_get_clean_html sv w2 = (Returns html, w3)"
    and "parse_command sv (if truthy html then html else JStr []) command [] w3 =
           (Returns (JObj s), w4)"
    and "map_of s ''completed'' = Some c" and "\<not> truthy c"
    and "attempts 3 s w4 = (Returns False, w5)"
    and "has_key ''action'' s" and "has_key ''description'' s"
    and "map_of s ''remaining_command'' = Some remaining"
    and "kk_get_clean_html sv (sleep 2000 w5) = (Returns html2, w6)"
    and "parse_command sv (if truthy html2 then html2 else JStr []) remaining [JObj s] w6 =
           (Returns (JObj d), w7)"
    and "map_of d ''completed'' = Some c2" and "truthy c2"
  shows "handle_command sv (Suc (Suc fuel)) (JObj [(''command'', command)]) w =
     Some (Returns ([(''status'', JStr ''success''),
                     (''message'', JStr (''Command completed: '' @ str_of sv command))], 200), w7)"
proof -
  have "execute_loop sv (Suc (Suc fuel)) command [] w2 =
      execute_loop sv (Suc fuel) remaining ([] @ [JObj s]) (sleep 2000 w5)"
    by (rule execute_loop_step[OF assms(3,4,5,6,7,8,9,10)])
  also have "\<dots> = Some (Returns (), w7)"
    using execute_loop_done[OF assms(11) _ assms(13,14), of remaining "[JObj s]" w7 fuel] assms(12)
    by simp
  finally have "execute_command sv (Suc (Suc fuel)) command w = Some (Returns True, w7)"
    using assms(1,2) by (simp add: execute_command_def)
  then show ?thesis by (simp add: handle_command_on_command)
qed

lemma execute_command_true:
  assumes "execute_command sv fuel command w = Some (Returns True, w')"
  shows "\<exists>w1 w2. start_browser sv w = (Returns (), w1) \<and> connect sv w1 = (Returns True, w2) \<and>
     execute_loop sv fuel command [] w2 = Some (Returns (), w')"
  using assms
  by (auto simp add: execute_command_def
           split: prod.splits outcome.splits if_splits option.splits)

lemma handle_command_status:
  fixes sv :: services and w w' :: world
  assumes "handle_command sv fuel data w = Some (Returns (body, 200), w')"
  shows "map fst body = [''status'', ''message''] \<and>
     (map_of body ''status'' = Some (JStr ''success'') \<or>
      map_of body ''status'' = Some (JStr ''error'')) \<and>
     (\<exists>command. subscript data ''command'' = Returns command \<and>
        (map_of body ''status'' = Some (JStr ''success'')
           \<longleftrightarrow> execute_command sv fuel command w = Some (Returns True, w')) \<and>
        (map_of body ''status'' = Some (JStr ''error'')
           \<longleftrightarrow> execute_command sv fuel command w = Some (Returns False, w')))"
  using assms
  by (auto simp add: handle_command_def split: if_splits outcome.splits option.splits prod.splits)

text \<open>The example runs, stage by stage. The stages before the planner do not depend on the
  planner.\<close>

lemmas kk_run_simps = kk_send_command_def Let_def ws_closed_def kk_init_def has_key_def
  kk_wait_response.simps kk_deliver_def get_or_def and_then_def kk_execute_js_def sleep_def
  evaluate_params_def html_reply_def json_in_def subscript_def

lemma example_eba:
  "execute_browser_automation example_selenium example_instructions (JStr ''Chrome'') =
     [(''status'', JStr ''partial_success''),
      (''steps_results'',
       JArr [JObj [(''action'', JStr ''navigate''), (''status'', JStr ''success''),
                   (''details'', JStr ''Navigated to https://example.test'')],
             JObj [(''action'', JStr ''click''), (''status'', JStr ''error''),
                   (''error'', JStr ''No clickable element found'')]]),
      (''message'', JStr ''Some steps failed, browser remains open for inspection''),
      (''final_screenshot'', JStr ''iVBORw0KGgo='')]"
  by (simp add: execute_browser_automation_def example_selenium_def example_instructions_def
        py_lower_def steps_of_def get_or_def step_result_def any_error_def run_step_def Let_def)

lemma example_steps:
  "steps_of example_instructions = Inr (map JObj
      [[(''action'', JStr ''navigate''),
        (''params'', JObj [(''url'', JStr ''https://example.test'')])],
       [(''action'', JStr ''click''),
        (''params'', JObj [(''selector'', JStr ''#go'')])]])"
  by (simp add: steps_of_def example_instructions_def get_or_def)

lemma example_stages:
  "\<exists>w0 w3 w4 w7 w8.
     (\<forall>p c. start_browser (example_services\<lparr>parse_command := p\<rparr>) example_kk_session =
              (Returns (), w0) \<and>
            start_browser (example_services\<lparr>connect := c\<rparr>) example_kk_session =
              (Returns (), w0) \<and>
            connect (example_services\<lparr>parse_command := p\<rparr>) w0 = (Returns True, w3) \<and>
            kk_get_clean_html (example_services\<lparr>parse_command := p\<rparr>) w3 =
              (Returns (JStr ''<html></html>''), w4) \<and>
            kk_get_clean_html (example_services\<lparr>parse_command := p\<rparr>) (sleep 2000 w7) =
              (Returns (JStr ''<html></html>''), w8)) \<and>
     attempts 3 click_step w4 = (Returns False, w7)"
proof -
  define html where "html = [(''id'', JNum 8),
     (''result'', JObj [(''result'', JObj [(''type'', JStr ''string''),
                                           (''value'', JStr ''<html></html>'')])])]"
  define enable where "enable = [command_frame 1 ''Page.enable'' (JObj []),
     command_frame 2 ''DOM.enable'' (JObj []), command_frame 3 ''Runtime.enable'' (JObj [])]"
  define get_html where "get_html = JObj [(''expression'', JStr ''document.documentElement.outerHTML''),
     (''returnByValue'', JBool True)]"
  define look where "look = evaluate_params True (kk_click_exists_script ''#go'')"
  define w0 where "w0 = example_kk_session\<lparr>now := 3000\<rparr>"
  define w3 where "w3 = \<lparr>command_id = 4, current_url = None, now = 3030, outbox = enable,
     ws_closed_from = None,
     response_queue = [(3040, [(''id'', JNum 4),
        (''result'', JObj [(''result'', JObj [(''type'', JStr ''string''),
                                              (''value'', JStr ''<html></html>'')])])]),
        (38050, html)],
     event_queue = [], load_fired = [], page_loaded_from = 0\<rparr>"
  define w4 where "w4 = w3\<lparr>command_id := 5, now := 3040,
     outbox := enable @ [command_frame 4 ''Runtime.evaluate'' get_html],
     response_queue := [(38050, html)]\<rparr>"
  define w7 where "w7 = w4\<lparr>command_id := 8, now := 36040,
     outbox := enable @ [command_frame 4 ''Runtime.evaluate'' get_html,
       command_frame 5 ''Runtime.evaluate'' look, command_frame 6 ''Runtime.evaluate'' look,
       command_frame 7 ''Runtime.evaluate'' look]\<rparr>"
  define w8 where "w8 = w7\<lparr>command_id := 9, now := 38050,
     outbox := outbox w7 @ [command_frame 8 ''Runtime.evaluate'' get_html],
     response_queue := []\<rparr>"
  have s: "start_browser (example_services\<lparr>parse_command := p\<rparr>) example_kk_session =
      (Returns (), w0)" for p
    by (simp add: example_services_def sleep_def w0_def example_kk_session_def kk_init_def
          has_key_def html_reply_def)
  have s': "start_browser (example_services\<lparr>connect := c\<rparr>) example_kk_session =
      (Returns (), w0)" for c
    by (simp add: example_services_def sleep_def w0_def example_kk_session_def kk_init_def
          has_key_def html_reply_def)
  have c: "connect (example_services\<lparr>parse_command := p\<rparr>) w0 = (Returns True, w3)" for p
    by (simp add: example_services_def w0_def w3_def enable_def html_def example_kk_session_def
          kk_run_simps)
  have h1: "kk_get_clean_html (example_services\<lparr>parse_command := p\<rparr>) w3 =
      (Returns (JStr ''<html></html>''), w4)" for p
    by (simp add: kk_get_clean_html_def w3_def w4_def get_html_def)
       (simp add: example_services_def enable_def html_def kk_run_simps)
  have a: "attempts 3 click_step w4 = (Returns False, w7)"
    by (simp add: numeral_3_eq_3 attempt_def click_step_def string_arg_def
          kk_click_element_def look_def w4_def w3_def w7_def html_def kk_run_simps)
  have h2: "kk_get_clean_html (example_services\<lparr>parse_command := p\<rparr>) (sleep 2000 w7) =
      (Returns (JStr ''<html></html>''), w8)" for p
    by (simp add: kk_get_clean_html_def w8_def w7_def w4_def w3_def get_html_def)
       (simp add: example_services_def html_def kk_run_simps)
  from s s' c h1 h2 a show ?thesis by blast
qed

lemma example_services_planner:
  "example_services\<lparr>parse_command := parse_command example_services\<rparr> = example_services"
  by simp

lemma example_steps_keys:
  "map_of click_step ''completed'' = Some (JBool False)"
  "map_of click_step ''remaining_command'' = Some (JStr [])"
  "has_key ''action'' click_step" "has_key ''description'' click_step"
  "map_of complete_step ''completed'' = Some (JBool True)"
  by (simp_all add: click_step_def complete_step_def has_key_def)

lemma example_run:
  "\<exists>w4 w7 w8.
     kk_get_clean_html example_services
        (snd (connect example_services
           (snd (start_browser example_services example_kk_session)))) =
       (Returns (JStr ''<html></html>''), w4) \<and>
     attempts 3 click_step w4 = (Returns False, w7) \<and>
     handle_command example_services 2 (JObj [(''command'', JStr ''press the button'')]) example_kk_session =
       Some (Returns ([(''status'', JStr ''success''),
                       (''message'', JStr ''Command completed: press the button'')], 200), w8)"
proof -
  from example_stages obtain w0 w3 w4 w7 w8 where
    st: "\<And>p. start_browser (example_services\<lparr>parse_command := p\<rparr>) example_kk_session =
              (Returns (), w0)"
        "\<And>p. connect (example_services\<lparr>parse_command := p\<rparr>) w0 = (Returns True, w3)"
        "\<And>p. kk_get_clean_html (example_services\<lparr>parse_command := p\<rparr>) w3 =
              (Returns (JStr ''<html></html>''), w4)"
        "\<And>p. kk_get_clean_html (example_services\<lparr>parse_command := p\<rparr>) (sleep 2000 w7) =
              (Returns (JStr ''<html></html>''), w8)" and
    a: "attempts 3 click_step w4 = (Returns False, w7)"
    by blast
  note e = st[of "parse_command example_services", unfolded example_services_planner]
  have p1: "parse_command example_services
      (if truthy (JStr ''<html></html>'') then JStr ''<html></html>'' else JStr [])
      (JStr ''press the button'') [] w4 = (Returns (JObj click_step), w4)"
    by (simp add: example_services_def)
  have p2: "parse_command example_services
      (if truthy (JStr ''<html></html>'') then JStr ''<html></html>'' else JStr [])
      (JStr []) [JObj click_step] w8 = (Returns (JObj complete_step), w8)"
    by (simp add: example_services_def)
  have t: "\<not> truthy (JBool False)" "truthy (JBool True)" by simp_all
  have n: "str_of example_services (JStr ''press the button'') = ''press the button''"
    by (simp add: example_services_def)
  have "handle_command example_services (Suc (Suc 0)) (JObj [(''command'', JStr ''press the button'')]) example_kk_session =
      Some (Returns ([(''status'', JStr ''success''),
         (''message'', JStr (''Command completed: '' @
            str_of example_services (JStr ''press the button'')))], 200), w8)"
    by (rule failed_step_then_completed[OF e(1) e(2) e(3) p1 example_steps_keys(1) t(1) a
          example_steps_keys(3) example_steps_keys(4) example_steps_keys(2) e(4) p2
          example_steps_keys(5) t(2)])
  then have r: "handle_command example_services 2 (JObj [(''command'', JStr ''press the button'')]) example_kk_session =
       Some (Returns ([(''status'', JStr ''success''),
                       (''message'', JStr ''Command completed: press the button'')], 200), w8)"
    by (simp add: n numeral_2_eq_2)
  from e(1) e(2) e(3) a r show ?thesis by simp
qed

lemma planner_error_reported:
  assumes s: "start_browser sv w = (Returns (), w1)" and c: "connect sv w1 = (Returns True, w2)"
    and h: "kk_get_clean_html sv w2 = (Returns html, w3)"
    and p: "parse_command sv (if truthy html then html else JStr []) command [] w3 = (Raises e, w4)"
  shows "handle_command sv (Suc fuel) (JObj [(''command'', command)]) w =
     Some (Returns ([(''status'', JStr ''error''),
                     (''message'', JStr (''Command failed: '' @ str_of sv command))], 200), w4)"
proof -
  have l: "execute_loop sv (Suc fuel) command [] w2 = Some (Raises e, w4)"
    by (rule execute_loop_raises[OF h p])
  have "execute_command sv (Suc fuel) command w = Some (Returns False, w4)"
    unfolding execute_command_def by (simp add: s c l del: execute_loop.simps)
  then show ?thesis by (simp add: handle_command_on_command)
qed

text \<open>
  C7, as the code has it. om.py's \<open>execute_browser_automation\<close>: under a Chrome browser
  type, a driver that starts, a list of steps that are all objects and a final screenshot
  that succeeds, the result has the keys \<open>status\<close>, \<open>steps_results\<close>, \<open>message\<close> and
  \<open>final_screenshot\<close>; \<open>steps_results\<close> has one entry per step, in order, each with the
  step's action and its status \<open>success\<close> or \<open>error\<close>; the overall status is \<open>success\<close> exactly when
  no step raised and \<open>partial_success\<close> exactly when some step raised. In every other
  case the result is \<open>{"status": "error", "message": ...}\<close> with no step history.
  kk.py's \<open>handle_command\<close> answers a command with \<open>status\<close> and \<open>message\<close> only; the
  status is \<open>success\<close> exactly when \<open>execute_command\<close> returned \<open>True\<close> and \<open>error\<close>
  exactly when it returned \<open>False\<close>. \<open>execute_command\<close> returns \<open>True\<close> only when the
  browser started, the connection succeeded and the planner's last reply carried a true
  \<open>completed\<close>. A failed connection and a planner that raises are answered with
  \<open>error\<close>. A step that fails in all three attempts, followed by the planner's completion
  signal, is answered with \<open>success\<close>.
\<close>

theorem run_status_of_entry_points:
  fixes sel :: selenium and sv :: services and w w' w1 w2 w3 w4 w5 w6 w7 :: world
  shows
  "(browser_type = JStr b \<and> py_lower b = ''chrome'' \<and> driver_error sel = None \<and>
    steps_of instructions = Inr (map JObj dicts) \<and> final_screenshot sel = Inr shot \<longrightarrow>
      map fst (execute_browser_automation sel instructions browser_type) =
        [''status'', ''steps_results'', ''message'', ''final_screenshot''] \<and>
      map_of (execute_browser_automation sel instructions browser_type) ''steps_results'' =
        Some (JArr (map (\<lambda>(k, s). JObj (step_result (get_or s ''action'' JNull) (run_step sel k s)))
                      (enumerate 0 dicts))) \<and>
      (\<forall>(k, s) \<in> set (enumerate 0 dicts).
         map_of (step_result (get_or s ''action'' JNull) (run_step sel k s)) ''action'' =
           Some (get_or s ''action'' JNull) \<and>
         map_of (step_result (get_or s ''action'' JNull) (run_step sel k s)) ''status'' =
           Some (JStr (if raised (run_step sel k s) = None then ''success'' else ''error''))) \<and>
      (map_of (execute_browser_automation sel instructions browser_type) ''status'' = Some (JStr ''success'') \<longleftrightarrow>
         (\<forall>(k, s) \<in> set (enumerate 0 dicts). raised (run_step sel k s) = None)) \<and>
      (map_of (execute_browser_automation sel instructions browser_type) ''status'' = Some (JStr ''partial_success'') \<longleftrightarrow>
         (\<exists>(k, s) \<in> set (enumerate 0 dicts). raised (run_step sel k s) \<noteq> None))) \<and>
   (\<not> (\<exists>b dicts shot. browser_type = JStr b \<and> py_lower b = ''chrome'' \<and>
         driver_error sel = None \<and> steps_of instructions = Inr (map JObj dicts) \<and>
         final_screenshot sel = Inr shot) \<longrightarrow>
      map_of (execute_browser_automation sel instructions browser_type) ''status'' = Some (JStr ''error'') \<and>
      map fst (execute_browser_automation sel instructions browser_type) = [''status'', ''message'']) \<and>
   (handle_command sv fuel data w = Some (Returns (body, 200), w') \<longrightarrow>
      map fst body = [''status'', ''message''] \<and>
      (map_of body ''status'' = Some (JStr ''success'') \<or>
       map_of body ''status'' = Some (JStr ''error'')) \<and>
      (\<exists>command. subscript data ''command'' = Returns command \<and>
         (map_of body ''status'' = Some (JStr ''success'')
            \<longleftrightarrow> execute_command sv fuel command w = Some (Returns True, w')) \<and>
         (map_of body ''status'' = Some (JStr ''error'')
            \<longleftrightarrow> execute_command sv fuel command w = Some (Returns False, w')))) \<and>
   (execute_command sv fuel command w = Some (Returns True, w') \<longrightarrow>
      (\<exists>w1 w2. start_browser sv w = (Returns (), w1) \<and> connect sv w1 = (Returns True, w2)) \<and>
      (\<exists>html cmd prev w0 s c.
         parse_command sv html cmd prev w0 = (Returns (JObj s), w') \<and>
         map_of s ''completed'' = Some c \<and> truthy c)) \<and>
   (start_browser sv w = (Returns (), w1) \<and> connect sv w1 = (Returns False, w2) \<longrightarrow>
      handle_command sv fuel (JObj [(''command'', command)]) w =
        Some (Returns ([(''status'', JStr ''error''),
                        (''message'', JStr (''Command failed: '' @ str_of sv command))], 200), w2)) \<and>
   (start_browser sv w = (Returns (), w1) \<and> connect sv w1 = (Returns True, w2) \<and>
    kk_get_clean_html sv w2 = (Returns html, w3) \<and>
    parse_command sv (if truthy html then html else JStr []) command [] w3 = (Raises e, w4) \<longrightarrow>
      handle_command sv (Suc fuel) (JObj [(''command'', command)]) w =
        Some (Returns ([(''status'', JStr ''error''),
                        (''message'', JStr (''Command failed: '' @ str_of sv command))], 200), w4)) \<and>
   (start_browser sv w = (Returns (), w1) \<and> connect sv w1 = (Returns True, w2) \<and>
    kk_get_clean_html sv w2 = (Returns html, w3) \<and>
    parse_command sv (if truthy html then html else JStr []) command [] w3 =
      (Returns (JObj s), w4) \<and>
    map_of s ''completed'' = Some c \<and> \<not> truthy c \<and>
    attempts 3 s w4 = (Returns False, w5) \<and>
    has_key ''action'' s \<and> has_key ''description'' s \<and>
    map_of s ''remaining_command'' = Some remaining \<and>
    kk_get_clean_html sv (sleep 2000 w5) = (Returns html2, w6) \<and>
    parse_command sv (if truthy html2 then html2 else JStr []) remaining [JObj s] w6 =
      (Returns (JObj d), w7) \<and>
    map_of d ''completed'' = Some c2 \<and> truthy c2 \<longrightarrow>
      handle_command sv (Suc (Suc fuel)) (JObj [(''command'', command)]) w =
        Some (Returns ([(''status'', JStr ''success''),
                        (''message'', JStr (''Command completed: '' @ str_of sv command))], 200),
              w7))"
proof -
  have runs: "(browser_type = JStr b \<and> py_lower b = ''chrome'' \<and> driver_error sel = None \<and>
    steps_of instructions = Inr (map JObj dicts) \<and> final_screenshot sel = Inr shot \<longrightarrow>
      map fst (execute_browser_automation sel instructions browser_type) =
        [''status'', ''steps_results'', ''message'', ''final_screenshot''] \<and>
      map_of (execute_browser_automation sel instructions browser_type) ''steps_results'' =
        Some (JArr (map (\<lambda>(k, s). JObj (step_result (get_or s ''action'' JNull) (run_step sel k s)))
                      (enumerate 0 dicts))) \<and>
      (\<forall>(k, s) \<in> set (enumerate 0 dicts).
         map_of (step_result (get_or s ''action'' JNull) (run_step sel k s)) ''action'' =
           Some (get_or s ''action'' JNull) \<and>
         map_of (step_result (get_or s ''action'' JNull) (run_step sel k s)) ''status'' =
           Some (JStr (if raised (run_step sel k s) = None then ''success'' else ''error''))) \<and>
      (map_of (execute_browser_automation sel instructions browser_type) ''status'' = Some (JStr ''success'') \<longleftrightarrow>
         (\<forall>(k, s) \<in> set (enumerate 0 dicts). raised (run_step sel k s) = None)) \<and>
      (map_of (execute_browser_automation sel instructions browser_type) ''status'' = Some (JStr ''partial_success'') \<longleftrightarrow>
         (\<exists>(k, s) \<in> set (enumerate 0 dicts). raised (run_step sel k s) \<noteq> None)))"
  proof (intro impI)
    assume a: "browser_type = JStr b \<and> py_lower b = ''chrome'' \<and> driver_error sel = None \<and>
      steps_of instructions = Inr (map JObj dicts) \<and> final_screenshot sel = Inr shot"
    then have r: "execute_browser_automation sel instructions browser_type =
       [(''status'',
         JStr (if \<exists>(k, s) \<in> set (enumerate 0 dicts). raised (run_step sel k s) \<noteq> None
               then ''partial_success'' else ''success'')),
        (''steps_results'',
         JArr (map JObj (map (\<lambda>(k, s). step_result (get_or s ''action'' JNull) (run_step sel k s))
                           (enumerate 0 dicts)))),
        (''message'',
         JStr (if \<exists>(k, s) \<in> set (enumerate 0 dicts). raised (run_step sel k s) \<noteq> None
               then ''Some steps failed, browser remains open for inspection''
               else ''Browser remains open for inspection'')),
        (''final_screenshot'', JStr shot)]"
      by (intro execute_browser_automation_runs[of browser_type b sel instructions dicts shot])
        blast+
    show "map fst (execute_browser_automation sel instructions browser_type) =
        [''status'', ''steps_results'', ''message'', ''final_screenshot''] \<and>
      map_of (execute_browser_automation sel instructions browser_type) ''steps_results'' =
        Some (JArr (map (\<lambda>(k, s). JObj (step_result (get_or s ''action'' JNull) (run_step sel k s)))
                      (enumerate 0 dicts))) \<and>
      (\<forall>(k, s) \<in> set (enumerate 0 dicts).
         map_of (step_result (get_or s ''action'' JNull) (run_step sel k s)) ''action'' =
           Some (get_or s ''action'' JNull) \<and>
         map_of (step_result (get_or s ''action'' JNull) (run_step sel k s)) ''status'' =
           Some (JStr (if raised (run_step sel k s) = None then ''success'' else ''error''))) \<and>
      (map_of (execute_browser_automation sel instructions browser_type) ''status'' = Some (JStr ''success'') \<longleftrightarrow>
         (\<forall>(k, s) \<in> set (enumerate 0 dicts). raised (run_step sel k s) = None)) \<and>
      (map_of (execute_browser_automation sel instructions browser_type) ''status'' = Some (JStr ''partial_success'') \<longleftrightarrow>
         (\<exists>(k, s) \<in> set (enumerate 0 dicts). raised (run_step sel k s) \<noteq> None))"
      unfolding r
      by (auto simp add: step_result_status step_result_action case_prod_unfold comp_def
            simp del: enumerate_eq_zip)
  qed
  have aborts: "(\<not> (\<exists>b dicts shot. browser_type = JStr b \<and> py_lower b = ''chrome'' \<and>
         driver_error sel = None \<and> steps_of instructions = Inr (map JObj dicts) \<and>
         final_screenshot sel = Inr shot) \<longrightarrow>
      map_of (execute_browser_automation sel instructions browser_type) ''status'' = Some (JStr ''error'') \<and>
      map fst (execute_browser_automation sel instructions browser_type) = [''status'', ''message''])"
    using execute_browser_automation_aborts[of browser_type sel instructions] by blast
  have shape: "(handle_command sv fuel data w = Some (Returns (body, 200), w') \<longrightarrow>
      map fst body = [''status'', ''message''] \<and>
      (map_of body ''status'' = Some (JStr ''success'') \<or>
       map_of body ''status'' = Some (JStr ''error'')) \<and>
      (\<exists>command. subscript data ''command'' = Returns command \<and>
         (map_of body ''status'' = Some (JStr ''success'')
            \<longleftrightarrow> execute_command sv fuel command w = Some (Returns True, w')) \<and>
         (map_of body ''status'' = Some (JStr ''error'')
            \<longleftrightarrow> execute_command sv fuel command w = Some (Returns False, w'))))"
    using handle_command_status[of sv fuel data w body w'] by blast
  have true: "(execute_command sv fuel command w = Some (Returns True, w') \<longrightarrow>
      (\<exists>w1 w2. start_browser sv w = (Returns (), w1) \<and> connect sv w1 = (Returns True, w2)) \<and>
      (\<exists>html cmd prev w0 s c.
         parse_command sv html cmd prev w0 = (Returns (JObj s), w') \<and>
         map_of s ''completed'' = Some c \<and> truthy c))"
  proof (intro impI)
    assume "execute_command sv fuel command w = Some (Returns True, w')"
    from execute_command_true[OF this] obtain w1 w2 where
      s: "start_browser sv w = (Returns (), w1)" "connect sv w1 = (Returns True, w2)" and
      l: "execute_loop sv fuel command [] w2 = Some (Returns (), w')" by blast
    from s execute_loop_completed[OF l]
    show "(\<exists>w1 w2. start_browser sv w = (Returns (), w1) \<and> connect sv w1 = (Returns True, w2)) \<and>
      (\<exists>html cmd prev w0 s c.
         parse_command sv html cmd prev w0 = (Returns (JObj s), w') \<and>
         map_of s ''completed'' = Some c \<and> truthy c)" by blast
  qed
  have noconn: "(start_browser sv w = (Returns (), w1) \<and> connect sv w1 = (Returns False, w2) \<longrightarrow>
      handle_command sv fuel (JObj [(''command'', command)]) w =
        Some (Returns ([(''status'', JStr ''error''),
                        (''message'', JStr (''Command failed: '' @ str_of sv command))], 200), w2))"
    by (simp add: handle_command_on_command execute_command_def)
  have praise: "(start_browser sv w = (Returns (), w1) \<and> connect sv w1 = (Returns True, w2) \<and>
    kk_get_clean_html sv w2 = (Returns html, w3) \<and>
    parse_command sv (if truthy html then html else JStr []) command [] w3 = (Raises e, w4) \<longrightarrow>
      handle_command sv (Suc fuel) (JObj [(''command'', command)]) w =
        Some (Returns ([(''status'', JStr ''error''),
                        (''message'', JStr (''Command failed: '' @ str_of sv command))], 200), w4))"
    using planner_error_reported[of sv w w1 w2 html w3 command e w4 fuel] by blast
  have failed: "(start_browser sv w = (Returns (), w1) \<and> connect sv w1 = (Returns True, w2) \<and>
    kk_get_clean_html sv w2 = (Returns html, w3) \<and>
    parse_command sv (if truthy html then html else JStr []) command [] w3 =
      (Returns (JObj s), w4) \<and>
    map_of s ''completed'' = Some c \<and> \<not> truthy c \<and>
    attempts 3 s w4 = (Returns False, w5) \<and>
    has_key ''action'' s \<and> has_key ''description'' s \<and>
    map_of s ''remaining_command'' = Some remaining \<and>
    kk_get_clean_html sv (sleep 2000 w5) = (Returns html2, w6) \<and>
    parse_command sv (if truthy html2 then html2 else JStr []) remaining [JObj s] w6 =
      (Returns (JObj d), w7) \<and>
    map_of d ''completed'' = Some c2 \<and> truthy c2 \<longrightarrow>
      handle_command sv (Suc (Suc fuel)) (JObj [(''command'', command)]) w =
        Some (Returns ([(''status'', JStr ''success''),
                        (''message'', JStr (''Command completed: '' @ str_of sv command))], 200),
              w7))"
  proof (intro impI)
    assume a: "start_browser sv w = (Returns (), w1) \<and> connect sv w1 = (Returns True, w2) \<and>
    kk_get_clean_html sv w2 = (Returns html, w3) \<and>
    parse_command sv (if truthy html then html else JStr []) command [] w3 =
      (Returns (JObj s), w4) \<and>
    map_of s ''completed'' = Some c \<and> \<not> truthy c \<and>
    attempts 3 s w4 = (Returns False, w5) \<and>
    has_key ''action'' s \<and> has_key ''description'' s \<and>
    map_of s ''remaining_command'' = Some remaining \<and>
    kk_get_clean_html sv (sleep 2000 w5) = (Returns html2, w6) \<and>
    parse_command sv (if truthy html2 then html2 else JStr []) remaining [JObj s] w6 =
      (Returns (JObj d), w7) \<and>
    map_of d ''completed'' = Some c2 \<and> truthy c2"
    then show "handle_command sv (Suc (Suc fuel)) (JObj [(''command'', command)]) w =
        Some (Returns ([(''status'', JStr ''success''),
                        (''message'', JStr (''Command completed: '' @ str_of sv command))], 200),
              w7)"
      by (intro failed_step_then_completed[where ?w1.0 = w1 and ?w2.0 = w2 and ?w3.0 = w3
            and ?w4.0 = w4 and ?w5.0 = w5 and ?w6.0 = w6 and html = html and ?html2.0 = html2
            and s = s and c = c and ?c2.0 = c2 and remaining = remaining and d = d]) simp_all
  qed
  from runs aborts shape true noconn praise failed show ?thesis by (intro conjI)
qed


text \<open>
  The theorem at concrete runs. om.py with two steps of which the second fails, under
  \<open>Chrome\<close> and under \<open>Firefox\<close>. kk.py where the first step fails in all three
  attempts and the planner then signals completion; where the connection fails; and where
  the planner raises.
\<close>

theorem run_status_of_entry_points_witness:
  "map fst (execute_browser_automation example_selenium example_instructions (JStr ''Chrome'')) =
     [''status'', ''steps_results'', ''message'', ''final_screenshot''] \<and>
   map_of (execute_browser_automation example_selenium example_instructions (JStr ''Chrome'')) ''status'' = Some (JStr ''partial_success'') \<and>
   map_of (execute_browser_automation example_selenium example_instructions (JStr ''Chrome'')) ''status'' \<noteq> Some (JStr ''success'') \<and>
   map_of (execute_browser_automation example_selenium example_instructions (JStr ''Firefox'')) ''status'' = Some (JStr ''error'') \<and>
   map fst (execute_browser_automation example_selenium example_instructions (JStr ''Firefox'')) = [''status'', ''message''] \<and>
   map_option fst (handle_command example_services 2 (JObj [(''command'', JStr ''press the button'')]) example_kk_session) =
     Some (Returns ([(''status'', JStr ''success''),
                   (''message'', JStr ''Command completed: press the button'')], 200)) \<and>
   map_option fst (execute_command example_services 2 (JStr ''press the button'')
     example_kk_session) = Some (Returns True) \<and>
   (\<exists>html cmd prev w0 w' s c.
      parse_command example_services html cmd prev w0 = (Returns (JObj s), w') \<and>
      map_of s ''completed'' = Some c \<and> truthy c) \<and>
   map_option fst (handle_command (example_services\<lparr>connect := \<lambda>w. (Returns False, w)\<rparr>) 2 (JObj [(''command'', JStr ''press the button'')]) example_kk_session) =
     Some (Returns ([(''status'', JStr ''error''),
                   (''message'', JStr ''Command failed: press the button'')], 200)) \<and>
   map_option fst (handle_command (example_services\<lparr>parse_command := \<lambda>html command previous w. (Raises ValueError, w)\<rparr>) 2 (JObj [(''command'', JStr ''press the button'')]) example_kk_session) =
     Some (Returns ([(''status'', JStr ''error''),
                   (''message'', JStr ''Command failed: press the button'')], 200))"
proof -
  from example_stages obtain w0 w3 w4 w7 w8 where
    sp: "\<And>p. start_browser (example_services\<lparr>parse_command := p\<rparr>) example_kk_session =
              (Returns (), w0)" and
    sc: "\<And>c. start_browser (example_services\<lparr>connect := c\<rparr>) example_kk_session =
              (Returns (), w0)" and
    st: "\<And>p. connect (example_services\<lparr>parse_command := p\<rparr>) w0 = (Returns True, w3)"
        "\<And>p. kk_get_clean_html (example_services\<lparr>parse_command := p\<rparr>) w3 =
              (Returns (JStr ''<html></html>''), w4)"
        "\<And>p. kk_get_clean_html (example_services\<lparr>parse_command := p\<rparr>) (sleep 2000 w7) =
              (Returns (JStr ''<html></html>''), w8)" and
    a: "attempts 3 click_step w4 = (Returns False, w7)"
    by blast
  note e = sp[of "parse_command example_services", unfolded example_services_planner]
    st[of "parse_command example_services", unfolded example_services_planner]
  have p1: "parse_command example_services
      (if truthy (JStr ''<html></html>'') then JStr ''<html></html>'' else JStr [])
      (JStr ''press the button'') [] w4 = (Returns (JObj click_step), w4)"
    by (simp add: example_services_def)
  have p2: "parse_command example_services
      (if truthy (JStr ''<html></html>'') then JStr ''<html></html>'' else JStr [])
      (JStr []) [JObj click_step] w8 = (Returns (JObj complete_step), w8)"
    by (simp add: example_services_def)
  have n: "str_of example_services (JStr ''press the button'') = ''press the button''"
      "str_of (example_services\<lparr>connect := \<lambda>w. (Returns False, w)\<rparr>) (JStr ''press the button'') = ''press the button''"
      "str_of (example_services\<lparr>parse_command := \<lambda>html command previous w. (Raises ValueError, w)\<rparr>) (JStr ''press the button'') = ''press the button''"
    by (simp_all add: example_services_def)

  txt \<open>om.py under Chrome: both steps ran, one failed.\<close>
  note chrome = run_status_of_entry_points[where browser_type = "JStr ''Chrome''"
      and b = "''Chrome''" and sel = example_selenium and instructions = example_instructions
      and dicts = "[[(''action'', JStr ''navigate''), (''params'', JObj [(''url'', JStr ''https://example.test'')])], [(''action'', JStr ''click''), (''params'', JObj [(''selector'', JStr ''#go'')])]]"
      and shot = "''iVBORw0KGgo=''", THEN conjunct1]
  have pre: "JStr ''Chrome'' = JStr ''Chrome'' \<and> py_lower ''Chrome'' = ''chrome'' \<and>
      driver_error example_selenium = None \<and>
      steps_of example_instructions = Inr (map JObj [[(''action'', JStr ''navigate''), (''params'', JObj [(''url'', JStr ''https://example.test'')])], [(''action'', JStr ''click''), (''params'', JObj [(''selector'', JStr ''#go'')])]]) \<and>
      final_screenshot example_selenium = Inr ''iVBORw0KGgo=''"
    using example_steps by (simp add: py_lower_def example_selenium_def)
  have bad: "\<exists>(k, s) \<in> set (enumerate 0 [[(''action'', JStr ''navigate''), (''params'', JObj [(''url'', JStr ''https://example.test'')])], [(''action'', JStr ''click''), (''params'', JObj [(''selector'', JStr ''#go'')])]]).
      raised (run_step example_selenium k s) \<noteq> None"
    by (simp add: run_step_def example_selenium_def)
  from chrome pre bad
  have o1: "map fst (execute_browser_automation example_selenium example_instructions (JStr ''Chrome'')) =
     [''status'', ''steps_results'', ''message'', ''final_screenshot'']"
    and o2: "map_of (execute_browser_automation example_selenium example_instructions (JStr ''Chrome'')) ''status'' = Some (JStr ''partial_success'')"
    by blast+
  from o2 have o3: "map_of (execute_browser_automation example_selenium example_instructions (JStr ''Chrome'')) ''status'' \<noteq> Some (JStr ''success'')"
    by simp

  txt \<open>om.py under Firefox: the run is given up.\<close>
  note firefox = run_status_of_entry_points[where browser_type = "JStr ''Firefox''"
      and sel = example_selenium and instructions = example_instructions,
      THEN conjunct2, THEN conjunct1]
  have "\<not> (\<exists>b dicts shot. JStr ''Firefox'' = JStr b \<and> py_lower b = ''chrome'' \<and>
         driver_error example_selenium = None \<and>
         steps_of example_instructions = Inr (map JObj dicts) \<and>
         final_screenshot example_selenium = Inr shot)"
    by (auto simp add: py_lower_def)
  with firefox
  have o4: "map_of (execute_browser_automation example_selenium example_instructions (JStr ''Firefox'')) ''status'' = Some (JStr ''error'')"
    and o5: "map fst (execute_browser_automation example_selenium example_instructions (JStr ''Firefox'')) = [''status'', ''message'']"
    by blast+

  txt \<open>kk.py: a failed step, then the completion signal.\<close>
  note failed = run_status_of_entry_points[where sv = example_services
      and w = example_kk_session and ?w1.0 = w0 and ?w2.0 = w3
      and html = "JStr ''<html></html>''" and ?w3.0 = w4 and command = "JStr ''press the button''"
      and s = click_step and ?w4.0 = w4 and c = "JBool False" and ?w5.0 = w7
      and remaining = "JStr []" and ?html2.0 = "JStr ''<html></html>''" and ?w6.0 = w8
      and d = complete_step and ?w7.0 = w8 and ?c2.0 = "JBool True" and fuel = 0,
      THEN conjunct2, THEN conjunct2, THEN conjunct2, THEN conjunct2, THEN conjunct2,
      THEN conjunct2]
  from failed e p1 p2 a example_steps_keys
  have "handle_command example_services (Suc (Suc 0)) (JObj [(''command'', JStr ''press the button'')]) example_kk_session =
      Some (Returns ([(''status'', JStr ''success''),
         (''message'', JStr (''Command completed: '' @
            str_of example_services (JStr ''press the button'')))], 200), w8)"
    by simp
  then have h: "handle_command example_services 2 (JObj [(''command'', JStr ''press the button'')]) example_kk_session =
      Some (Returns ([(''status'', JStr ''success''),
         (''message'', JStr ''Command completed: press the button'')], 200), w8)"
    by (simp add: n numeral_2_eq_2)
  then have k1: "map_option fst (handle_command example_services 2 (JObj [(''command'', JStr ''press the button'')]) example_kk_session) =
     Some (Returns ([(''status'', JStr ''success''),
                   (''message'', JStr ''Command completed: press the button'')], 200))"
    by simp

  txt \<open>kk.py: the reply says \<open>success\<close> exactly when \<open>execute_command\<close> returned
    \<open>True\<close>, and that happens only at a completion signal of the planner.\<close>
  note shape = run_status_of_entry_points[where sv = example_services and fuel = 2
      and data = "JObj [(''command'', JStr ''press the button'')]" and w = example_kk_session and w' = w8
      and body = "[(''status'', JStr ''success''),
         (''message'', JStr ''Command completed: press the button'')]",
      THEN conjunct2, THEN conjunct2, THEN conjunct1]
  from shape h
  have x: "execute_command example_services 2 (JStr ''press the button'') example_kk_session =
      Some (Returns True, w8)"
    by (simp add: subscript_def)
  then have k2: "map_option fst (execute_command example_services 2 (JStr ''press the button'')
     example_kk_session) = Some (Returns True)"
    by simp
  note true = run_status_of_entry_points[where sv = example_services and fuel = 2
      and command = "JStr ''press the button''" and w = example_kk_session and w' = w8,
      THEN conjunct2, THEN conjunct2, THEN conjunct2, THEN conjunct1]
  from true x
  have k3: "\<exists>html cmd prev w0 w' s c.
      parse_command example_services html cmd prev w0 = (Returns (JObj s), w') \<and>
      map_of s ''completed'' = Some c \<and> truthy c"
    by blast

  txt \<open>kk.py: no connection.\<close>
  note noconn = run_status_of_entry_points[where sv = "example_services\<lparr>connect := \<lambda>w. (Returns False, w)\<rparr>"
      and w = example_kk_session and ?w1.0 = w0 and ?w2.0 = w0 and fuel = 2
      and command = "JStr ''press the button''",
      THEN conjunct2, THEN conjunct2, THEN conjunct2, THEN conjunct2, THEN conjunct1]
  from noconn sc
  have "handle_command (example_services\<lparr>connect := \<lambda>w. (Returns False, w)\<rparr>) 2 (JObj [(''command'', JStr ''press the button'')]) example_kk_session =
      Some (Returns ([(''status'', JStr ''error''),
         (''message'', JStr (''Command failed: '' @
            str_of (example_services\<lparr>connect := \<lambda>w. (Returns False, w)\<rparr>) (JStr ''press the button'')))], 200), w0)"
    by simp
  then have k4: "map_option fst (handle_command (example_services\<lparr>connect := \<lambda>w. (Returns False, w)\<rparr>) 2 (JObj [(''command'', JStr ''press the button'')]) example_kk_session) =
     Some (Returns ([(''status'', JStr ''error''),
                   (''message'', JStr ''Command failed: press the button'')], 200))"
    by (simp add: n)

  txt \<open>kk.py: the planner raises.\<close>
  note noplan = run_status_of_entry_points[where sv = "example_services\<lparr>parse_command := \<lambda>html command previous w. (Raises ValueError, w)\<rparr>"
      and w = example_kk_session and ?w1.0 = w0 and ?w2.0 = w3
      and html = "JStr ''<html></html>''" and ?w3.0 = w4 and ?w4.0 = w4 and e = ValueError
      and fuel = "Suc 0" and command = "JStr ''press the button''",
      THEN conjunct2, THEN conjunct2, THEN conjunct2, THEN conjunct2, THEN conjunct2,
      THEN conjunct1]
  from noplan sp st
  have "handle_command (example_services\<lparr>parse_command := \<lambda>html command previous w. (Raises ValueError, w)\<rparr>) (Suc (Suc 0)) (JObj [(''command'', JStr ''press the button'')]) example_kk_session =
      Some (Returns ([(''status'', JStr ''error''),
         (''message'', JStr (''Command failed: '' @
            str_of (example_services\<lparr>parse_command := \<lambda>html command previous w. (Raises ValueError, w)\<rparr>) (JStr ''press the button'')))], 200), w4)"
    by simp
  then have k5: "map_option fst (handle_command (example_services\<lparr>parse_command := \<lambda>html command previous w. (Raises ValueError, w)\<rparr>) 2 (JObj [(''command'', JStr ''press the button'')]) example_kk_session) =
     Some (Returns ([(''status'', JStr ''error''),
                   (''message'', JStr ''Command failed: press the button'')], 200))"
    by (simp add: n numeral_2_eq_2)
  from o1 o2 o3 o4 o5 k1 k2 k3 k4 k5 show ?thesis by (intro conjI)
qed

text \<open>
  kk.py: the planner's first step is a click that fails in all three attempts (the
  browser never answers), its second reply is the completion signal. The reply reports
  \<open>success\<close>, not a partial run, and carries no history.
\<close>

theorem failed_step_reported_as_success_counterexample:
  "fst (attempts 3 click_step
     (snd (kk_get_clean_html example_services
        (snd (connect example_services
           (snd (start_browser example_services example_kk_session))))))) = Returns False \<and>
   map_option fst
     (handle_command example_services 2 (JObj [(''command'', JStr ''press the button'')]) example_kk_session) =
   Some (Returns ([(''status'', JStr ''success''),
                   (''message'', JStr ''Command completed: press the button'')], 200))"
  using example_run by auto

subsection \<open>Selectors and texts inside the scripts\<close>

















subsection \<open>\<open>press_enter\<close>\<close>

lemma send_command_outbox:
  "outbox (snd (send_command m p w)) = outbox w @ [command_frame (command_id w) m p]"
  by (simp add: send_command_def Let_def wait_response_frame)

lemma kk_send_command_outbox:
  "outbox (snd (kk_send_command m p w)) = outbox w @ [command_frame (command_id w) m p]"
  by (simp add: kk_send_command_def Let_def kk_wait_response_frame)

lemma send_command_command_id: "command_id (snd (send_command m p w)) = command_id w + 1"
  by (simp add: send_command_ids)

lemma kk_send_command_command_id: "command_id (snd (kk_send_command m p w)) = command_id w + 1"
  by (simp add: kk_send_command_ids)

lemma execute_script_sent:
  "outbox (snd (execute_script b s w)) =
     outbox w @ [command_frame (command_id w) ''Runtime.evaluate'' (evaluate_params b s)] \<and>
   command_id (snd (execute_script b s w)) = command_id w + 1"
  using send_command_outbox[of "''Runtime.evaluate''" "evaluate_params b s" w]
        send_command_command_id[of "''Runtime.evaluate''" "evaluate_params b s" w]
  by (cases "send_command ''Runtime.evaluate'' (evaluate_params b s) w")
     (auto simp add: execute_script_def and_then_def split: outcome.splits)

lemma kk_execute_js_sent:
  "outbox (snd (kk_execute_js s w)) =
     outbox w @ [command_frame (command_id w) ''Runtime.evaluate'' (evaluate_params True s)] \<and>
   command_id (snd (kk_execute_js s w)) = command_id w + 1"
  using kk_send_command_outbox[of "''Runtime.evaluate''" "evaluate_params True s" w]
        kk_send_command_command_id[of "''Runtime.evaluate''" "evaluate_params True s" w]
  by (cases "kk_send_command ''Runtime.evaluate'' (evaluate_params True s) w")
     (auto simp add: kk_execute_js_def split: outcome.splits json.splits)

lemma sleep_sent [simp]: "outbox (sleep n w) = outbox w" "command_id (sleep n w) = command_id w"
  by (simp_all add: sleep_def)

lemma ooo_press_enter_try_sent:
  fixes w :: world
  assumes "fst (ooo_press_enter_try selector w) = Returns ()"
  shows "\<exists>result.
     fst (execute_script True (ooo_press_enter_script selector)
            (sleep 500 (snd (execute_script True (ooo_press_enter_focus_script selector) w)))) =
       Returns result \<and>
     outbox (snd (ooo_press_enter_try selector w)) =
       outbox w @
       [command_frame (command_id w) ''Runtime.evaluate''
          (evaluate_params True (ooo_press_enter_focus_script selector)),
        command_frame (command_id w + 1) ''Runtime.evaluate''
          (evaluate_params True (ooo_press_enter_script selector))] @
       (if truthy result then []
        else [command_frame (command_id w + 2) ''Input.dispatchKeyEvent'' (key_event ''keyDown''),
              command_frame (command_id w + 3) ''Input.dispatchKeyEvent'' (key_event ''keyUp'')])"
proof -
  obtain r1 w1 where e1: "execute_script True (ooo_press_enter_focus_script selector) w = (r1, w1)"
    by (cases "execute_script True (ooo_press_enter_focus_script selector) w")
  obtain r2 w2 where e2: "execute_script True (ooo_press_enter_script selector) (sleep 500 w1) = (r2, w2)"
    by (cases "execute_script True (ooo_press_enter_script selector) (sleep 500 w1)")
  obtain r3 w3 where e3: "send_command ''Input.dispatchKeyEvent'' (key_event ''keyDown'') w2 = (r3, w3)"
    by (cases "send_command ''Input.dispatchKeyEvent'' (key_event ''keyDown'') w2")
  obtain r4 w4 where e4: "send_command ''Input.dispatchKeyEvent'' (key_event ''keyUp'') w3 = (r4, w4)"
    by (cases "send_command ''Input.dispatchKeyEvent'' (key_event ''keyUp'') w3")
  have s1: "outbox w1 = outbox w @ [command_frame (command_id w) ''Runtime.evaluate''
          (evaluate_params True (ooo_press_enter_focus_script selector))]"
      "command_id w1 = command_id w + 1"
    using execute_script_sent[of True "ooo_press_enter_focus_script selector" w] e1 by simp_all
  have s2: "outbox w2 = outbox w1 @ [command_frame (command_id w1) ''Runtime.evaluate''
          (evaluate_params True (ooo_press_enter_script selector))]"
      "command_id w2 = command_id w1 + 1"
    using execute_script_sent[of True "ooo_press_enter_script selector" "sleep 500 w1"] e2 by simp_all
  have s3: "outbox w3 = outbox w2 @ [command_frame (command_id w2) ''Input.dispatchKeyEvent'' (key_event ''keyDown'')]"
      "command_id w3 = command_id w2 + 1"
    using send_command_outbox[of "''Input.dispatchKeyEvent''" "key_event ''keyDown''" w2]
          send_command_command_id[of "''Input.dispatchKeyEvent''" "key_event ''keyDown''" w2] e3 by simp_all
  have s4: "outbox w4 = outbox w3 @ [command_frame (command_id w3) ''Input.dispatchKeyEvent'' (key_event ''keyUp'')]"
    using send_command_outbox[of "''Input.dispatchKeyEvent''" "key_event ''keyUp''" w3] e4 by simp
  from assms obtain result where r1: "\<exists>v. r1 = Returns v" and r2: "r2 = Returns result"
    by (cases r1; cases r2) (auto simp add: ooo_press_enter_try_def and_then_def e1 e2)
  have "outbox (snd (ooo_press_enter_try selector w)) =
       outbox w @
       [command_frame (command_id w) ''Runtime.evaluate''
          (evaluate_params True (ooo_press_enter_focus_script selector)),
        command_frame (command_id w + 1) ''Runtime.evaluate''
          (evaluate_params True (ooo_press_enter_script selector))] @
       (if truthy result then []
        else [command_frame (command_id w + 2) ''Input.dispatchKeyEvent'' (key_event ''keyDown''),
              command_frame (command_id w + 3) ''Input.dispatchKeyEvent'' (key_event ''keyUp'')])"
    using assms r1 r2 s1 s2 s3 s4
    by (cases r3; cases r4)
       (auto simp add: ooo_press_enter_try_def and_then_def e1 e2 e3 e4 add.commute)
  with r2 e1 e2 show ?thesis by simp
qed

lemma kk_press_enter_sent:
  fixes w :: world
  assumes "fst (kk_press_enter target w) = Returns b"
  shows "b \<and>
     outbox (snd (kk_press_enter target w)) =
       outbox (snd (kk_focus target w)) @
       [command_frame (command_id (snd (kk_focus target w))) ''Input.dispatchKeyEvent''
          (key_event ''keyDown''),
        command_frame (command_id (snd (kk_focus target w)) + 1) ''Input.dispatchKeyEvent''
          (key_event ''keyUp''),
        command_frame (command_id (snd (kk_focus target w)) + 2) ''Runtime.evaluate''
          (evaluate_params True kk_submit_form_script)]"
proof -
  obtain r0 w0 where e0: "kk_focus target w = (r0, w0)" by (cases "kk_focus target w")
  obtain r1 w1 where e1: "kk_send_command ''Input.dispatchKeyEvent'' (key_event ''keyDown'') w0 = (r1, w1)"
    by (cases "kk_send_command ''Input.dispatchKeyEvent'' (key_event ''keyDown'') w0")
  obtain r2 w2 where e2: "kk_send_command ''Input.dispatchKeyEvent'' (key_event ''keyUp'') w1 = (r2, w2)"
    by (cases "kk_send_command ''Input.dispatchKeyEvent'' (key_event ''keyUp'') w1")
  obtain r3 w3 where e3: "kk_execute_js kk_submit_form_script w2 = (r3, w3)"
    by (cases "kk_execute_js kk_submit_form_script w2")
  have s1: "outbox w1 = outbox w0 @ [command_frame (command_id w0) ''Input.dispatchKeyEvent'' (key_event ''keyDown'')]"
      "command_id w1 = command_id w0 + 1"
    using kk_send_command_outbox[of "''Input.dispatchKeyEvent''" "key_event ''keyDown''" w0]
          kk_send_command_command_id[of "''Input.dispatchKeyEvent''" "key_event ''keyDown''" w0] e1
    by simp_all
  have s2: "outbox w2 = outbox w1 @ [command_frame (command_id w1) ''Input.dispatchKeyEvent'' (key_event ''keyUp'')]"
      "command_id w2 = command_id w1 + 1"
    using kk_send_command_outbox[of "''Input.dispatchKeyEvent''" "key_event ''keyUp''" w1]
          kk_send_command_command_id[of "''Input.dispatchKeyEvent''" "key_event ''keyUp''" w1] e2
    by simp_all
  have s3: "outbox w3 = outbox w2 @ [command_frame (command_id w2) ''Runtime.evaluate''
          (evaluate_params True kk_submit_form_script)]"
    using kk_execute_js_sent[of kk_submit_form_script w2] e3 by simp
  show ?thesis
    using assms s1 s2 s3
    by (cases r0; cases r1; cases r2; cases r3)
       (auto simp add: kk_press_enter_def and_then_def e0 e1 e2 e3 add.commute)
qed

text \<open>
  The scripts of \<open>press_enter\<close> in ooo.py and the focus script of kk.py hold a
  \<open>return\<close> outside any function, whatever selector is put into them, as long as it
  does not leave the string literal.
\<close>

lemma js_run_append:
  "js_run mode acc (xs @ ys) =
     (case js_run mode acc xs of
        None \<Rightarrow> None
      | Some (mode', acc') \<Rightarrow> js_run mode' acc' ys)"
  by (induction xs arbitrary: mode acc) (auto split: option.splits)

lemma js_run_string:
  "plain_for q s \<Longrightarrow> js_run (In_string q) acc s = Some (In_string q, acc)"
  by (induction s) (auto simp add: plain_for_def js_line_end_def)

lemmas js_simps = js_tokens_def js_code_step_def js_word_char_def js_blank_def
  js_line_end_def js_head_words_def js_run_append js_run_string

lemma ooo_press_enter_focus_script_illegal: "plain_for (CHR 0x22) selector \<Longrightarrow>
     illegal_return (ooo_press_enter_focus_script selector)"
  by (simp add: illegal_return_def ooo_press_enter_focus_script_def js_simps del: append.simps)
     (simp add: js_head_words_def)

lemma ooo_press_enter_script_illegal: "plain_for (CHR 0x22) selector \<Longrightarrow>
     illegal_return (ooo_press_enter_script selector)"
  by (simp add: illegal_return_def ooo_press_enter_script_def js_simps del: append.simps)
     (simp add: js_head_words_def)

lemma kk_press_enter_focus_script_illegal: "plain_for (CHR 0x27) selector \<Longrightarrow>
     illegal_return (kk_press_enter_focus_script selector)"
  by (simp add: illegal_return_def kk_press_enter_focus_script_def js_simps del: append.simps)
     (simp add: js_head_words_def)

lemma ooo_enter_session_run:
  "ooo_press_enter_try ''#q'' ooo_enter_session =
     (Returns (),
      \<lparr>command_id = 3, current_url = None, now = 2520,
       outbox = [command_frame 1 ''Runtime.evaluate''
                   (evaluate_params True (ooo_press_enter_focus_script ''#q'')),
                 command_frame 2 ''Runtime.evaluate''
                   (evaluate_params True (ooo_press_enter_script ''#q''))],
       ws_closed_from = None, response_queue = [], event_queue = [], load_fired = [],
       page_loaded_from = 0\<rparr>)"
  by (simp add: ooo_press_enter_try_def ooo_enter_session_def send_command_def Let_def
        ws_closed_def ooo_init_def has_key_def wait_response.simps deliver_def get_or_def
        and_then_def execute_script_def decode_result_def json_in_def subscript_def sleep_def
        syntax_error_reply_def)

lemma ooo_enter_session_results:
  "fst (execute_script True (ooo_press_enter_focus_script ''#q'') ooo_enter_session) =
     Returns (JStr ''SyntaxError: Illegal return statement'')"
  "fst (execute_script True (ooo_press_enter_script ''#q'')
          (sleep 500 (snd (execute_script True (ooo_press_enter_focus_script ''#q'')
                             ooo_enter_session)))) =
     Returns (JStr ''SyntaxError: Illegal return statement'')"
  by (simp_all add: ooo_enter_session_def send_command_def Let_def
        ws_closed_def ooo_init_def has_key_def wait_response.simps deliver_def get_or_def
        and_then_def execute_script_def decode_result_def json_in_def subscript_def sleep_def
        syntax_error_reply_def)

lemma kk_enter_session_focus:
  "fst (kk_execute_js (kk_press_enter_focus_script ''#q'') kk_enter_session) = Returns JNull"
  by (simp add: kk_enter_session_def kk_execute_js_def kk_send_command_def Let_def ws_closed_def
        kk_init_def has_key_def kk_wait_response.simps kk_deliver_def get_or_def and_then_def
        sleep_def syntax_error_reply_def undefined_reply_def)

lemma kk_enter_session_run:
  "kk_press_enter (Some ''#q'') kk_enter_session =
     (Returns True,
      \<lparr>command_id = 6, current_url = None, now = 2050,
       outbox = [command_frame 1 ''Runtime.evaluate''
                   (evaluate_params True (kk_press_enter_focus_script ''#q'')),
                 command_frame 2 ''Runtime.evaluate''
                   (evaluate_params True kk_focus_active_script),
                 command_frame 3 ''Input.dispatchKeyEvent'' (key_event ''keyDown''),
                 command_frame 4 ''Input.dispatchKeyEvent'' (key_event ''keyUp''),
                 command_frame 5 ''Runtime.evaluate'' (evaluate_params True kk_submit_form_script)],
       ws_closed_from = None, response_queue = [], event_queue = [], load_fired = [],
       page_loaded_from = 0\<rparr>)"
  by (simp add: kk_press_enter_def kk_focus_def
        kk_enter_session_def kk_execute_js_def kk_send_command_def Let_def ws_closed_def
        kk_init_def has_key_def kk_wait_response.simps kk_deliver_def get_or_def and_then_def
        sleep_def syntax_error_reply_def undefined_reply_def)

text \<open>
  C8, as the code has it on \<open>press_enter('#q')\<close>. ooo.py: the script that is to focus the
  element and the script that is to dispatch \<open>keydown\<close>, \<open>keypress\<close> and \<open>keyup\<close> and to
  submit the form each hold a \<open>return\<close> outside any function, so the browser refuses them
  and nothing of them runs. In the session where the browser answers so,
  \<open>execute_script\<close> gives the description of the exception, a string that is not empty;
  \<open>press_enter\<close> takes that for a success, sends no key event through
  \<open>Input.dispatchKeyEvent\<close> either, and returns: two \<open>Runtime.evaluate\<close> frames are all
  that it sent. kk.py: the focus script is refused in the same way and \<open>execute_js\<close>
  gives \<open>None\<close>; \<open>press_enter\<close> then sends the script on \<open>document.activeElement\<close>,
  \<open>keyDown\<close> and \<open>keyUp\<close> through \<open>Input.dispatchKeyEvent\<close> and the fixed script on
  \<open>document.querySelector('form')\<close>, and returns \<open>True\<close>.
\<close>

theorem press_enter_scripts_are_refused:
  "illegal_return (ooo_press_enter_focus_script ''#q'') \<and>
   illegal_return (ooo_press_enter_script ''#q'') \<and>
   fst (execute_script True (ooo_press_enter_focus_script ''#q'') ooo_enter_session) =
     Returns (JStr ''SyntaxError: Illegal return statement'') \<and>
   fst (execute_script True (ooo_press_enter_script ''#q'')
          (sleep 500 (snd (execute_script True (ooo_press_enter_focus_script ''#q'')
                             ooo_enter_session)))) =
     Returns (JStr ''SyntaxError: Illegal return statement'') \<and>
   fst (ooo_press_enter ''#q'' ooo_enter_session) = Returns () \<and>
   outbox (snd (ooo_press_enter ''#q'' ooo_enter_session)) =
     [command_frame 1 ''Runtime.evaluate''
        (evaluate_params True (ooo_press_enter_focus_script ''#q'')),
      command_frame 2 ''Runtime.evaluate''
        (evaluate_params True (ooo_press_enter_script ''#q''))] \<and>
   illegal_return (kk_press_enter_focus_script ''#q'') \<and>
   fst (kk_execute_js (kk_press_enter_focus_script ''#q'') kk_enter_session) = Returns JNull \<and>
   fst (kk_press_enter (Some ''#q'') kk_enter_session) = Returns True \<and>
   outbox (snd (kk_press_enter (Some ''#q'') kk_enter_session)) =
     [command_frame 1 ''Runtime.evaluate''
        (evaluate_params True (kk_press_enter_focus_script ''#q'')),
      command_frame 2 ''Runtime.evaluate'' (evaluate_params True kk_focus_active_script),
      command_frame 3 ''Input.dispatchKeyEvent'' (key_event ''keyDown''),
      command_frame 4 ''Input.dispatchKeyEvent'' (key_event ''keyUp''),
      command_frame 5 ''Runtime.evaluate'' (evaluate_params True kk_submit_form_script)]"
proof -
  have p: "plain_for (CHR 0x22) ''#q''" "plain_for (CHR 0x27) ''#q''"
    by (simp_all add: plain_for_def)
  have o: "ooo_press_enter ''#q'' ooo_enter_session = ooo_press_enter_try ''#q'' ooo_enter_session"
    by (simp add: ooo_press_enter_def try_except_def ooo_enter_session_run)
  show ?thesis
    using ooo_press_enter_focus_script_illegal[OF p(1)] ooo_press_enter_script_illegal[OF p(1)]
      kk_press_enter_focus_script_illegal[OF p(2)] ooo_enter_session_results
      kk_enter_session_focus
    by (simp add: o ooo_enter_session_run kk_enter_session_run)
qed

end
